theory Spec2Isabelle
  imports Complex_Main "HOL-Library.Log_Nat"
begin

section \<open>Common data\<close>

text \<open>
  The repository computes on C++ \<open>double\<close>s held in Eigen and iDynTree vectors. A
  \<open>double\<close> in them is read here as a \<open>real\<close>, without rounding; the conversions of
  \<open>HumanIK::setDt\<close> and \<open>HumanIK::getDt\<close> between seconds and nanoseconds, which compute on
  single \<open>double\<close>s, are modelled with the rounding of the \<open>double\<close>. A dynamically
  sized vector (\<open>Eigen::VectorXd\<close>, \<open>iDynTree::VectorDynSize\<close>) and a fixed-size block
  (\<open>Vector3d\<close>, \<open>Matrix3d\<close> in row-major order, \<open>Vector6d\<close>) are lists of coefficients.
\<close>

type_synonym vec = "real list"

section \<open>Undefined behaviour\<close>

text \<open>
  The code dereferences pointers and indexes vectors without a check in several places.
  Where the pointer is null or the index is out of range, C++ leaves the behaviour
  undefined; the model stops there with a fault instead of a state.
\<close>

datatype fault = NullPointer | OutOfRange

definition read_at :: "int \<Rightarrow> 'a list \<Rightarrow> fault + 'a" where
  "read_at i v = (if 0 \<le> i \<and> i < int (length v) then Inr (v ! nat i) else Inl OutOfRange)"

definition write_at :: "int \<Rightarrow> 'a \<Rightarrow> 'a list \<Rightarrow> fault + 'a list" where
  "write_at i x v = (if 0 \<le> i \<and> i < int (length v) then Inr (v[nat i := x]) else Inl OutOfRange)"

text \<open>
  \<open>for (int j = 0; j < 6; j++) v(offset + j) = w(j)\<close>: the coefficients are written in
  order from the offset.
\<close>

fun write_block :: "int \<Rightarrow> real list \<Rightarrow> vec \<Rightarrow> fault + vec" where
  "write_block offset [] v = Inr v"
| "write_block offset (x # xs) v =
     (case write_at offset x v of
        Inl f \<Rightarrow> Inl f
      | Inr v' \<Rightarrow> write_block (offset + 1) xs v')"

section \<open>Configuration\<close>

text \<open>
  A parameters handler (\<open>BipedalLocomotion::ParametersHandler::IParametersHandler\<close>) is a
  tree of groups, each with named parameters. \<open>getParameter(name, x)\<close> returns false when
  the group has no parameter of that name and of the type of \<open>x\<close>, and then leaves \<open>x\<close> as
  it was; \<open>getGroup(name).lock()\<close> is null when the group has no such subgroup.
\<close>

datatype param =
  ParamInt int
| ParamDouble real
| ParamString string
| ParamStringVector "string list"
| ParamDoubleVector "real list"

datatype handler = Handler "(string \<times> param) list" "(string \<times> handler) list"

fun getParameter :: "handler \<Rightarrow> string \<Rightarrow> param option" where
  "getParameter (Handler ps gs) name = map_of ps name"

fun getGroup :: "handler \<Rightarrow> string \<Rightarrow> handler option" where
  "getGroup (Handler ps gs) name = map_of gs name"

definition getParameter_int :: "handler \<Rightarrow> string \<Rightarrow> int option" where
  "getParameter_int h name = (case getParameter h name of Some (ParamInt x) \<Rightarrow> Some x | _ \<Rightarrow> None)"

definition getParameter_double :: "handler \<Rightarrow> string \<Rightarrow> real option" where
  "getParameter_double h name =
     (case getParameter h name of Some (ParamDouble x) \<Rightarrow> Some x | _ \<Rightarrow> None)"

definition getParameter_string :: "handler \<Rightarrow> string \<Rightarrow> string option" where
  "getParameter_string h name =
     (case getParameter h name of Some (ParamString x) \<Rightarrow> Some x | _ \<Rightarrow> None)"

definition getParameter_strings :: "handler \<Rightarrow> string \<Rightarrow> string list option" where
  "getParameter_strings h name =
     (case getParameter h name of Some (ParamStringVector x) \<Rightarrow> Some x | _ \<Rightarrow> None)"

definition getParameter_doubles :: "handler \<Rightarrow> string \<Rightarrow> real list option" where
  "getParameter_doubles h name =
     (case getParameter h name of Some (ParamDoubleVector x) \<Rightarrow> Some x | _ \<Rightarrow> None)"

section \<open>Inverse kinematics: \<open>HumanIK\<close> (src/IK/src/InverseKinematics.cpp)\<close>

subsection \<open>State\<close>

text \<open>
  \<open>m_basePose\<close> is an \<open>Eigen::Matrix4d\<close>. The code reads and writes two of its blocks,
  \<open>topLeftCorner<3,3>()\<close> (the rotation) and \<open>topRightCorner<3,1>()\<close> (the position);
  the bottom row is the rest of the matrix.
\<close>

record Matrix4d =
  topLeftCorner :: vec
  topRightCorner :: vec
  bottomRow :: vec

text \<open>
  One entry of \<open>m_OrientationTasks\<close>. \<open>'r\<close> is \<open>manif::SO3d\<close>; \<open>'task\<close> is the state of
  the \<open>BipedalLocomotion::IK::SO3Task\<close> the entry points to.
\<close>

record ('r, 'task) OrientationTaskStruct =
  task :: 'task
  nodeNumber :: int
  IMU_R_link :: 'r
  calibrationMatrix :: 'r

text \<open>
  One entry of \<open>m_GravityTasks\<close>: \<open>'g\<close> is the state of the \<open>GravityTask\<close>, \<open>'w\<close> that of
  its \<open>MultiStateWeightProvider\<close>.
\<close>

record ('g, 'w) GravityTaskStruct =
  gravity_task :: 'g
  gravity_nodeNumber :: int
  weightProvider :: 'w

text \<open>The output of the QP solver (\<open>m_qpIK.getOutput()\<close>).\<close>

record qp_output =
  jointVelocity :: vec
  baseVelocity :: vec

text \<open>
  The members of \<open>HumanIK\<close>. \<open>'kin\<close> is the \<open>iDynTree::KinDynComputations\<close> object behind
  \<open>m_kinDyn\<close>, \<open>'sys\<close> the pair of the dynamical system and its integrator (\<open>m_system\<close>),
  \<open>'qp\<close> the solver \<open>m_qpIK\<close>. \<open>m_variableHandler\<close> is kept as the list of the variables
  added to it. \<open>m_dtIntegration\<close> is a \<open>std::chrono::nanoseconds\<close>: a signed 64-bit count,
  kept as an \<open>int\<close> that \<open>setDt\<close> only stores when it fits.

  \<open>m_kinDyn\<close> and the two pointers of \<open>m_system\<close> are null in a \<open>HumanIK\<close> that was never
  initialised. \<open>initialize\<close> assigns them before it reads them, so its model takes any
  state; \<open>setDt\<close> is modelled with the pointer to the integrator; the other operations are
  modelled for an object on which \<open>initialize\<close> has got past the check of the model, where
  the pointers are set.
\<close>

record ('r, 'task, 'g, 'w, 'qp, 'kin, 'sys) HumanIK =
  m_kinDyn :: 'kin
  m_jointPositions :: vec
  m_jointVelocities :: vec
  m_basePose :: Matrix4d
  m_baseVelocity :: vec
  m_gravity :: vec
  m_system :: 'sys
  m_qpIK :: 'qp
  m_OrientationTasks :: "int \<rightharpoonup> ('r, 'task) OrientationTaskStruct"
  m_GravityTasks :: "int \<rightharpoonup> ('g, 'w) GravityTaskStruct"
  m_variableHandler :: "(string \<times> nat) list"
  m_nrDoFs :: int
  m_dtIntegration :: int
  I_R_link :: 'r
  calib_R_link :: 'r

subsection \<open>The libraries \<open>HumanIK\<close> calls\<close>

text \<open>
  manif, BipedalLocomotion and iDynTree are not part of the repository. Each call the
  code makes into them is a field of this record, so that every theorem below holds for
  whatever the libraries compute. A call that mutates a library object returns the new
  object; a call that reports success returns the flag first. \<open>system_make\<close> stands for
  the four statements that make the dynamical system with its state and the integrator on
  it. The two \<open>default\<close> fields are the entries that \<open>operator[]\<close> makes in the task maps
  for a new key, as the header declares the structs; \<open>eigen_indeterminate\<close> is the content
  of a vector after a \<open>resize\<close> that changes its size.
\<close>

record ('r, 'task, 'g, 'w, 'qp, 'kin, 'sys) ik_lib =
  so3_compose :: "'r \<Rightarrow> 'r \<Rightarrow> 'r"
  so3_inverse :: "'r \<Rightarrow> 'r"
  so3_rotation :: "'r \<Rightarrow> vec"
  task_setSetPoint :: "'r \<Rightarrow> vec \<Rightarrow> 'task \<Rightarrow> bool \<times> 'task"
  qp_advance :: "'kin \<Rightarrow> (int \<rightharpoonup> 'task) \<Rightarrow> 'qp \<Rightarrow> bool \<times> 'qp"
  qp_isOutputValid :: "'qp \<Rightarrow> bool"
  qp_getOutput :: "'qp \<Rightarrow> qp_output"
  dynamics_setControlInput :: "vec \<times> vec \<Rightarrow> 'sys \<Rightarrow> bool \<times> 'sys"
  integrator_setIntegrationStep :: "int \<Rightarrow> 'sys \<Rightarrow> bool \<times> 'sys"
  integrator_integrate :: "int \<Rightarrow> int \<Rightarrow> 'sys \<Rightarrow> bool \<times> 'sys"
  integrator_getSolution :: "'sys \<Rightarrow> vec \<times> 'r \<times> vec"
  kinDyn_setRobotState :: "Matrix4d \<Rightarrow> vec \<Rightarrow> vec \<Rightarrow> vec \<Rightarrow> vec \<Rightarrow> 'kin \<Rightarrow> 'kin"
  kinDyn_isValid :: "'kin \<Rightarrow> bool"
  kinDyn_getNrOfDegreesOfFreedom :: "'kin \<Rightarrow> nat"
  kinDyn_getRobotState :: "'kin \<Rightarrow> Matrix4d \<times> vec \<times> vec \<times> vec \<times> vec"
  toManifRot :: "vec \<Rightarrow> 'r"
  so3_identity :: 'r
  system_make :: "vec \<Rightarrow> 'r \<Rightarrow> vec \<Rightarrow> 'sys"
  eigen_indeterminate :: "nat \<Rightarrow> real"
  default_OrientationTaskStruct :: "('r, 'task) OrientationTaskStruct"
  default_GravityTaskStruct :: "('g, 'w) GravityTaskStruct"
  task_make :: 'task
  task_setKinDyn :: "'kin \<Rightarrow> 'task \<Rightarrow> bool \<times> 'task"
  task_initialize :: "handler \<Rightarrow> 'task \<Rightarrow> bool \<times> 'task"
  gravityTask_make :: 'g
  gravityTask_setKinDyn :: "'kin \<Rightarrow> 'g \<Rightarrow> bool \<times> 'g"
  gravityTask_initialize :: "handler \<Rightarrow> 'g \<Rightarrow> bool \<times> 'g"
  weightProvider_make :: 'w
  weightProvider_initialize :: "handler \<Rightarrow> 'w \<Rightarrow> bool \<times> 'w"
  qp_initialize :: "handler option \<Rightarrow> 'qp \<Rightarrow> bool \<times> 'qp"
  qp_addTask :: "'task \<Rightarrow> string \<Rightarrow> nat \<Rightarrow> vec \<Rightarrow> 'qp \<Rightarrow> bool \<times> 'qp"
  qp_addGravityTask :: "'g \<Rightarrow> string \<Rightarrow> nat \<Rightarrow> 'w \<Rightarrow> 'qp \<Rightarrow> bool \<times> 'qp"
  qp_finalize :: "(string \<times> nat) list \<Rightarrow> 'qp \<Rightarrow> 'qp"

subsection \<open>\<open>initialize\<close>\<close>

text \<open>
  \<open>Eigen::VectorXd::resize\<close> keeps a vector of the size asked for and leaves any other
  indeterminate. \<open>getRobotState\<close> writes the joint vectors through spans over the caller's
  vectors, which cannot change their size.
\<close>

definition eigen_resize :: "(nat \<Rightarrow> real) \<Rightarrow> nat \<Rightarrow> vec \<Rightarrow> vec" where
  "eigen_resize fill n v = (if length v = n then v else map fill [0 ..< n])"

definition span_write :: "vec \<Rightarrow> vec \<Rightarrow> vec" where
  "span_write buffer xs = (if length xs = length buffer then xs else buffer)"

text \<open>
  The statements of \<open>initialize\<close> from \<open>m_kinDyn = kinDyn\<close> to \<open>m_nrDoFs = ...\<close>, which
  no check interrupts.
\<close>

definition initialize_state ::
  "('r, 'task, 'g, 'w, 'qp, 'kin, 'sys) ik_lib \<Rightarrow> ('r, 'task, 'g, 'w, 'qp, 'kin, 'sys) HumanIK
     \<Rightarrow> 'kin \<Rightarrow> ('r, 'task, 'g, 'w, 'qp, 'kin, 'sys) HumanIK" where
  "initialize_state L st k =
     (let n = kinDyn_getNrOfDegreesOfFreedom L k;
          (H, s, v, s_dot, g) = kinDyn_getRobotState L k;
          q = span_write (eigen_resize (eigen_indeterminate L) n (m_jointPositions st)) s;
          dq = span_write (eigen_resize (eigen_indeterminate L) n (m_jointVelocities st)) s_dot
      in st\<lparr>m_kinDyn := k, m_jointPositions := q, m_jointVelocities := dq, m_basePose := H,
            m_baseVelocity := v, m_gravity := g,
            m_system := system_make L (topRightCorner H) (toManifRot L (topLeftCorner H)) q,
            m_nrDoFs := int n\<rparr>)"

text \<open>
  The branch of the loop over the tasks for an \<open>SO3Task\<close>. \<open>None\<close> stands for \<open>return
  false\<close>; otherwise the loop goes on with the flag \<open>ok\<close>, which is true then. The nine
  coefficients of \<open>rotation_matrix\<close> are read through an \<open>Eigen::Map\<close> without a check of
  the length. \<open>Weight\<close> is \<open>(10, 10, 10)\<close> and \<open>lowPriority\<close> is 1.
\<close>

definition initialize_SO3Task ::
  "('r, 'task, 'g, 'w, 'qp, 'kin, 'sys) ik_lib \<Rightarrow> 'kin \<Rightarrow> string \<Rightarrow> handler \<Rightarrow> bool
     \<Rightarrow> ('r, 'task, 'g, 'w, 'qp, 'kin, 'sys) HumanIK
     \<Rightarrow> fault + bool option \<times> ('r, 'task, 'g, 'w, 'qp, 'kin, 'sys) HumanIK" where
  "initialize_SO3Task L k name taskHandler ok st =
     (case getParameter_int taskHandler ''node_number'' of
        None \<Rightarrow> Inr (None, st)
      | Some n \<Rightarrow>
          (let e0 = (case m_OrientationTasks st n of
                       None \<Rightarrow> default_OrientationTaskStruct L
                     | Some e \<Rightarrow> e)\<lparr>nodeNumber := n, task := task_make L\<rparr>
           in case (case getParameter_doubles taskHandler ''rotation_matrix'' of
                      Some rotation_matrix \<Rightarrow>
                        if length rotation_matrix < 9 then Inl OutOfRange
                        else Inr (toManifRot L (take 9 rotation_matrix))
                    | None \<Rightarrow> Inr (so3_identity L)) of
                Inl f \<Rightarrow> Inl f
              | Inr R \<Rightarrow>
                  (let e1 = e0\<lparr>IMU_R_link := R\<rparr>;
                       (ok1, t1) = (if ok then task_setKinDyn L k (task e1) else (False, task e1));
                       (ok2, t2) = (if ok1 then task_initialize L taskHandler t1 else (False, t1));
                       (ok3, qp') = (if ok2 then qp_addTask L t2 name 1 [10, 10, 10] (m_qpIK st)
                                     else (False, m_qpIK st));
                       st' = st\<lparr>m_OrientationTasks := (m_OrientationTasks st)(n \<mapsto> e1\<lparr>task := t2\<rparr>),
                                m_qpIK := qp'\<rparr>
                   in Inr (if ok3 then Some True else None, st'))))"

definition initializeGravityTask ::
  "('r, 'task, 'g, 'w, 'qp, 'kin, 'sys) ik_lib \<Rightarrow> ('r, 'task, 'g, 'w, 'qp, 'kin, 'sys) HumanIK
     \<Rightarrow> string \<Rightarrow> handler \<Rightarrow> bool \<times> ('r, 'task, 'g, 'w, 'qp, 'kin, 'sys) HumanIK" where
  "initializeGravityTask L st taskName taskHandler =
     (case getParameter_int taskHandler ''node_number'' of
        None \<Rightarrow> (False, st)
      | Some n \<Rightarrow>
          (let g0 = (case m_GravityTasks st n of
                       None \<Rightarrow> default_GravityTaskStruct L
                     | Some g \<Rightarrow> g)\<lparr>gravity_nodeNumber := n, gravity_task := gravityTask_make L,
                                     weightProvider := weightProvider_make L\<rparr>;
               (okw, w1) = weightProvider_initialize L taskHandler (weightProvider g0);
               g1 = g0\<lparr>weightProvider := w1\<rparr>;
               st1 = st\<lparr>m_GravityTasks := (m_GravityTasks st)(n \<mapsto> g1)\<rparr>
           in if \<not> okw then (False, st1)
              else
                (let (ok1, t1) = gravityTask_setKinDyn L (m_kinDyn st1) (gravity_task g1);
                     (ok2, t2) = (if ok1 then gravityTask_initialize L taskHandler t1
                                  else (False, t1));
                     (ok3, qp') = (if ok2 then qp_addGravityTask L t2 taskName 1 w1 (m_qpIK st1)
                                   else (False, m_qpIK st1))
                 in (ok3, st1\<lparr>m_GravityTasks := (m_GravityTasks st1)(n \<mapsto> g1\<lparr>gravity_task := t2\<rparr>),
                              m_qpIK := qp'\<rparr>))))"

text \<open>The loop over the names in \<open>tasks\<close>.\<close>

fun initialize_tasks ::
  "('r, 'task, 'g, 'w, 'qp, 'kin, 'sys) ik_lib \<Rightarrow> 'kin \<Rightarrow> handler \<Rightarrow> string list \<Rightarrow> bool
     \<Rightarrow> ('r, 'task, 'g, 'w, 'qp, 'kin, 'sys) HumanIK
     \<Rightarrow> fault + bool option \<times> ('r, 'task, 'g, 'w, 'qp, 'kin, 'sys) HumanIK" where
  "initialize_tasks L k ptr [] ok st = Inr (Some ok, st)"
| "initialize_tasks L k ptr (name # names) ok st =
     (case getGroup ptr name of
        None \<Rightarrow> Inr (None, st)
      | Some taskHandler \<Rightarrow>
          (case getParameter_string taskHandler ''type'' of
             None \<Rightarrow> Inr (None, st)
           | Some taskType \<Rightarrow>
               (if taskType = ''SO3Task'' then
                  (case initialize_SO3Task L k name taskHandler ok st of
                     Inl f \<Rightarrow> Inl f
                   | Inr (None, st') \<Rightarrow> Inr (None, st')
                   | Inr (Some ok', st') \<Rightarrow> initialize_tasks L k ptr names ok' st')
                else if taskType = ''GravityTask'' then
                  (let (okg, st') = initializeGravityTask L st name taskHandler
                   in if \<not> okg then Inr (None, st') else initialize_tasks L k ptr names ok st')
                else Inr (None, st))))"

text \<open>
  \<open>HumanIK::initialize\<close>. The handler is a weak pointer, checked after \<open>lock()\<close>; the
  \<open>IK\<close> group is locked and dereferenced without a check.
\<close>

definition HumanIK_initialize ::
  "('r, 'task, 'g, 'w, 'qp, 'kin, 'sys) ik_lib \<Rightarrow> ('r, 'task, 'g, 'w, 'qp, 'kin, 'sys) HumanIK
     \<Rightarrow> handler option \<Rightarrow> 'kin option
     \<Rightarrow> fault + bool \<times> ('r, 'task, 'g, 'w, 'qp, 'kin, 'sys) HumanIK" where
  "HumanIK_initialize L st handler kinDyn_arg =
     (case kinDyn_arg of
        None \<Rightarrow> Inr (False, st)
      | Some k \<Rightarrow>
          (if \<not> kinDyn_isValid L k then Inr (False, st)
           else
             (let st1 = initialize_state L st k
              in case handler of
                   None \<Rightarrow> Inr (False, st1)
                 | Some ptr \<Rightarrow>
                     (case getParameter_strings ptr ''tasks'' of
                        None \<Rightarrow> Inr (False, st1)
                      | Some tasks \<Rightarrow>
                          (let (ok, qp1) = qp_initialize L (getGroup ptr ''IK'') (m_qpIK st1);
                               st2 = st1\<lparr>m_qpIK := qp1\<rparr>
                           in case getGroup ptr ''IK'' of
                                None \<Rightarrow> Inl NullPointer
                              | Some group_ptr \<Rightarrow>
                                  (let variable =
                                         (case getParameter_string group_ptr
                                                 ''robot_velocity_variable_name'' of
                                            None \<Rightarrow> []
                                          | Some v \<Rightarrow> v);
                                       st3 = st2\<lparr>m_variableHandler := m_variableHandler st2 @
                                               [(variable, kinDyn_getNrOfDegreesOfFreedom L k + 6)]\<rparr>
                                   in case initialize_tasks L k ptr tasks ok st3 of
                                        Inl f \<Rightarrow> Inl f
                                      | Inr (None, st4) \<Rightarrow> Inr (False, st4)
                                      | Inr (Some ok', st4) \<Rightarrow>
                                          Inr (ok', st4\<lparr>m_qpIK :=
                                            qp_finalize L (m_variableHandler st4) (m_qpIK st4)\<rparr>)))))))"

subsection \<open>Double precision\<close>

text \<open>
  A \<open>double\<close> is an IEEE 754 binary64 number: a finite number, an infinity with its sign
  (\<open>Infinite True\<close> is the positive one), or not a number. The finite doubles are the
  numbers \<open>k * 2^q\<close> with \<open>\<bar>k\<bar> < 2^53\<close> and \<open>- 1074 \<le> q\<close> of a magnitude below \<open>2^1024\<close>.
  The sign of a zero is not kept: no operation below reads it.
\<close>

datatype double = Finite real | Infinite bool | NaN

text \<open>
  An arithmetic operation on doubles returns the double nearest to the exact result, the
  one with the even significand when two are equally near, and an infinity when the
  result rounded to 53 bits reaches \<open>2^1024\<close> (the rounding mode of a C++ program that has
  not changed it). \<open>floor_log2 x\<close> is the exponent \<open>e\<close> with \<open>2^e \<le> x < 2^(e+1)\<close> of a positive
  \<open>x\<close>; the doubles around \<open>x\<close> are the multiples of \<open>2^(e-52)\<close>, and of \<open>2^(-1074)\<close> for the
  subnormal ones.
\<close>

definition round_half_even :: "real \<Rightarrow> int" where
  "round_half_even x =
     (let n = \<lfloor>x\<rfloor>; r = x - real_of_int n
      in if r < 1 / 2 then n else if 1 / 2 < r then n + 1 else if even n then n else n + 1)"

definition floor_log2 :: "real \<Rightarrow> int" where
  "floor_log2 x = (if 1 \<le> x then bitlen \<lfloor>x\<rfloor> - 1 else - bitlen (\<lceil>1 / x\<rceil> - 1))"

definition double_round :: "real \<Rightarrow> double" where
  "double_round x =
     (if x = 0 then Finite 0
      else
        (let q = max (floor_log2 \<bar>x\<bar> - 52) (- 1074);
             y = real_of_int (round_half_even (x / 2 powi q)) * 2 powi q
         in if 2 ^ 1024 \<le> \<bar>y\<bar> then Infinite (0 < x) else Finite y))"

subsection \<open>\<open>setDt\<close> and \<open>getDt\<close>\<close>

text \<open>
  \<open>static_cast\<close> of a \<open>double\<close> to a 64-bit integer drops the fraction (towards zero).
\<close>

definition truncate_toward_zero :: "real \<Rightarrow> int" where
  "truncate_toward_zero x = (if 0 \<le> x then \<lfloor>x\<rfloor> else \<lceil>x\<rceil>)"

text \<open>
  \<open>std::chrono::duration_cast<std::chrono::nanoseconds>(std::chrono::duration<double>(dt))\<close>:
  the ratio of the two periods is \<open>10^9 / 1\<close> and the common representation is \<open>double\<close>, so
  the cast computes \<open>static_cast<int64_t>(dt * 1e9)\<close>, with the product a \<open>double\<close>. The
  product of an infinity or of a NaN with \<open>10^9\<close> is an infinity or a NaN. The conversion
  to the 64-bit count of a double that is not finite, or whose integer part is outside the
  range of the count, is undefined in C++.
\<close>

definition duration_cast_nanoseconds :: "double \<Rightarrow> fault + int" where
  "duration_cast_nanoseconds dt =
     (case dt of
        Finite x \<Rightarrow>
          (case double_round (x * 10 ^ 9) of
             Finite y \<Rightarrow>
               (let n = truncate_toward_zero y
                in if - (2 ^ 63) \<le> n \<and> n < 2 ^ 63 then Inr n else Inl OutOfRange)
           | Infinite s \<Rightarrow> Inl OutOfRange
           | NaN \<Rightarrow> Inl OutOfRange)
      | Infinite s \<Rightarrow> Inl OutOfRange
      | NaN \<Rightarrow> Inl OutOfRange)"

text \<open>
  \<open>std::chrono::duration_cast<std::chrono::duration<double>>(m_dtIntegration).count()\<close>:
  the ratio is \<open>1 / 10^9\<close>, so the cast computes \<open>static_cast<double>(count) / 1e9\<close>: the
  count is converted to the nearest double, and the quotient is a double.
\<close>

definition duration_cast_seconds :: "int \<Rightarrow> double" where
  "duration_cast_seconds n =
     (case double_round (real_of_int n) of
        Finite c \<Rightarrow> double_round (c / 10 ^ 9)
      | Infinite s \<Rightarrow> Infinite s
      | NaN \<Rightarrow> NaN)"

text \<open>
  \<open>setDt\<close> stores the count and then calls the integrator through \<open>m_system.integrator\<close>,
  a pointer that is null until \<open>initialize\<close> has made the integrator (lines 41 and 42).
  Its receiver is therefore a \<open>HumanIK\<close> whose \<open>m_system\<close> is \<open>None\<close> for the null pointer
  and \<open>Some\<close> of the objects otherwise. \<open>getDt\<close> reads the count of any \<open>HumanIK\<close>.
\<close>

definition setDt ::
  "('r, 'task, 'g, 'w, 'qp, 'kin, 'sys) ik_lib
     \<Rightarrow> ('r, 'task, 'g, 'w, 'qp, 'kin, 'sys option) HumanIK \<Rightarrow> double
     \<Rightarrow> fault + bool \<times> ('r, 'task, 'g, 'w, 'qp, 'kin, 'sys option) HumanIK" where
  "setDt L st dt =
     (case duration_cast_nanoseconds dt of
        Inl f \<Rightarrow> Inl f
      | Inr n \<Rightarrow>
          (let st1 = st\<lparr>m_dtIntegration := n\<rparr>
           in case m_system st1 of
                None \<Rightarrow> Inl NullPointer
              | Some integrator \<Rightarrow>
                  (let (ok, sys') = integrator_setIntegrationStep L (m_dtIntegration st1) integrator
                   in Inr (ok, st1\<lparr>m_system := Some sys'\<rparr>))))"

definition getDt :: "('r, 'task, 'g, 'w, 'qp, 'kin, 'sys) HumanIK \<Rightarrow> double" where
  "getDt st = duration_cast_seconds (m_dtIntegration st)"

text \<open>
  The members of \<open>st\<close> with \<open>p\<close> for \<open>m_system\<close>: \<open>with_system None st\<close> is the object
  before \<open>initialize\<close> has made its system, \<open>with_system (Some (m_system st)) st\<close> the
  object with the system of \<open>st\<close>.
\<close>

definition with_system ::
  "'p \<Rightarrow> ('r, 'task, 'g, 'w, 'qp, 'kin, 'sys) HumanIK \<Rightarrow> ('r, 'task, 'g, 'w, 'qp, 'kin, 'p) HumanIK" where
  "with_system p st =
     \<lparr>m_kinDyn = m_kinDyn st,
      m_jointPositions = m_jointPositions st,
      m_jointVelocities = m_jointVelocities st,
      m_basePose = m_basePose st,
      m_baseVelocity = m_baseVelocity st,
      m_gravity = m_gravity st,
      m_system = p,
      m_qpIK = m_qpIK st,
      m_OrientationTasks = m_OrientationTasks st,
      m_GravityTasks = m_GravityTasks st,
      m_variableHandler = m_variableHandler st,
      m_nrDoFs = m_nrDoFs st,
      m_dtIntegration = m_dtIntegration st,
      I_R_link = I_R_link st,
      calib_R_link = calib_R_link st\<rparr>"

definition getDoFsNumber :: "('r, 'task, 'g, 'w, 'qp, 'kin, 'sys) HumanIK \<Rightarrow> int" where
  "getDoFsNumber st = m_nrDoFs st"

subsection \<open>\<open>setNodeSetPoint\<close> and \<open>TPoseCalibrationNode\<close>\<close>

text \<open>
  \<open>m_OrientationTasks.find(node) == m_OrientationTasks.end()\<close> is \<open>m_OrientationTasks st
  node = None\<close>. After the guard the entry exists, so \<open>m_OrientationTasks[node]\<close> reads and
  writes it and inserts nothing. \<open>I_R_link\<close> is a member, assigned before the task is told.
\<close>

definition setNodeSetPoint ::
  "('r, 'task, 'g, 'w, 'qp, 'kin, 'sys) ik_lib \<Rightarrow> ('r, 'task, 'g, 'w, 'qp, 'kin, 'sys) HumanIK \<Rightarrow> int \<Rightarrow> 'r
     \<Rightarrow> vec \<Rightarrow> bool \<times> ('r, 'task, 'g, 'w, 'qp, 'kin, 'sys) HumanIK" where
  "setNodeSetPoint L st node I_R_IMU I_omega_IMU =
     (case m_OrientationTasks st node of
        None \<Rightarrow> (False, st)
      | Some e \<Rightarrow>
          (let st1 = st\<lparr>I_R_link :=
                 so3_compose L (so3_compose L (calibrationMatrix e) I_R_IMU) (IMU_R_link e)\<rparr>;
               (ok, t') = task_setSetPoint L (I_R_link st1) I_omega_IMU (task e)
           in (ok, st1\<lparr>m_OrientationTasks := (m_OrientationTasks st1)(node \<mapsto> e\<lparr>task := t'\<rparr>)\<rparr>)))"

definition TPoseCalibrationNode ::
  "('r, 'task, 'g, 'w, 'qp, 'kin, 'sys) ik_lib \<Rightarrow> ('r, 'task, 'g, 'w, 'qp, 'kin, 'sys) HumanIK \<Rightarrow> int \<Rightarrow> 'r
     \<Rightarrow> bool \<times> ('r, 'task, 'g, 'w, 'qp, 'kin, 'sys) HumanIK" where
  "TPoseCalibrationNode L st node I_R_IMU =
     (case m_OrientationTasks st node of
        None \<Rightarrow> (False, st)
      | Some e \<Rightarrow>
          (True, st\<lparr>m_OrientationTasks := (m_OrientationTasks st)(node \<mapsto>
             e\<lparr>calibrationMatrix :=
                 so3_compose L (calib_R_link st)
                   (so3_inverse L (so3_compose L I_R_IMU (IMU_R_link e)))\<rparr>)\<rparr>))"

subsection \<open>\<open>advance\<close>\<close>

text \<open>
  The solver reads the model and the orientation tasks through the pointers it shares
  with \<open>HumanIK\<close>; whatever else it reads (the gravity tasks, which no operation of this
  file changes once they are added) is in its own state. \<open>ok = ok && f()\<close> does not call
  \<open>f\<close> once \<open>ok\<close> is false.
\<close>

definition advance ::
  "('r, 'task, 'g, 'w, 'qp, 'kin, 'sys) ik_lib \<Rightarrow> ('r, 'task, 'g, 'w, 'qp, 'kin, 'sys) HumanIK
     \<Rightarrow> bool \<times> ('r, 'task, 'g, 'w, 'qp, 'kin, 'sys) HumanIK" where
  "advance L st =
     (let (ok1, qp') = qp_advance L (m_kinDyn st) (map_option task \<circ> m_OrientationTasks st)
                         (m_qpIK st);
          st1 = st\<lparr>m_qpIK := qp'\<rparr>;
          ok2 = (ok1 \<and> qp_isOutputValid L (m_qpIK st1))
      in if \<not> ok2 then (False, st1)
         else
           (let st2 = st1\<lparr>m_jointVelocities := jointVelocity (qp_getOutput L (m_qpIK st1)),
                          m_baseVelocity := baseVelocity (qp_getOutput L (m_qpIK st1))\<rparr>;
                (ok3, sys3) = dynamics_setControlInput L
                                (m_baseVelocity st2, m_jointVelocities st2) (m_system st2);
                (ok4, sys4) = (if ok3 then integrator_integrate L 0 (m_dtIntegration st2) sys3
                               else (False, sys3));
                st4 = st2\<lparr>m_system := sys4\<rparr>
            in if \<not> ok4 then (False, st4)
               else
                 (let (basePosition, baseRotation, jointPosition) =
                        integrator_getSolution L (m_system st4);
                      st5 = st4\<lparr>m_basePose := (m_basePose st4)
                                   \<lparr>topRightCorner := basePosition,
                                    topLeftCorner := so3_rotation L baseRotation\<rparr>,
                                m_jointPositions := jointPosition\<rparr>
                  in (True, st5\<lparr>m_kinDyn :=
                        kinDyn_setRobotState L (m_basePose st5) jointPosition
                          (m_baseVelocity st5) (m_jointVelocities st5) (m_gravity st5)
                          (m_kinDyn st5)\<rparr>))))"

subsection \<open>Accessors\<close>

text \<open>
  The accessors are \<open>const\<close>: they read the state and write the caller's buffer. The
  model returns the flag and the buffer after the call.
\<close>

definition getJointPositions ::
  "('r, 'task, 'g, 'w, 'qp, 'kin, 'sys) HumanIK \<Rightarrow> vec \<Rightarrow> bool \<times> vec" where
  "getJointPositions st jointPositions =
     (if length jointPositions \<noteq> length (m_jointPositions st) then (False, jointPositions)
      else (True, m_jointPositions st))"

definition getJointVelocities ::
  "('r, 'task, 'g, 'w, 'qp, 'kin, 'sys) HumanIK \<Rightarrow> vec \<Rightarrow> bool \<times> vec" where
  "getJointVelocities st jointVelocities =
     (if length jointVelocities \<noteq> length (m_jointVelocities st) then (False, jointVelocities)
      else (True, m_jointVelocities st))"

definition getBasePosition ::
  "('r, 'task, 'g, 'w, 'qp, 'kin, 'sys) HumanIK \<Rightarrow> vec \<Rightarrow> bool \<times> vec" where
  "getBasePosition st basePosition = (True, topRightCorner (m_basePose st))"

definition getBaseLinearVelocity ::
  "('r, 'task, 'g, 'w, 'qp, 'kin, 'sys) HumanIK \<Rightarrow> vec \<Rightarrow> bool \<times> vec" where
  "getBaseLinearVelocity st baseVelocity_out = (True, take 3 (m_baseVelocity st))"

definition getBaseOrientation ::
  "('r, 'task, 'g, 'w, 'qp, 'kin, 'sys) HumanIK \<Rightarrow> vec \<Rightarrow> bool \<times> vec" where
  "getBaseOrientation st baseOrientation = (True, topLeftCorner (m_basePose st))"

definition getBaseAngularVelocity ::
  "('r, 'task, 'g, 'w, 'qp, 'kin, 'sys) HumanIK \<Rightarrow> vec \<Rightarrow> bool \<times> vec" where
  "getBaseAngularVelocity st baseAngularVelocity =
     (True, drop (length (m_baseVelocity st) - 3) (m_baseVelocity st))"

subsection \<open>Sequences of per-cycle calls\<close>

text \<open>
  The calls of this file that change a \<open>HumanIK\<close> once it is initialised and has a
  timestep, and the state a sequence of them leaves.
\<close>

datatype 'r ik_call =
  SetNodeSetPoint int 'r vec
| TPoseCalibration int 'r
| Advance

fun ik_call_state ::
  "('r, 'task, 'g, 'w, 'qp, 'kin, 'sys) ik_lib \<Rightarrow> ('r, 'task, 'g, 'w, 'qp, 'kin, 'sys) HumanIK \<Rightarrow> 'r ik_call
     \<Rightarrow> ('r, 'task, 'g, 'w, 'qp, 'kin, 'sys) HumanIK" where
  "ik_call_state L st (SetNodeSetPoint node I_R_IMU I_omega_IMU) =
     snd (setNodeSetPoint L st node I_R_IMU I_omega_IMU)"
| "ik_call_state L st (TPoseCalibration node I_R_IMU) = snd (TPoseCalibrationNode L st node I_R_IMU)"
| "ik_call_state L st Advance = snd (advance L st)"

fun ik_calls_state ::
  "('r, 'task, 'g, 'w, 'qp, 'kin, 'sys) ik_lib \<Rightarrow> ('r, 'task, 'g, 'w, 'qp, 'kin, 'sys) HumanIK \<Rightarrow> 'r ik_call list
     \<Rightarrow> ('r, 'task, 'g, 'w, 'qp, 'kin, 'sys) HumanIK" where
  "ik_calls_state L st [] = st"
| "ik_calls_state L st (c # cs) = ik_calls_state L (ik_call_state L st c) cs"

fun calibrates :: "int \<Rightarrow> 'r ik_call \<Rightarrow> bool" where
  "calibrates node (TPoseCalibration n I_R_IMU) = (n = node)"
| "calibrates node (SetNodeSetPoint n I_R_IMU I_omega_IMU) = False"
| "calibrates node Advance = False"

text \<open>
  The cached joint vectors have the length \<open>m_nrDoFs\<close>, as \<open>initialize\<close> leaves them
  (\<open>resize(m_kinDyn->getNrOfDegreesOfFreedom())\<close> on both, and the same number in
  \<open>m_nrDoFs\<close>).
\<close>

definition dofs_consistent :: "('r, 'task, 'g, 'w, 'qp, 'kin, 'sys) HumanIK \<Rightarrow> bool" where
  "dofs_consistent st =
     (int (length (m_jointPositions st)) = m_nrDoFs st \<and>
      int (length (m_jointVelocities st)) = m_nrDoFs st)"

subsection \<open>An instance of the libraries, to run \<open>HumanIK\<close> on examples\<close>

text \<open>
  Rotations about the vertical axis by whole quarter turns, given by their number; a task
  that keeps the set-point
  it is given; a solver that reports what its state says; a model that keeps the state
  it is given; and a dynamical system integrated by one explicit Euler step over the whole
  interval (the rotation turns by the whole quarter turns made in it), which refuses a step
  that was never set and an interval that ends before it starts.
\<close>

record demo_qp =
  qp_converges :: bool
  qp_valid :: bool
  qp_solution :: qp_output

record demo_kin =
  kin_basePose :: Matrix4d
  kin_s :: vec
  kin_baseVelocity :: vec
  kin_s_dot :: vec
  kin_gravity :: vec

record demo_sys =
  sys_position :: vec
  sys_turns :: int
  sys_joints :: vec
  sys_twist :: vec
  sys_jointVelocity :: vec
  sys_step :: int

definition demo_integrate :: "int \<Rightarrow> int \<Rightarrow> demo_sys \<Rightarrow> bool \<times> demo_sys" where
  "demo_integrate t0 tf s =
     (if sys_step s \<le> 0 \<or> tf < t0 then (False, s)
      else
        (let h = real_of_int (tf - t0) / 10 ^ 9
         in (True, s\<lparr>sys_position := map2 (\<lambda>p v. p + h * v) (sys_position s) (take 3 (sys_twist s)),
                      sys_turns := sys_turns s +
                        \<lfloor>h * (case drop 5 (sys_twist s) of [] \<Rightarrow> 0 | w # _ \<Rightarrow> w)\<rfloor>,
                      sys_joints := map2 (\<lambda>q v. q + h * v) (sys_joints s) (sys_jointVelocity s)\<rparr>)))"

definition quarter_turns :: "int \<Rightarrow> vec" where
  "quarter_turns n =
     (if n mod 4 = 0 then [1, 0, 0, 0, 1, 0, 0, 0, 1]
      else if n mod 4 = 1 then [0, - 1, 0, 1, 0, 0, 0, 0, 1]
      else if n mod 4 = 2 then [- 1, 0, 0, 0, - 1, 0, 0, 0, 1]
      else [0, 1, 0, - 1, 0, 0, 0, 0, 1])"

definition demo_ik_lib ::
  "(int, (int \<times> vec) option, unit, unit, demo_qp, demo_kin, demo_sys) ik_lib" where
  "demo_ik_lib =
     \<lparr>so3_compose = (\<lambda>a b. a + b),
      so3_inverse = (\<lambda>a. - a),
      so3_rotation = quarter_turns,
      task_setSetPoint = (\<lambda>R w t. (True, Some (R, w))),
      qp_advance = (\<lambda>k ts q. (qp_converges q, q)),
      qp_isOutputValid = qp_valid,
      qp_getOutput = qp_solution,
      dynamics_setControlInput = (\<lambda>(tw, jv) s. (True, s\<lparr>sys_twist := tw, sys_jointVelocity := jv\<rparr>)),
      integrator_setIntegrationStep = (\<lambda>n s. if n \<le> 0 then (False, s) else (True, s\<lparr>sys_step := n\<rparr>)),
      integrator_integrate = demo_integrate,
      integrator_getSolution = (\<lambda>s. (sys_position s, sys_turns s, sys_joints s)),
      kinDyn_setRobotState = (\<lambda>H s v s_dot g k.
         \<lparr>kin_basePose = H, kin_s = s, kin_baseVelocity = v, kin_s_dot = s_dot, kin_gravity = g\<rparr>),
      kinDyn_isValid = (\<lambda>k. length (kin_s k) = length (kin_s_dot k)),
      kinDyn_getNrOfDegreesOfFreedom = (\<lambda>k. length (kin_s k)),
      kinDyn_getRobotState = (\<lambda>k.
         (kin_basePose k, kin_s k, kin_baseVelocity k, kin_s_dot k, kin_gravity k)),
      toManifRot = (\<lambda>m. if m = quarter_turns 1 then 1 else if m = quarter_turns 2 then 2
                          else if m = quarter_turns 3 then 3 else 0),
      so3_identity = 0,
      system_make = (\<lambda>p R q.
         \<lparr>sys_position = p, sys_turns = R, sys_joints = q, sys_twist = [0, 0, 0, 0, 0, 0],
          sys_jointVelocity = map (\<lambda>x. 0) q, sys_step = 0\<rparr>),
      eigen_indeterminate = (\<lambda>i. 0),
      default_OrientationTaskStruct =
        \<lparr>task = None, nodeNumber = 0, IMU_R_link = 0, calibrationMatrix = 0\<rparr>,
      default_GravityTaskStruct =
        \<lparr>gravity_task = (), gravity_nodeNumber = 0, weightProvider = ()\<rparr>,
      task_make = None,
      task_setKinDyn = (\<lambda>k t. (True, t)),
      task_initialize = (\<lambda>h t. (True, t)),
      gravityTask_make = (),
      gravityTask_setKinDyn = (\<lambda>k t. (True, t)),
      gravityTask_initialize = (\<lambda>h t. (True, t)),
      weightProvider_make = (),
      weightProvider_initialize = (\<lambda>h w. (True, w)),
      qp_initialize = (\<lambda>h q. (h \<noteq> None, q)),
      qp_addTask = (\<lambda>t name priority weight q. (True, q)),
      qp_addGravityTask = (\<lambda>t name priority w q. (True, q)),
      qp_finalize = (\<lambda>vars q. q)\<rparr>"

text \<open>
  A \<open>HumanIK\<close> with one joint and an orientation task on node 1, after a cycle that left
  the joint velocity 1; the solver now returns the joint velocity 4; the timestep is half
  a second.
\<close>

definition demo_pose :: Matrix4d where
  "demo_pose = \<lparr>topLeftCorner = [1, 0, 0, 0, 1, 0, 0, 0, 1], topRightCorner = [0, 0, 0],
                bottomRow = [0, 0, 0, 1]\<rparr>"

definition demo_ik ::
  "(int, (int \<times> vec) option, unit, unit, demo_qp, demo_kin, demo_sys) HumanIK" where
  "demo_ik =
     \<lparr>m_kinDyn = \<lparr>kin_basePose = demo_pose, kin_s = [0], kin_baseVelocity = [0, 0, 0, 0, 0, 0],
                  kin_s_dot = [1], kin_gravity = [0, 0, - 981 / 100]\<rparr>,
      m_jointPositions = [0],
      m_jointVelocities = [1],
      m_basePose = demo_pose,
      m_baseVelocity = [0, 0, 0, 0, 0, 0],
      m_gravity = [0, 0, - 981 / 100],
      m_system = \<lparr>sys_position = [0, 0, 0], sys_turns = 0, sys_joints = [0],
                  sys_twist = [0, 0, 0, 0, 0, 0], sys_jointVelocity = [1], sys_step = 500000000\<rparr>,
      m_qpIK = \<lparr>qp_converges = True, qp_valid = True,
                qp_solution = \<lparr>jointVelocity = [4], baseVelocity = [2, 0, 0, 0, 0, 0]\<rparr>\<rparr>,
      m_OrientationTasks = [1 \<mapsto> \<lparr>task = None, nodeNumber = 1, IMU_R_link = 0,
                                   calibrationMatrix = 0\<rparr>],
      m_GravityTasks = Map.empty,
      m_variableHandler = [(''robot_velocity'', 7)],
      m_nrDoFs = 1,
      m_dtIntegration = 500000000,
      I_R_link = 0,
      calib_R_link = 0\<rparr>"

text \<open>
  A configuration with an orientation task on node 1 and a gravity task on node 2, for a
  model with two joints.
\<close>

definition demo_ik_config :: handler where
  "demo_ik_config =
     Handler [(''tasks'', ParamStringVector [''PELVIS_TASK'', ''FOOT_TASK''])]
       [(''IK'', Handler [(''robot_velocity_variable_name'', ParamString ''robot_velocity'')] []),
        (''PELVIS_TASK'',
           Handler [(''type'', ParamString ''SO3Task''), (''node_number'', ParamInt 1),
                    (''rotation_matrix'', ParamDoubleVector [0, - 1, 0, 1, 0, 0, 0, 0, 1])] []),
        (''FOOT_TASK'',
           Handler [(''type'', ParamString ''GravityTask''), (''node_number'', ParamInt 2)] [])]"

definition demo_ik_model :: demo_kin where
  "demo_ik_model =
     \<lparr>kin_basePose = demo_pose, kin_s = [1, 2], kin_baseVelocity = [0, 0, 0, 0, 0, 0],
      kin_s_dot = [0, 0], kin_gravity = [0, 0, - 981 / 100]\<rparr>"

section \<open>Inverse dynamics: \<open>HumanID\<close> (src/ID/src/InverseDynamics.cpp)\<close>

subsection \<open>iDynTree data\<close>

text \<open>
  \<open>Vector3\<close> stands for \<open>iDynTree::Vector3\<close>, \<open>Position\<close> and the 3-vectors of a force;
  \<open>Vector6\<close> for \<open>Wrench\<close>, \<open>SpatialForceVector\<close> and \<open>Twist\<close>; \<open>Rotation\<close> lists the matrix
  by rows, as the constructor of \<open>iDynTree::Rotation\<close> takes it.
\<close>

datatype Vector3 = Vector3 real real real

datatype Vector6 = Vector6 real real real real real real

datatype Rotation = Rotation real real real real real real real real real

record Transform =
  rotation :: Rotation
  position :: Vector3

fun coeffs :: "Vector6 \<Rightarrow> real list" where
  "coeffs (Vector6 a b c d e f) = [a, b, c, d, e, f]"

text \<open>\<open>SpatialForceVector(linear, angular)\<close>.\<close>

fun SpatialForceVector :: "Vector3 \<Rightarrow> Vector3 \<Rightarrow> Vector6" where
  "SpatialForceVector (Vector3 a b c) (Vector3 d e f) = Vector6 a b c d e f"

text \<open>
  The arithmetic on coefficients: a spatial force times a scalar, the sum of two spatial
  forces, the difference of two positions.
\<close>

fun Vector6_scale :: "Vector6 \<Rightarrow> real \<Rightarrow> Vector6" where
  "Vector6_scale (Vector6 a b c d e f) k = Vector6 (a * k) (b * k) (c * k) (d * k) (e * k) (f * k)"

fun Vector6_plus :: "Vector6 \<Rightarrow> Vector6 \<Rightarrow> Vector6" where
  "Vector6_plus (Vector6 a b c d e f) (Vector6 a' b' c' d' e' f') =
     Vector6 (a + a') (b + b') (c + c') (d + d') (e + e') (f + f')"

definition Vector6_zero :: Vector6 where
  "Vector6_zero = Vector6 0 0 0 0 0 0"

fun Vector3_minus :: "Vector3 \<Rightarrow> Vector3 \<Rightarrow> Vector3" where
  "Vector3_minus (Vector3 a b c) (Vector3 a' b' c') = Vector3 (a - a') (b - b') (c - c')"

text \<open>What \<open>KinDynComputations::getRobotState\<close> returns and \<open>setRobotState\<close> takes.\<close>

record RobotState =
  rs_w_H_b :: Transform
  rs_s :: vec
  rs_base_velocity :: Vector6
  rs_s_dot :: vec
  rs_world_gravity :: Vector3

datatype BerdySensorTypes = NET_EXT_WRENCH_SENSOR | RCM_SENSOR | OTHER_SENSOR int

record BerdySensor =
  sensor_type :: BerdySensorTypes
  sensor_id :: string
  sensor_range_offset :: int

record BerdyOptions =
  baseLink :: "string option"
  berdyVariant :: string
  includeAllNetExternalWrenchesAsSensors :: bool
  includeAllNetExternalWrenchesAsDynamicVariables :: bool
  includeAllJointAccelerationsAsSensors :: bool
  includeAllJointTorquesAsSensors :: bool
  includeFixedBaseExternalWrench :: "bool option"

subsection \<open>State\<close>

datatype WrenchSourceType = Fixed | Dummy

record WrenchSourceData =
  outputFrame :: string
  type :: WrenchSourceType
  outputFrameTransform :: Transform
  wrench :: Vector6

text \<open>
  \<open>m_kinDyn\<close> is a shared pointer, null until \<open>initialize\<close> stores the caller's model.
  \<open>m_extWrenchesEstimator.kinDyn\<close> is null, or the same object as \<open>m_kinDyn\<close>
  (\<open>m_extWrenchesEstimator.kinDyn = m_kinDyn\<close>), or a model of its own.
\<close>

datatype 'kin kinDyn_ptr = NullKinDyn | MainKinDyn | OwnKinDyn 'kin

text \<open>
  A Berdy helper with its solver, and the buffers kept with them. The solver is behind a
  \<open>std::unique_ptr\<close>, null until it is made. It holds a reference to the helper, so the
  calls on the solver take and return both.
\<close>

record ('bh, 'bs) BerdyData =
  berdyHelper :: 'bh
  berdySolver :: "'bs option"
  estimatedDynamicVariables :: vec
  measurement :: vec
  estimatedJointTorques :: vec

record ('kin, 'bh, 'bs) ExtWrenchesEstimator =
  kinDyn :: "'kin kinDyn_ptr"
  helper :: "('bh, 'bs) BerdyData"
  jointPositions :: vec
  jointVelocities :: vec
  jointsPositionArray :: vec
  jointsVelocityArray :: vec
  useFullModel :: bool

record KinematicState =
  floatingBaseFrameIndex :: int
  jointsPosition :: vec
  jointsVelocity :: vec
  baseAngularVelocity :: Vector3

record MAPEstParams =
  priorDynamicsRegularizationExpected :: real
  priorDynamicsRegularizationCovarianceValue :: real
  specificMeasurementsCovariance :: "string \<rightharpoonup> real list"
  measurementDefaultCovariance :: real

record ('kin, 'bh, 'bs) HumanID =
  m_humanMass :: real
  m_kinDynID :: "'kin option"
  m_kinState :: KinematicState
  m_jointTorquesHelper :: "('bh, 'bs) BerdyData"
  m_extWrenchesEstimator :: "('kin, 'bh, 'bs) ExtWrenchesEstimator"
  m_wrenchSources :: "WrenchSourceData list"
  m_estimatedExtWrenches :: "Vector6 list"
  m_mapEstParams :: MAPEstParams

subsection \<open>The libraries \<open>HumanID\<close> calls\<close>

text \<open>
  iDynTree is not part of the repository. Each call the code makes into it is a field of
  this record. \<open>'model\<close> is an \<open>iDynTree::Model\<close> as the loader returns it, \<open>'sensors\<close> a
  \<open>SensorsList\<close>. \<open>mapBerdySensorType\<close> is a table the header declares. The two
  \<open>default\<close> fields are what the default constructors of \<open>iDynTree::Transform\<close> and
  \<open>iDynTree::Wrench\<close> leave in a fresh \<open>WrenchSourceData\<close>, and \<open>indeterminate\<close> is the
  content of the coefficients a \<open>resize\<close> adds to a vector.
\<close>

record ('kin, 'bh, 'bs, 'model, 'sensors) id_lib =
  kd_isValid :: "'kin \<Rightarrow> bool"
  kd_getNrOfDegreesOfFreedom :: "'kin \<Rightarrow> nat"
  kd_getFloatingBase :: "'kin \<Rightarrow> string"
  kd_getFrameIndex :: "'kin \<Rightarrow> string \<Rightarrow> int"
  kd_getLinkIndex :: "'kin \<Rightarrow> string \<Rightarrow> int"
  kd_getJointName :: "'kin \<Rightarrow> nat \<Rightarrow> string"
  kd_getRobotState :: "'kin \<Rightarrow> RobotState"
  kd_setRobotState :: "RobotState \<Rightarrow> 'kin \<Rightarrow> 'kin"
  kd_getJointPos :: "'kin \<Rightarrow> vec"
  kd_getJointVel :: "'kin \<Rightarrow> vec"
  kd_getBaseTwistAngular :: "'kin \<Rightarrow> Vector3"
  kd_getWorldTransform :: "'kin \<Rightarrow> string \<Rightarrow> Transform"
  kd_getWorldBaseTransform :: "'kin \<Rightarrow> Transform"
  kd_getCenterOfMassPosition :: "'kin \<Rightarrow> Vector3"
  kd_setFloatingBase :: "string \<Rightarrow> 'kin \<Rightarrow> 'kin"
  kd_getRobotModel :: "'kin \<Rightarrow> 'model"
  kd_loadRobotModel :: "'model \<Rightarrow> bool \<times> 'kin"
  model_sensors :: "'model \<Rightarrow> 'sensors"
  sensors_removeAllSensorsOfType :: "int \<Rightarrow> 'sensors \<Rightarrow> bool \<times> 'sensors"
  sensors_removeSensor :: "int \<Rightarrow> string \<Rightarrow> 'sensors \<Rightarrow> bool \<times> 'sensors"
  loader_loadModelFromFile :: "string \<Rightarrow> 'model option"
  Rotation_inverse :: "Rotation \<Rightarrow> Rotation"
  Transform_apply :: "Transform \<Rightarrow> Vector6 \<Rightarrow> Vector6"
  default_Transform :: Transform
  default_Wrench :: Vector6
  indeterminate :: "nat \<Rightarrow> real"
  mapBerdySensorType :: "(int \<times> string) list"
  options_checkConsistency :: "BerdyOptions \<Rightarrow> bool"
  berdy_init :: "'model \<Rightarrow> BerdyOptions \<Rightarrow> 'bh \<Rightarrow> bool \<times> 'bh"
  berdy_getNrOfDynamicVariables :: "'bh \<Rightarrow> nat"
  berdy_getNrOfSensorsMeasurements :: "'bh \<Rightarrow> nat"
  berdy_getSensorsOrdering :: "'bh \<Rightarrow> BerdySensor list"
  berdy_getRangeLinkSensorVariable :: "'bh \<Rightarrow> BerdySensorTypes \<Rightarrow> int \<Rightarrow> int"
  berdy_getRangeRCMSensorVariable :: "'bh \<Rightarrow> BerdySensorTypes \<Rightarrow> int"
  berdy_updateKinematicsFromFloatingBase ::
    "vec \<Rightarrow> vec \<Rightarrow> int \<Rightarrow> Vector3 \<Rightarrow> 'bh \<Rightarrow> bool \<times> 'bh"
  berdy_extractLinkNetExternalWrenchesFromDynamicVariables :: "'bh \<Rightarrow> 'model \<Rightarrow> vec \<Rightarrow> Vector6 list"
  berdy_extractJointTorquesFromDynamicVariables :: "'bh \<Rightarrow> vec \<Rightarrow> vec \<Rightarrow> vec \<Rightarrow> bool \<times> vec"
  solver_make :: "'bh \<Rightarrow> 'bs"
  solver_initialize :: "'bh \<times> 'bs \<Rightarrow> bool \<times> 'bh \<times> 'bs"
  solver_isValid :: "'bh \<times> 'bs \<Rightarrow> bool"
  solver_setMeasurementsPriorCovariance :: "nat \<Rightarrow> (int \<times> int \<times> real) list \<Rightarrow> 'bs \<Rightarrow> 'bs"
  solver_setDynamicsRegularizationPriorExpectedValue :: "vec \<Rightarrow> 'bs \<Rightarrow> 'bs"
  solver_setDynamicsRegularizationPriorCovariance :: "nat \<Rightarrow> (int \<times> int \<times> real) list \<Rightarrow> 'bs \<Rightarrow> 'bs"
  solver_updateEstimateInformationFloatingBase ::
    "vec \<Rightarrow> vec \<Rightarrow> int \<Rightarrow> Vector3 \<Rightarrow> vec \<Rightarrow> 'bh \<times> 'bs \<Rightarrow> 'bh \<times> 'bs"
  solver_doEstimate :: "'bh \<times> 'bs \<Rightarrow> bool \<times> 'bh \<times> 'bs"
  solver_getLastEstimate :: "'bs \<Rightarrow> vec"

subsection \<open>Pointers\<close>

definition main_kinDyn :: "('kin, 'bh, 'bs) HumanID \<Rightarrow> fault + 'kin" where
  "main_kinDyn st = (case m_kinDynID st of None \<Rightarrow> Inl NullPointer | Some k \<Rightarrow> Inr k)"

definition ext_kinDyn :: "('kin, 'bh, 'bs) HumanID \<Rightarrow> fault + 'kin" where
  "ext_kinDyn st =
     (case kinDyn (m_extWrenchesEstimator st) of
        NullKinDyn \<Rightarrow> Inl NullPointer
      | MainKinDyn \<Rightarrow> main_kinDyn st
      | OwnKinDyn k \<Rightarrow> Inr k)"

text \<open>A write through \<open>m_extWrenchesEstimator.kinDyn\<close> reaches the object it points to.\<close>

definition set_ext_kinDyn :: "'kin \<Rightarrow> ('kin, 'bh, 'bs) HumanID \<Rightarrow> ('kin, 'bh, 'bs) HumanID" where
  "set_ext_kinDyn k st =
     (case kinDyn (m_extWrenchesEstimator st) of
        NullKinDyn \<Rightarrow> st
      | MainKinDyn \<Rightarrow> st\<lparr>m_kinDynID := Some k\<rparr>
      | OwnKinDyn k0 \<Rightarrow> st\<lparr>m_extWrenchesEstimator := (m_extWrenchesEstimator st)\<lparr>kinDyn := OwnKinDyn k\<rparr>\<rparr>)"

subsection \<open>\<open>computeRCMInBaseFrame\<close>\<close>

text \<open>
  The local \<open>iDynTree::Vector3 world_gravity\<close> is declared and never assigned; the
  default constructor of \<open>iDynTree::Vector3\<close> leaves its coefficients as they are in
  memory. The argument \<open>world_gravity\<close> stands for that content. Every field of
  \<open>base_H_centroidal\<close> is set before it is used.
\<close>

definition computeRCMInBaseFrame ::
  "('kin, 'bh, 'bs, 'model, 'sensors) id_lib \<Rightarrow> Vector3 \<Rightarrow> ('kin, 'bh, 'bs) HumanID
     \<Rightarrow> fault + Vector6" where
  "computeRCMInBaseFrame L world_gravity st =
     (case main_kinDyn st of
        Inl f \<Rightarrow> Inl f
      | Inr k \<Rightarrow>
          (let rcmWrench = Vector6_zero;
               subjectWeightInCentroidal =
                 Vector6_scale (SpatialForceVector world_gravity (Vector3 0 0 0)) (- m_humanMass st);
               base_H_centroidal =
                 \<lparr>rotation = Rotation_inverse L (rotation (kd_getWorldBaseTransform L k)),
                  position = Vector3_minus (kd_getCenterOfMassPosition L k)
                               (position (kd_getWorldBaseTransform L k))\<rparr>
           in Inr (Vector6_plus rcmWrench
                     (Transform_apply L base_H_centroidal subjectWeightInCentroidal))))"

subsection \<open>\<open>updateExtWrenchesMeasurements\<close>\<close>

text \<open>
  The body of the loop over the joints \<open>i\<close> of the estimator's model: the first joint \<open>j\<close>
  of the main model with the same name gives position and velocity.
\<close>

definition sync_joint ::
  "('kin, 'bh, 'bs, 'model, 'sensors) id_lib \<Rightarrow> 'kin \<Rightarrow> 'kin \<Rightarrow> RobotState \<Rightarrow> nat \<Rightarrow> vec \<times> vec
     \<Rightarrow> fault + vec \<times> vec" where
  "sync_joint L k ke rs i pv =
     (case find (\<lambda>j. kd_getJointName L ke i = kd_getJointName L k j)
             [0 ..< kd_getNrOfDegreesOfFreedom L k] of
        None \<Rightarrow> Inr pv
      | Some j \<Rightarrow>
          (case read_at (int j) (rs_s rs) of
             Inl f \<Rightarrow> Inl f
           | Inr q \<Rightarrow>
               (case write_at (int i) q (fst pv) of
                  Inl f \<Rightarrow> Inl f
                | Inr p' \<Rightarrow>
                    (case read_at (int j) (rs_s_dot rs) of
                       Inl f \<Rightarrow> Inl f
                     | Inr dq \<Rightarrow>
                         (case write_at (int i) dq (snd pv) of
                            Inl f \<Rightarrow> Inl f
                          | Inr v' \<Rightarrow> Inr (p', v'))))))"

fun sync_joints ::
  "('kin, 'bh, 'bs, 'model, 'sensors) id_lib \<Rightarrow> 'kin \<Rightarrow> 'kin \<Rightarrow> RobotState \<Rightarrow> nat list \<Rightarrow> vec \<times> vec
     \<Rightarrow> fault + vec \<times> vec" where
  "sync_joints L k ke rs [] pv = Inr pv"
| "sync_joints L k ke rs (i # is) pv =
     (case sync_joint L k ke rs i pv of
        Inl f \<Rightarrow> Inl f
      | Inr pv' \<Rightarrow> sync_joints L k ke rs is pv')"

text \<open>The block under \<open>if (m_extWrenchesEstimator.useFullModel)\<close>.\<close>

definition sync_full_model ::
  "('kin, 'bh, 'bs, 'model, 'sensors) id_lib \<Rightarrow> ('kin, 'bh, 'bs) HumanID
     \<Rightarrow> fault + ('kin, 'bh, 'bs) HumanID" where
  "sync_full_model L st =
     (case main_kinDyn st of
        Inl f \<Rightarrow> Inl f
      | Inr k \<Rightarrow>
          (let rs = kd_getRobotState L k
           in case ext_kinDyn st of
                Inl f \<Rightarrow> Inl f
              | Inr ke \<Rightarrow>
                  (case sync_joints L k ke rs [0 ..< kd_getNrOfDegreesOfFreedom L ke]
                          (jointPositions (m_extWrenchesEstimator st),
                           jointVelocities (m_extWrenchesEstimator st)) of
                     Inl f \<Rightarrow> Inl f
                   | Inr (p, v) \<Rightarrow>
                       (let st1 = st\<lparr>m_extWrenchesEstimator :=
                                   (m_extWrenchesEstimator st)\<lparr>jointPositions := p,
                                                               jointVelocities := v\<rparr>\<rparr>
                        in Inr (set_ext_kinDyn
                                  (kd_setRobotState L (rs\<lparr>rs_s := p, rs_s_dot := v\<rparr>) ke) st1)))))"

text \<open>
  \<open>sensorRange.offset\<close> for a source: where the helper keeps the net external wrench sensor
  of the source's output frame in the measurement vector.
\<close>

definition sensorRange_offset ::
  "('kin, 'bh, 'bs, 'model, 'sensors) id_lib \<Rightarrow> 'bh \<Rightarrow> 'kin \<Rightarrow> WrenchSourceData \<Rightarrow> int" where
  "sensorRange_offset L bh k src =
     berdy_getRangeLinkSensorVariable L bh NET_EXT_WRENCH_SENSOR
       (kd_getFrameIndex L k (outputFrame src))"

text \<open>
  The loop over \<open>m_wrenchSources\<close>, on the measurement vector. The flag is false when the
  loop left the function with \<open>return false\<close>; the sources and the measurement are as the
  loop left them. \<open>ke\<close> is \<open>m_extWrenchesEstimator.kinDyn\<close>, dereferenced by both branches.
\<close>

fun update_sources ::
  "('kin, 'bh, 'bs, 'model, 'sensors) id_lib \<Rightarrow> fault + 'kin \<Rightarrow> 'bh \<Rightarrow> (string \<rightharpoonup> Vector6)
     \<Rightarrow> WrenchSourceData list \<Rightarrow> vec \<Rightarrow> fault + bool \<times> WrenchSourceData list \<times> vec" where
  "update_sources L ke bh wrenches [] m = Inr (True, [], m)"
| "update_sources L ke bh wrenches (src # rest) m =
     (case type src of
        Dummy \<Rightarrow>
          (case ke of
             Inl f \<Rightarrow> Inl f
           | Inr k \<Rightarrow>
               (let src' = src\<lparr>outputFrameTransform := (outputFrameTransform src)
                             \<lparr>rotation := rotation (kd_getWorldTransform L k (outputFrame src))\<rparr>\<rparr>
                in case update_sources L ke bh wrenches rest m of
                     Inl f \<Rightarrow> Inl f
                   | Inr (ok, rest', m') \<Rightarrow> Inr (ok, src' # rest', m')))
      | Fixed \<Rightarrow>
          (case wrenches (outputFrame src) of
             None \<Rightarrow> Inr (False, src # rest, m)
           | Some w \<Rightarrow>
               (let src' = src\<lparr>wrench := Transform_apply L (outputFrameTransform src) w\<rparr>
                in case ke of
                     Inl f \<Rightarrow> Inl f
                   | Inr k \<Rightarrow>
                       (case write_block (sensorRange_offset L bh k src)
                               (coeffs (wrench src')) m of
                          Inl f \<Rightarrow> Inl f
                        | Inr m1 \<Rightarrow>
                            (case update_sources L ke bh wrenches rest m1 of
                               Inl f \<Rightarrow> Inl f
                             | Inr (ok, rest', m') \<Rightarrow> Inr (ok, src' # rest', m'))))))"

definition set_measurement ::
  "vec \<Rightarrow> ('kin, 'bh, 'bs) HumanID \<Rightarrow> ('kin, 'bh, 'bs) HumanID" where
  "set_measurement m st =
     st\<lparr>m_extWrenchesEstimator := (m_extWrenchesEstimator st)
          \<lparr>helper := (helper (m_extWrenchesEstimator st))\<lparr>measurement := m\<rparr>\<rparr>\<rparr>"

definition updateExtWrenchesMeasurements ::
  "('kin, 'bh, 'bs, 'model, 'sensors) id_lib \<Rightarrow> Vector3 \<Rightarrow> ('kin, 'bh, 'bs) HumanID
     \<Rightarrow> (string \<rightharpoonup> Vector6) \<Rightarrow> fault + bool \<times> ('kin, 'bh, 'bs) HumanID" where
  "updateExtWrenchesMeasurements L world_gravity st wrenches =
     (case (if useFullModel (m_extWrenchesEstimator st) then sync_full_model L st else Inr st) of
        Inl f \<Rightarrow> Inl f
      | Inr st1 \<Rightarrow>
          (let bh = berdyHelper (helper (m_extWrenchesEstimator st1));
               zero = map (\<lambda>x. 0) (measurement (helper (m_extWrenchesEstimator st1)))
           in case update_sources L (ext_kinDyn st1) bh wrenches (m_wrenchSources st1) zero of
                Inl f \<Rightarrow> Inl f
              | Inr (ok, sources, m) \<Rightarrow>
                  (let st2 = set_measurement m (st1\<lparr>m_wrenchSources := sources\<rparr>)
                   in if \<not> ok then Inr (False, st2)
                      else
                        (case computeRCMInBaseFrame L world_gravity st2 of
                           Inl f \<Rightarrow> Inl f
                         | Inr rcmWrench \<Rightarrow>
                             (case write_block (berdy_getRangeRCMSensorVariable L bh RCM_SENSOR)
                                     (coeffs rcmWrench) m of
                                Inl f \<Rightarrow> Inl f
                              | Inr m' \<Rightarrow> Inr (True, set_measurement m' st2))))))"

subsection \<open>\<open>solve\<close> and its outputs\<close>

text \<open>
  The loop that copies, for the source \<open>i\<close>, the estimated wrench of the link named by its
  output frame into \<open>m_estimatedExtWrenches[i]\<close>.
\<close>

fun copy_link_wrenches ::
  "(string \<Rightarrow> int) \<Rightarrow> Vector6 list \<Rightarrow> WrenchSourceData list \<Rightarrow> int \<Rightarrow> Vector6 list
     \<Rightarrow> fault + Vector6 list" where
  "copy_link_wrenches getLinkIndex linkExtWrenches [] i est = Inr est"
| "copy_link_wrenches getLinkIndex linkExtWrenches (src # rest) i est =
     (case read_at (getLinkIndex (outputFrame src)) linkExtWrenches of
        Inl f \<Rightarrow> Inl f
      | Inr w \<Rightarrow>
          (case write_at i w est of
             Inl f \<Rightarrow> Inl f
           | Inr est' \<Rightarrow> copy_link_wrenches getLinkIndex linkExtWrenches rest (i + 1) est'))"

text \<open>The first stage of \<open>solve\<close>: the kinematic state and the estimate of the external wrenches.\<close>

definition solve_ext_wrenches ::
  "('kin, 'bh, 'bs, 'model, 'sensors) id_lib \<Rightarrow> ('kin, 'bh, 'bs) HumanID
     \<Rightarrow> fault + bool \<times> ('kin, 'bh, 'bs) HumanID" where
  "solve_ext_wrenches L st =
     (case main_kinDyn st of
        Inl f \<Rightarrow> Inl f
      | Inr k \<Rightarrow>
          (case ext_kinDyn st of
             Inl f \<Rightarrow> Inl f
           | Inr ke \<Rightarrow>
               (let ks = (m_kinState st)\<lparr>jointsPosition := kd_getJointPos L k,
                                         jointsVelocity := kd_getJointVel L k,
                                         baseAngularVelocity := kd_getBaseTwistAngular L k\<rparr>;
                    ewe = (m_extWrenchesEstimator st)\<lparr>jointsPositionArray := kd_getJointPos L ke,
                                                       jointsVelocityArray := kd_getJointVel L ke\<rparr>
                in case berdySolver (helper ewe) of
                     None \<Rightarrow> Inl NullPointer
                   | Some bs \<Rightarrow>
                       (let (ok, bh', bs') =
                              solver_doEstimate L
                                (solver_updateEstimateInformationFloatingBase L
                                   (jointsPositionArray ewe) (jointsVelocityArray ewe)
                                   (floatingBaseFrameIndex ks) (baseAngularVelocity ks)
                                   (measurement (helper ewe)) (berdyHelper (helper ewe), bs));
                            st1 = st\<lparr>m_kinState := ks,
                                     m_extWrenchesEstimator :=
                                       ewe\<lparr>helper := (helper ewe)\<lparr>berdyHelper := bh',
                                                                   berdySolver := Some bs'\<rparr>\<rparr>\<rparr>
                        in if \<not> ok then Inr (False, st1)
                           else
                             (let vars = solver_getLastEstimate L bs';
                                  h1 = helper (m_extWrenchesEstimator st1);
                                  st2 = st1\<lparr>m_extWrenchesEstimator := (m_extWrenchesEstimator st1)
                                          \<lparr>helper := h1\<lparr>estimatedDynamicVariables := vars\<rparr>\<rparr>\<rparr>
                              in case copy_link_wrenches (kd_getLinkIndex L ke)
                                        (berdy_extractLinkNetExternalWrenchesFromDynamicVariables L
                                           bh' (kd_getRobotModel L ke) vars)
                                        (m_wrenchSources st2) 0 (m_estimatedExtWrenches st2) of
                                   Inl f \<Rightarrow> Inl f
                                 | Inr est \<Rightarrow> Inr (True, st2\<lparr>m_estimatedExtWrenches := est\<rparr>))))))"

text \<open>The second stage: the kinematics update and the estimate of the joint torques.\<close>

definition solve_joint_torques ::
  "('kin, 'bh, 'bs, 'model, 'sensors) id_lib \<Rightarrow> ('kin, 'bh, 'bs) HumanID
     \<Rightarrow> fault + bool \<times> ('kin, 'bh, 'bs) HumanID" where
  "solve_joint_torques L st =
     (let ks = m_kinState st;
          jt = m_jointTorquesHelper st;
          (ok2, bh2) = berdy_updateKinematicsFromFloatingBase L (jointsPosition ks)
                         (jointsVelocity ks) (floatingBaseFrameIndex ks) (baseAngularVelocity ks)
                         (berdyHelper jt);
          jt2 = jt\<lparr>berdyHelper := bh2\<rparr>
      in if \<not> ok2 then Inr (False, st\<lparr>m_jointTorquesHelper := jt2\<rparr>)
         else
           (case berdySolver jt2 of
              None \<Rightarrow> Inl NullPointer
            | Some bs \<Rightarrow>
                (let (ok3, bh3, bs3) =
                       solver_doEstimate L
                         (solver_updateEstimateInformationFloatingBase L (jointsPosition ks)
                            (jointsVelocity ks) (floatingBaseFrameIndex ks) (baseAngularVelocity ks)
                            (measurement jt2) (berdyHelper jt2, bs));
                     jt3 = jt2\<lparr>berdyHelper := bh3, berdySolver := Some bs3\<rparr>
                 in if \<not> ok3 then Inr (False, st\<lparr>m_jointTorquesHelper := jt3\<rparr>)
                    else
                      (let vars = solver_getLastEstimate L bs3;
                           (ok4, torques) =
                             berdy_extractJointTorquesFromDynamicVariables L bh3 vars
                               (jointsPosition ks) (estimatedJointTorques jt3);
                           jt4 = jt3\<lparr>estimatedDynamicVariables := vars,
                                     estimatedJointTorques := torques\<rparr>
                       in Inr (ok4, st\<lparr>m_jointTorquesHelper := jt4\<rparr>)))))"

definition solve ::
  "('kin, 'bh, 'bs, 'model, 'sensors) id_lib \<Rightarrow> ('kin, 'bh, 'bs) HumanID
     \<Rightarrow> fault + bool \<times> ('kin, 'bh, 'bs) HumanID" where
  "solve L st =
     (case solve_ext_wrenches L st of
        Inl f \<Rightarrow> Inl f
      | Inr (ok, st1) \<Rightarrow> if \<not> ok then Inr (False, st1) else solve_joint_torques L st1)"

definition getJointTorques :: "('kin, 'bh, 'bs) HumanID \<Rightarrow> vec" where
  "getJointTorques st = estimatedJointTorques (m_jointTorquesHelper st)"

definition getEstimatedExtWrenches :: "('kin, 'bh, 'bs) HumanID \<Rightarrow> Vector6 list" where
  "getEstimatedExtWrenches st = m_estimatedExtWrenches st"

subsection \<open>\<open>initialize\<close>\<close>

text \<open>
  \<open>VectorDynSize::resize\<close> and \<open>std::vector::resize\<close> with a filler for the new places;
  \<open>resize\<close> followed by \<open>zero\<close>.
\<close>

definition resize_vec :: "(nat \<Rightarrow> real) \<Rightarrow> nat \<Rightarrow> vec \<Rightarrow> vec" where
  "resize_vec fill n v = take n v @ map fill [length v ..< n]"

definition resize_zero :: "nat \<Rightarrow> vec" where
  "resize_zero n = replicate n 0"

text \<open>
  The loop of \<open>initializeJointTorquesHelper\<close> over \<open>mapBerdySensorType\<close>, on a copy of the
  model's sensor list. A failed \<open>removeAllSensorsOfType\<close> leaves the function with \<open>return
  false\<close> (the flag); a failed \<open>removeSensor\<close> is logged and the loop goes on.
\<close>

fun remove_sensors ::
  "('kin, 'bh, 'bs, 'model, 'sensors) id_lib \<Rightarrow> handler \<Rightarrow> (int \<times> string) list \<Rightarrow> 'sensors
     \<Rightarrow> bool \<times> 'sensors" where
  "remove_sensors L h [] sensorList = (True, sensorList)"
| "remove_sensors L h (sensor # rest) sensorList =
     (case getParameter_string h (snd sensor) of
        None \<Rightarrow> remove_sensors L h rest sensorList
      | Some sensorName \<Rightarrow>
          (if sensorName = ''*'' then
             (let (ok, sl) = sensors_removeAllSensorsOfType L (fst sensor) sensorList
              in if \<not> ok then (False, sl) else remove_sensors L h rest sl)
           else
             (let (ok, sl) = sensors_removeSensor L (fst sensor) sensorName sensorList
              in remove_sensors L h rest sl)))"

definition initializeJointTorquesHelper ::
  "('kin, 'bh, 'bs, 'model, 'sensors) id_lib \<Rightarrow> ('kin, 'bh, 'bs) HumanID \<Rightarrow> handler
     \<Rightarrow> fault + bool \<times> ('kin, 'bh, 'bs) HumanID" where
  "initializeJointTorquesHelper L st groupHandler =
     (case main_kinDyn st of
        Inl f \<Rightarrow> Inl f
      | Inr k \<Rightarrow>
          (let berdyOptions =
                 \<lparr>baseLink = Some (kd_getFloatingBase L k),
                  berdyVariant = ''BERDY_FLOATING_BASE'',
                  includeAllNetExternalWrenchesAsSensors = True,
                  includeAllNetExternalWrenchesAsDynamicVariables = True,
                  includeAllJointAccelerationsAsSensors = True,
                  includeAllJointTorquesAsSensors = False,
                  includeFixedBaseExternalWrench = Some False\<rparr>
           in case getGroup groupHandler ''SENSOR_REMOVAL'' of
                None \<Rightarrow> Inr (False, st)
              | Some removeSensorHandler \<Rightarrow>
                  (if \<not> fst (remove_sensors L removeSensorHandler (mapBerdySensorType L)
                               (model_sensors L (kd_getRobotModel L k)))
                   then Inr (False, st)
                   else
                     (let jt = m_jointTorquesHelper st;
                          (ok, bh) = berdy_init L (kd_getRobotModel L k) berdyOptions (berdyHelper jt);
                          jt1 = jt\<lparr>berdyHelper := bh\<rparr>
                      in if \<not> ok then Inr (False, st\<lparr>m_jointTorquesHelper := jt1\<rparr>)
                         else
                           (let jt2 = jt1\<lparr>estimatedDynamicVariables :=
                                           resize_vec (indeterminate L)
                                             (berdy_getNrOfDynamicVariables L bh)
                                             (estimatedDynamicVariables jt1)\<rparr>;
                                (ok', bh', bs') = solver_initialize L (bh, solver_make L bh);
                                jt3 = jt2\<lparr>berdyHelper := bh', berdySolver := Some bs'\<rparr>
                            in Inr (ok', st\<lparr>m_jointTorquesHelper := jt3\<rparr>))))))"

text \<open>
  One round of the loop of \<open>initializeExtWrenchesHelper\<close> over the names in
  \<open>wrenchSources\<close>: the source read from its group, or \<open>None\<close> where the loop leaves the
  function with \<open>return false\<close>. \<open>position[0]\<close>, \<open>orientation[8]\<close> and \<open>values[i]\<close> are reads
  of a \<open>std::vector\<close> without a check.
\<close>

definition read_wrench_source ::
  "('kin, 'bh, 'bs, 'model, 'sensors) id_lib \<Rightarrow> handler \<Rightarrow> string
     \<Rightarrow> fault + WrenchSourceData option" where
  "read_wrench_source L groupHandler name =
     (case getGroup groupHandler name of
        None \<Rightarrow> Inr None
      | Some wrenchHandler \<Rightarrow>
          (case getParameter_string wrenchHandler ''outputFrame'' of
             None \<Rightarrow> Inr None
           | Some frame \<Rightarrow>
               (case getParameter_string wrenchHandler ''type'' of
                  None \<Rightarrow> Inr None
                | Some ty \<Rightarrow>
                    (if ty = ''fixed'' then
                       (case getParameter_doubles wrenchHandler ''position'' of
                          None \<Rightarrow> Inr None
                        | Some pos \<Rightarrow>
                            (if length pos < 3 then Inl OutOfRange
                             else
                               (case getParameter_doubles wrenchHandler ''orientation'' of
                                  None \<Rightarrow> Inr None
                                | Some ori \<Rightarrow>
                                    (if length ori < 9 then Inl OutOfRange
                                     else Inr (Some
                                       \<lparr>outputFrame = frame, type = Fixed,
                                        outputFrameTransform =
                                          \<lparr>rotation = Rotation (ori ! 0) (ori ! 1) (ori ! 2) (ori ! 3)
                                                        (ori ! 4) (ori ! 5) (ori ! 6) (ori ! 7) (ori ! 8),
                                           position = Vector3 (pos ! 0) (pos ! 1) (pos ! 2)\<rparr>,
                                        wrench = default_Wrench L\<rparr>)))))
                     else if ty = ''dummy'' then
                       (case getParameter_doubles wrenchHandler ''values'' of
                          None \<Rightarrow> Inr None
                        | Some vals \<Rightarrow>
                            (if length vals < 6 then Inl OutOfRange
                             else Inr (Some
                               \<lparr>outputFrame = frame, type = Dummy,
                                outputFrameTransform = default_Transform L,
                                wrench = Vector6 (vals ! 0) (vals ! 1) (vals ! 2) (vals ! 3)
                                           (vals ! 4) (vals ! 5)\<rparr>)))
                     else Inr None))))"

text \<open>The loop: each source read is pushed onto \<open>m_wrenchSources\<close> before the next is read.\<close>

fun read_wrench_sources ::
  "('kin, 'bh, 'bs, 'model, 'sensors) id_lib \<Rightarrow> handler \<Rightarrow> string list \<Rightarrow> WrenchSourceData list
     \<Rightarrow> fault + bool \<times> WrenchSourceData list" where
  "read_wrench_sources L groupHandler [] sources = Inr (True, sources)"
| "read_wrench_sources L groupHandler (name # names) sources =
     (case read_wrench_source L groupHandler name of
        Inl f \<Rightarrow> Inl f
      | Inr None \<Rightarrow> Inr (False, sources)
      | Inr (Some data) \<Rightarrow> read_wrench_sources L groupHandler names (sources @ [data]))"

text \<open>
  The branch on \<open>modelPath\<close>. With a path the estimator gets a model of its own, loaded from
  the file; without one the code logs a warning, lets the estimator share the main model,
  and leaves the function with \<open>return false\<close>.
\<close>

definition load_ext_model ::
  "('kin, 'bh, 'bs, 'model, 'sensors) id_lib \<Rightarrow> ('kin, 'bh, 'bs) HumanID \<Rightarrow> handler
     \<Rightarrow> fault + bool \<times> ('kin, 'bh, 'bs) HumanID" where
  "load_ext_model L st groupHandler =
     (let ewe = m_extWrenchesEstimator st
      in case getParameter_string groupHandler ''modelPath'' of
           Some modelPath \<Rightarrow>
             (case loader_loadModelFromFile L modelPath of
                None \<Rightarrow> Inr (False, st)
              | Some model \<Rightarrow>
                  (let (ok, ke) = kd_loadRobotModel L model;
                       ewe1 = ewe\<lparr>kinDyn := OwnKinDyn ke\<rparr>
                   in if \<not> ok then Inr (False, st\<lparr>m_extWrenchesEstimator := ewe1\<rparr>)
                      else
                        (case main_kinDyn st of
                           Inl f \<Rightarrow> Inl f
                         | Inr k \<Rightarrow>
                             Inr (True, st\<lparr>m_extWrenchesEstimator := ewe1
                               \<lparr>jointPositions := resize_zero (kd_getNrOfDegreesOfFreedom L ke),
                                jointVelocities := resize_zero (kd_getNrOfDegreesOfFreedom L ke),
                                kinDyn := OwnKinDyn (kd_setFloatingBase L (kd_getFloatingBase L k) ke),
                                useFullModel := True\<rparr>\<rparr>))))
         | None \<Rightarrow>
             Inr (False, st\<lparr>m_extWrenchesEstimator := ewe\<lparr>useFullModel := False,
                                                            kinDyn := MainKinDyn\<rparr>\<rparr>))"

text \<open>
  The loop over \<open>specificElements\<close>: the covariance of each named element goes into
  \<open>specificMeasurementsCovariance\<close>; \<open>None\<close> where the loop leaves with \<open>return false\<close>.
\<close>

fun read_specific_elements ::
  "handler \<Rightarrow> string list \<Rightarrow> (string \<rightharpoonup> real list) \<Rightarrow> bool \<times> (string \<rightharpoonup> real list)" where
  "read_specific_elements groupHandler [] cov = (True, cov)"
| "read_specific_elements groupHandler (element # rest) cov =
     (case getParameter_doubles groupHandler element of
        None \<Rightarrow> (False, cov)
      | Some covariance \<Rightarrow> read_specific_elements groupHandler rest (cov(element \<mapsto> covariance)))"

text \<open>
  The loop over the sensors of the helper that fills the triplets of the measurement
  covariance. \<open>second[i]\<close> is a read of a \<open>std::vector\<close> without a check.
\<close>

definition diagonal_triplets :: "int \<Rightarrow> real list \<Rightarrow> (int \<times> int \<times> real) list" where
  "diagonal_triplets offset cov = map (\<lambda>i. (offset + int i, offset + int i, cov ! i)) [0 ..< 6]"

fun covariance_triplets ::
  "MAPEstParams \<Rightarrow> BerdySensor list \<Rightarrow> fault + (int \<times> int \<times> real) list" where
  "covariance_triplets ps [] = Inr []"
| "covariance_triplets ps (berdySensor # rest) =
     (case
        (case sensor_type berdySensor of
           NET_EXT_WRENCH_SENSOR \<Rightarrow>
             (case specificMeasurementsCovariance ps (sensor_id berdySensor) of
                None \<Rightarrow>
                  Inr (diagonal_triplets (sensor_range_offset berdySensor)
                         (replicate 6 (measurementDefaultCovariance ps)))
              | Some specific \<Rightarrow>
                  (if length specific < 6 then Inl OutOfRange
                   else Inr (diagonal_triplets (sensor_range_offset berdySensor) specific)))
         | RCM_SENSOR \<Rightarrow>
             (case specificMeasurementsCovariance ps ''RCM_SENSOR'' of
                None \<Rightarrow> Inl NullPointer
              | Some specific \<Rightarrow>
                  (if length specific < 6 then Inl OutOfRange
                   else Inr (diagonal_triplets (sensor_range_offset berdySensor) specific)))
         | OTHER_SENSOR n \<Rightarrow> Inr []) of
        Inl f \<Rightarrow> Inl f
      | Inr ts \<Rightarrow>
          (case covariance_triplets ps rest of
             Inl f \<Rightarrow> Inl f
           | Inr ts' \<Rightarrow> Inr (ts @ ts')))"

text \<open>
  The rest of \<open>initializeExtWrenchesHelper\<close>, from the resize of the joint arrays after the
  branch on \<open>modelPath\<close> to the end.
\<close>

definition configure_ext_estimator ::
  "('kin, 'bh, 'bs, 'model, 'sensors) id_lib \<Rightarrow> ('kin, 'bh, 'bs) HumanID \<Rightarrow> handler
     \<Rightarrow> fault + bool \<times> ('kin, 'bh, 'bs) HumanID" where
  "configure_ext_estimator L st groupHandler =
     (case ext_kinDyn st of
        Inl f \<Rightarrow> Inl f
      | Inr ke \<Rightarrow>
          (let ewe = (m_extWrenchesEstimator st)
                 \<lparr>jointsPositionArray := resize_zero (kd_getNrOfDegreesOfFreedom L ke),
                  jointsVelocityArray := resize_zero (kd_getNrOfDegreesOfFreedom L ke)\<rparr>;
               st1 = st\<lparr>m_extWrenchesEstimator := ewe\<rparr>
           in case getParameter_double groupHandler ''mu_dyn_variables'' of
                None \<Rightarrow> Inr (False, st1)
              | Some mu \<Rightarrow>
           (let ps1 = (m_mapEstParams st1)\<lparr>priorDynamicsRegularizationExpected := mu\<rparr>;
                st2 = st1\<lparr>m_mapEstParams := ps1\<rparr>
            in case getParameter_double groupHandler ''cov_dyn_variables'' of
                 None \<Rightarrow> Inr (False, st2)
               | Some cov \<Rightarrow>
           (let ps2 = ps1\<lparr>priorDynamicsRegularizationCovarianceValue := cov\<rparr>;
                st3 = st2\<lparr>m_mapEstParams := ps2\<rparr>
            in case getParameter_strings groupHandler ''specificElements'' of
                 None \<Rightarrow> Inr (False, st3)
               | Some specificElements \<Rightarrow>
           (let (ok, sm) = read_specific_elements groupHandler specificElements
                             (specificMeasurementsCovariance ps2);
                ps3 = ps2\<lparr>specificMeasurementsCovariance := sm\<rparr>;
                st4 = st3\<lparr>m_mapEstParams := ps3\<rparr>
            in if \<not> ok then Inr (False, st4)
               else
           (let rcm = (case getParameter_doubles groupHandler ''cov_measurements_RCM_SENSOR'' of
                         Some c \<Rightarrow> c
                       | None \<Rightarrow> (case sm ''RCM_SENSOR'' of Some c \<Rightarrow> c | None \<Rightarrow> []));
                ps4 = ps3\<lparr>specificMeasurementsCovariance := sm(''RCM_SENSOR'' \<mapsto> rcm)\<rparr>;
                st5 = st4\<lparr>m_mapEstParams := ps4\<rparr>
            in if getParameter_doubles groupHandler ''cov_measurements_RCM_SENSOR'' = None
               then Inr (False, st5)
               else
           (case getParameter_double groupHandler ''default_cov_measurements'' of
              None \<Rightarrow> Inr (False, st5)
            | Some dcov \<Rightarrow>
           (let ps5 = ps4\<lparr>measurementDefaultCovariance := dcov\<rparr>;
                st6 = st5\<lparr>m_mapEstParams := ps5\<rparr>;
                berdyOptionsExtWrenches =
                  \<lparr>baseLink = None,
                   berdyVariant = ''BERDY_FLOATING_BASE_NON_COLLOCATED_EXT_WRENCHES'',
                   includeAllNetExternalWrenchesAsSensors = True,
                   includeAllNetExternalWrenchesAsDynamicVariables = True,
                   includeAllJointAccelerationsAsSensors = False,
                   includeAllJointTorquesAsSensors = False,
                   includeFixedBaseExternalWrench = None\<rparr>
            in if \<not> options_checkConsistency L berdyOptionsExtWrenches then Inr (False, st6)
               else
           (let (ok1, bh1) = berdy_init L (kd_getRobotModel L ke) berdyOptionsExtWrenches
                               (berdyHelper (helper ewe));
                h1 = (helper ewe)\<lparr>berdyHelper := bh1\<rparr>;
                st7 = st6\<lparr>m_extWrenchesEstimator := ewe\<lparr>helper := h1\<rparr>\<rparr>
            in if \<not> ok1 then Inr (False, st7)
               else
           (let (ok2, bh2, bs2) = solver_initialize L (bh1, solver_make L bh1);
                h2 = h1\<lparr>berdyHelper := bh2, berdySolver := Some bs2\<rparr>;
                st8 = st7\<lparr>m_extWrenchesEstimator := ewe\<lparr>helper := h2\<rparr>\<rparr>
            in if \<not> ok2 then Inr (False, st8)
               else
           (case covariance_triplets ps5 (berdy_getSensorsOrdering L bh2) of
              Inl f \<Rightarrow> Inl f
            | Inr measurementsCovarianceMatrixTriplets \<Rightarrow>
           (let sigmaDSize = berdy_getNrOfDynamicVariables L bh2;
                bs3 = solver_setMeasurementsPriorCovariance L
                        (berdy_getNrOfSensorsMeasurements L bh2)
                        measurementsCovarianceMatrixTriplets bs2;
                bs4 = solver_setDynamicsRegularizationPriorExpectedValue L
                        (replicate sigmaDSize mu) bs3;
                bs5 = solver_setDynamicsRegularizationPriorCovariance L sigmaDSize
                        (map (\<lambda>i. (int i, int i, cov)) [0 ..< sigmaDSize]) bs4;
                st9 = st8\<lparr>m_extWrenchesEstimator :=
                            ewe\<lparr>helper := h2\<lparr>berdySolver := Some bs5\<rparr>\<rparr>\<rparr>
            in Inr (solver_isValid L (bh2, bs5), st9)))))))))))))"

definition initializeExtWrenchesHelper ::
  "('kin, 'bh, 'bs, 'model, 'sensors) id_lib \<Rightarrow> ('kin, 'bh, 'bs) HumanID \<Rightarrow> handler
     \<Rightarrow> fault + bool \<times> ('kin, 'bh, 'bs) HumanID" where
  "initializeExtWrenchesHelper L st groupHandler =
     (case getParameter_strings groupHandler ''wrenchSources'' of
        None \<Rightarrow> Inr (False, st)
      | Some wrenchSource \<Rightarrow>
          (case read_wrench_sources L groupHandler wrenchSource (m_wrenchSources st) of
             Inl f \<Rightarrow> Inl f
           | Inr (ok, sources) \<Rightarrow>
               (let st1 = st\<lparr>m_wrenchSources := sources\<rparr>
                in if \<not> ok then Inr (False, st1)
                   else
                     (let st2 = st1\<lparr>m_estimatedExtWrenches :=
                                  take (length sources) (m_estimatedExtWrenches st1) @
                                  replicate (length sources - length (m_estimatedExtWrenches st1))
                                    (default_Wrench L)\<rparr>
                      in case load_ext_model L st2 groupHandler of
                           Inl f \<Rightarrow> Inl f
                         | Inr (ok', st3) \<Rightarrow>
                             if \<not> ok' then Inr (False, st3)
                             else configure_ext_estimator L st3 groupHandler))))"

text \<open>
  The part of \<open>initialize\<close> between the check of the model and the lookup of the
  \<open>JOINT_TORQUES\<close> group. The model handed over is taken to be an object the estimator
  does not hold yet: an estimator model that shared the previous main model keeps that one.
\<close>

definition initialize_kinematic_state ::
  "('kin, 'bh, 'bs, 'model, 'sensors) id_lib \<Rightarrow> ('kin, 'bh, 'bs) HumanID \<Rightarrow> 'kin
     \<Rightarrow> ('kin, 'bh, 'bs) HumanID" where
  "initialize_kinematic_state L st k =
     (let n = kd_getNrOfDegreesOfFreedom L k;
          ewe = m_extWrenchesEstimator st
      in st\<lparr>m_kinDynID := Some k,
            m_extWrenchesEstimator := ewe\<lparr>kinDyn :=
              (case kinDyn ewe of
                 MainKinDyn \<Rightarrow> (case m_kinDynID st of None \<Rightarrow> NullKinDyn | Some k0 \<Rightarrow> OwnKinDyn k0)
               | NullKinDyn \<Rightarrow> NullKinDyn
               | OwnKinDyn k1 \<Rightarrow> OwnKinDyn k1)\<rparr>,
            m_kinState := (m_kinState st)
              \<lparr>floatingBaseFrameIndex := kd_getFrameIndex L k (kd_getFloatingBase L k),
               jointsPosition := resize_zero n,
               jointsVelocity := resize_zero n,
               baseAngularVelocity := Vector3 0 0 0\<rparr>,
            m_jointTorquesHelper := (m_jointTorquesHelper st)
              \<lparr>estimatedJointTorques := resize_vec (indeterminate L) n
                 (estimatedJointTorques (m_jointTorquesHelper st))\<rparr>\<rparr>)"

text \<open>The resizes at the end of \<open>initialize\<close>.\<close>

definition initialize_buffers ::
  "('kin, 'bh, 'bs, 'model, 'sensors) id_lib \<Rightarrow> ('kin, 'bh, 'bs) HumanID
     \<Rightarrow> ('kin, 'bh, 'bs) HumanID" where
  "initialize_buffers L st =
     (let h = helper (m_extWrenchesEstimator st);
          jt = m_jointTorquesHelper st
      in st\<lparr>m_extWrenchesEstimator := (m_extWrenchesEstimator st)
              \<lparr>helper := h
                 \<lparr>estimatedDynamicVariables := resize_vec (indeterminate L)
                    (berdy_getNrOfDynamicVariables L (berdyHelper h)) (estimatedDynamicVariables h),
                  measurement := resize_zero (berdy_getNrOfSensorsMeasurements L (berdyHelper h))\<rparr>\<rparr>,
            m_jointTorquesHelper := jt
              \<lparr>estimatedDynamicVariables := resize_vec (indeterminate L)
                 (berdy_getNrOfDynamicVariables L (berdyHelper jt)) (estimatedDynamicVariables jt),
               measurement := resize_vec (indeterminate L)
                 (berdy_getNrOfSensorsMeasurements L (berdyHelper jt)) (measurement jt)\<rparr>\<rparr>)"

text \<open>
  \<open>HumanID::initialize\<close>. The handler is a weak pointer, locked and dereferenced without a
  check; the model is a shared pointer, checked.
\<close>

definition initialize ::
  "('kin, 'bh, 'bs, 'model, 'sensors) id_lib \<Rightarrow> ('kin, 'bh, 'bs) HumanID \<Rightarrow> handler option
     \<Rightarrow> 'kin option \<Rightarrow> fault + bool \<times> ('kin, 'bh, 'bs) HumanID" where
  "initialize L st handler kinDyn_arg =
     (case handler of
        None \<Rightarrow> Inl NullPointer
      | Some ptr \<Rightarrow>
          (case getParameter_double ptr ''humanMass'' of
             None \<Rightarrow> Inr (False, st)
           | Some mass \<Rightarrow>
               (case kinDyn_arg of
                  None \<Rightarrow> Inr (False, st\<lparr>m_humanMass := mass\<rparr>)
                | Some k \<Rightarrow>
                    (if \<not> kd_isValid L k then Inr (False, st\<lparr>m_humanMass := mass\<rparr>)
                     else
                       (let st2 = initialize_kinematic_state L (st\<lparr>m_humanMass := mass\<rparr>) k
                        in case getGroup ptr ''JOINT_TORQUES'' of
                             None \<Rightarrow> Inr (False, st2)
                           | Some jointTorquesHandler \<Rightarrow>
                               (case initializeJointTorquesHelper L st2 jointTorquesHandler of
                                  Inl f \<Rightarrow> Inl f
                                | Inr (ok3, st3) \<Rightarrow>
                                    (if \<not> ok3 then Inr (False, st3)
                                     else
                                       (case getGroup ptr ''EXTERNAL_WRENCHES'' of
                                          None \<Rightarrow> Inr (False, st3)
                                        | Some extWrenchesHandler \<Rightarrow>
                                            (case initializeExtWrenchesHelper L st3
                                                    extWrenchesHandler of
                                               Inl f \<Rightarrow> Inl f
                                             | Inr (ok4, st4) \<Rightarrow>
                                                 (if \<not> ok4 then Inr (False, st4)
                                                  else Inr (True, initialize_buffers L st4)))))))))))"

text \<open>
  The arrays of a wrench source group are long enough for the reads \<open>position[0..2]\<close>,
  \<open>orientation[0..8]\<close> and \<open>values[0..5]\<close>; and so are those of every source that the
  \<open>EXTERNAL_WRENCHES\<close> group names.
\<close>

definition source_arrays_long_enough :: "handler \<Rightarrow> bool" where
  "source_arrays_long_enough wrenchHandler =
     ((case getParameter_doubles wrenchHandler ''position'' of
         None \<Rightarrow> True | Some p \<Rightarrow> 3 \<le> length p) \<and>
      (case getParameter_doubles wrenchHandler ''orientation'' of
         None \<Rightarrow> True | Some p \<Rightarrow> 9 \<le> length p) \<and>
      (case getParameter_doubles wrenchHandler ''values'' of
         None \<Rightarrow> True | Some p \<Rightarrow> 6 \<le> length p))"

definition wrench_arrays_long_enough :: "handler \<Rightarrow> bool" where
  "wrench_arrays_long_enough groupHandler =
     (case getParameter_strings groupHandler ''wrenchSources'' of
        None \<Rightarrow> True
      | Some names \<Rightarrow>
          list_all (\<lambda>name. case getGroup groupHandler name of
                             None \<Rightarrow> True
                           | Some wrenchHandler \<Rightarrow> source_arrays_long_enough wrenchHandler) names)"


subsection \<open>An instance of the libraries, to run \<open>HumanID\<close> on examples\<close>

text \<open>
  A model is its lists of joint, link and frame names with a robot state and a centre of
  mass; every frame sits at the base. A Berdy helper orders one net external wrench sensor
  per link, from offset \<open>6 * i\<close> for the link \<open>i\<close>, and the RCM sensor after them; its
  dynamic variables are the link wrenches. A solver takes the measured link wrenches as
  its estimate when its state says that it converges; when not, it fails once and
  converges from the next call on. A transform acts on a wrench as
  \<open>iDynTree::Transform\<close> does: \<open>(f, t)\<close> becomes \<open>(R f, R t + p \<times> R f)\<close>.
\<close>

record demo_model =
  dm_valid :: bool
  dm_joints :: "string list"
  dm_links :: "string list"
  dm_frames :: "string list"
  dm_floatingBase :: string
  dm_state :: RobotState
  dm_com :: Vector3

record demo_berdy =
  db_links :: "string list"
  db_dofs :: nat

record demo_solver =
  ds_converges :: bool
  ds_measurement :: vec
  ds_estimate :: vec

fun index_of :: "string \<Rightarrow> string list \<Rightarrow> int" where
  "index_of x [] = - 1"
| "index_of x (y # ys) = (if x = y then 0 else if index_of x ys < 0 then - 1 else index_of x ys + 1)"

fun Rotation_transpose :: "Rotation \<Rightarrow> Rotation" where
  "Rotation_transpose (Rotation a b c d e f g h i) = Rotation a d g b e h c f i"

fun Rotation_times :: "Rotation \<Rightarrow> Vector3 \<Rightarrow> Vector3" where
  "Rotation_times (Rotation a b c d e f g h i) (Vector3 x y z) =
     Vector3 (a * x + b * y + c * z) (d * x + e * y + f * z) (g * x + h * y + i * z)"

fun cross :: "Vector3 \<Rightarrow> Vector3 \<Rightarrow> Vector3" where
  "cross (Vector3 a b c) (Vector3 x y z) = Vector3 (b * z - c * y) (c * x - a * z) (a * y - b * x)"

fun Vector3_plus :: "Vector3 \<Rightarrow> Vector3 \<Rightarrow> Vector3" where
  "Vector3_plus (Vector3 a b c) (Vector3 x y z) = Vector3 (a + x) (b + y) (c + z)"

fun demo_Transform_apply :: "Transform \<Rightarrow> Vector6 \<Rightarrow> Vector6" where
  "demo_Transform_apply T (Vector6 a b c d e f) =
     (let force = Rotation_times (rotation T) (Vector3 a b c);
          torque = Vector3_plus (Rotation_times (rotation T) (Vector3 d e f))
                     (cross (position T) force)
      in SpatialForceVector force torque)"

fun chop6 :: "real list \<Rightarrow> Vector6 list" where
  "chop6 (a # b # c # d # e # f # rest) = Vector6 a b c d e f # chop6 rest"
| "chop6 xs = []"

fun angular :: "Vector6 \<Rightarrow> Vector3" where
  "angular (Vector6 a b c d e f) = Vector3 d e f"

definition identity_Transform :: Transform where
  "identity_Transform = \<lparr>rotation = Rotation 1 0 0 0 1 0 0 0 1, position = Vector3 0 0 0\<rparr>"

definition demo_id_lib ::
  "(demo_model, demo_berdy, demo_solver, demo_model, unit) id_lib" where
  "demo_id_lib =
     \<lparr>kd_isValid = dm_valid,
      kd_getNrOfDegreesOfFreedom = (\<lambda>k. length (dm_joints k)),
      kd_getFloatingBase = dm_floatingBase,
      kd_getFrameIndex = (\<lambda>k f. index_of f (dm_frames k)),
      kd_getLinkIndex = (\<lambda>k f. index_of f (dm_links k)),
      kd_getJointName = (\<lambda>k i. if i < length (dm_joints k) then dm_joints k ! i else []),
      kd_getRobotState = dm_state,
      kd_setRobotState = (\<lambda>rs k. k\<lparr>dm_state := rs\<rparr>),
      kd_getJointPos = (\<lambda>k. rs_s (dm_state k)),
      kd_getJointVel = (\<lambda>k. rs_s_dot (dm_state k)),
      kd_getBaseTwistAngular = (\<lambda>k. angular (rs_base_velocity (dm_state k))),
      kd_getWorldTransform = (\<lambda>k f. rs_w_H_b (dm_state k)),
      kd_getWorldBaseTransform = (\<lambda>k. rs_w_H_b (dm_state k)),
      kd_getCenterOfMassPosition = dm_com,
      kd_setFloatingBase = (\<lambda>b k. k\<lparr>dm_floatingBase := b\<rparr>),
      kd_getRobotModel = (\<lambda>k. k),
      kd_loadRobotModel = (\<lambda>m. (dm_valid m, m)),
      model_sensors = (\<lambda>m. ()),
      sensors_removeAllSensorsOfType = (\<lambda>t sl. (True, sl)),
      sensors_removeSensor = (\<lambda>t n sl. (True, sl)),
      loader_loadModelFromFile = (\<lambda>path. None),
      Rotation_inverse = Rotation_transpose,
      Transform_apply = demo_Transform_apply,
      default_Transform = identity_Transform,
      default_Wrench = Vector6_zero,
      indeterminate = (\<lambda>i. 0),
      mapBerdySensorType = [(1000, ''NET_EXT_WRENCH_SENSOR'')],
      options_checkConsistency = (\<lambda>opts. True),
      berdy_init = (\<lambda>m opts bh. (dm_valid m, \<lparr>db_links = dm_links m, db_dofs = length (dm_joints m)\<rparr>)),
      berdy_getNrOfDynamicVariables = (\<lambda>bh. 6 * length (db_links bh)),
      berdy_getNrOfSensorsMeasurements = (\<lambda>bh. 6 * length (db_links bh) + 6),
      berdy_getSensorsOrdering = (\<lambda>bh.
         map (\<lambda>i. \<lparr>sensor_type = NET_EXT_WRENCH_SENSOR, sensor_id = db_links bh ! i,
                    sensor_range_offset = 6 * int i\<rparr>) [0 ..< length (db_links bh)] @
         [\<lparr>sensor_type = RCM_SENSOR, sensor_id = ''RCM_SENSOR'',
           sensor_range_offset = 6 * int (length (db_links bh))\<rparr>]),
      berdy_getRangeLinkSensorVariable = (\<lambda>bh t i.
         if 0 \<le> i \<and> i < int (length (db_links bh)) then 6 * i else - 1),
      berdy_getRangeRCMSensorVariable = (\<lambda>bh t. 6 * int (length (db_links bh))),
      berdy_updateKinematicsFromFloatingBase = (\<lambda>q dq b w bh.
         (length q = db_dofs bh \<and> length dq = db_dofs bh, bh)),
      berdy_extractLinkNetExternalWrenchesFromDynamicVariables = (\<lambda>bh m vars. chop6 vars),
      berdy_extractJointTorquesFromDynamicVariables = (\<lambda>bh vars q buf.
         if length q = db_dofs bh then (True, map (\<lambda>x. 0) q) else (False, buf)),
      solver_make = (\<lambda>bh. \<lparr>ds_converges = True, ds_measurement = [], ds_estimate = []\<rparr>),
      solver_initialize = (\<lambda>(bh, bs). (True, bh, bs)),
      solver_isValid = (\<lambda>(bh, bs). True),
      solver_setMeasurementsPriorCovariance = (\<lambda>n ts bs. bs),
      solver_setDynamicsRegularizationPriorExpectedValue = (\<lambda>mu bs. bs),
      solver_setDynamicsRegularizationPriorCovariance = (\<lambda>n ts bs. bs),
      solver_updateEstimateInformationFloatingBase = (\<lambda>q dq b w y (bh, bs).
         (bh, bs\<lparr>ds_measurement := y\<rparr>)),
      solver_doEstimate = (\<lambda>(bh, bs).
         if ds_converges bs
         then (True, bh, bs\<lparr>ds_estimate := take (6 * length (db_links bh)) (ds_measurement bs)\<rparr>)
         else (False, bh, bs\<lparr>ds_converges := True\<rparr>)),
      solver_getLastEstimate = ds_estimate\<rparr>"

text \<open>
  A body of 70 kg with one joint and the links \<open>Pelvis\<close> and \<open>LeftFoot\<close>: a force plate
  under the foot is a fixed source, the pelvis carries a dummy source with the constant
  wrench \<open>(1, 2, 3, 0, 0, 0)\<close>. The model's gravity is \<open>(0, 0, -9.81)\<close>. The estimator has
  a model of its own. The last solve left a foot wrench of 5 along z and a joint torque of
  4; the solver of the joint torques is about to fail.
\<close>

definition demo_body :: demo_model where
  "demo_body =
     \<lparr>dm_valid = True, dm_joints = [''knee''], dm_links = [''Pelvis'', ''LeftFoot''],
      dm_frames = [''Pelvis'', ''LeftFoot''], dm_floatingBase = ''Pelvis'',
      dm_state = \<lparr>rs_w_H_b = identity_Transform, rs_s = [1 / 2],
                  rs_base_velocity = Vector6 0 0 0 0 0 0, rs_s_dot = [0],
                  rs_world_gravity = Vector3 0 0 (- 981 / 100)\<rparr>,
      dm_com = Vector3 0 0 0\<rparr>"

definition demo_sources :: "WrenchSourceData list" where
  "demo_sources =
     [\<lparr>outputFrame = ''LeftFoot'', type = Fixed,
        outputFrameTransform = \<lparr>rotation = Rotation 1 0 0 0 1 0 0 0 1, position = Vector3 1 0 0\<rparr>,
        wrench = Vector6 0 0 0 0 0 0\<rparr>,
      \<lparr>outputFrame = ''Pelvis'', type = Dummy, outputFrameTransform = identity_Transform,
        wrench = Vector6 1 2 3 0 0 0\<rparr>]"

definition demo_id :: "(demo_model, demo_berdy, demo_solver) HumanID" where
  "demo_id =
     \<lparr>m_humanMass = 70,
      m_kinDynID = Some demo_body,
      m_kinState = \<lparr>floatingBaseFrameIndex = 0, jointsPosition = [0], jointsVelocity = [0],
                    baseAngularVelocity = Vector3 0 0 0\<rparr>,
      m_jointTorquesHelper =
        \<lparr>berdyHelper = \<lparr>db_links = [''Pelvis'', ''LeftFoot''], db_dofs = 1\<rparr>,
         berdySolver = Some \<lparr>ds_converges = False, ds_measurement = [], ds_estimate = []\<rparr>,
         estimatedDynamicVariables = replicate 12 0,
         measurement = replicate 18 0,
         estimatedJointTorques = [4]\<rparr>,
      m_extWrenchesEstimator =
        \<lparr>kinDyn = OwnKinDyn demo_body,
         helper =
           \<lparr>berdyHelper = \<lparr>db_links = [''Pelvis'', ''LeftFoot''], db_dofs = 1\<rparr>,
            berdySolver = Some \<lparr>ds_converges = True, ds_measurement = [], ds_estimate = []\<rparr>,
            estimatedDynamicVariables = replicate 12 0,
            measurement = [0, 0, 0, 0, 0, 0, 0, 0, 9, 0, 0, 0, 0, 0, 0, 0, 0, 0],
            estimatedJointTorques = []\<rparr>,
         jointPositions = [0], jointVelocities = [0],
         jointsPositionArray = [0], jointsVelocityArray = [0],
         useFullModel = True\<rparr>,
      m_wrenchSources = demo_sources,
      m_estimatedExtWrenches = [Vector6 0 0 5 0 0 0, Vector6 0 0 0 0 0 0],
      m_mapEstParams = \<lparr>priorDynamicsRegularizationExpected = 0,
                        priorDynamicsRegularizationCovarianceValue = 1,
                        specificMeasurementsCovariance = Map.empty,
                        measurementDefaultCovariance = 1\<rparr>\<rparr>"

text \<open>
  A configuration of that body with no \<open>modelPath\<close> in the \<open>EXTERNAL_WRENCHES\<close> group, and
  a \<open>HumanID\<close> before \<open>initialize\<close>.
\<close>

definition demo_config :: handler where
  "demo_config =
     Handler [(''humanMass'', ParamDouble 70)]
       [(''JOINT_TORQUES'', Handler [] [(''SENSOR_REMOVAL'', Handler [] [])]),
        (''EXTERNAL_WRENCHES'',
           Handler
             [(''wrenchSources'', ParamStringVector [''LeftFootWrench'', ''PelvisWrench'']),
              (''mu_dyn_variables'', ParamDouble 0),
              (''cov_dyn_variables'', ParamDouble 1),
              (''specificElements'', ParamStringVector []),
              (''cov_measurements_RCM_SENSOR'', ParamDoubleVector [1, 1, 1, 1, 1, 1]),
              (''default_cov_measurements'', ParamDouble 1)]
             [(''LeftFootWrench'',
                 Handler [(''outputFrame'', ParamString ''LeftFoot''), (''type'', ParamString ''fixed''),
                          (''position'', ParamDoubleVector [1, 0, 0]),
                          (''orientation'', ParamDoubleVector [1, 0, 0, 0, 1, 0, 0, 0, 1])] []),
              (''PelvisWrench'',
                 Handler [(''outputFrame'', ParamString ''Pelvis''), (''type'', ParamString ''dummy''),
                          (''values'', ParamDoubleVector [1, 2, 3, 0, 0, 0])] [])])]"

definition fresh_id :: "(demo_model, demo_berdy, demo_solver) HumanID" where
  "fresh_id =
     \<lparr>m_humanMass = 0,
      m_kinDynID = None,
      m_kinState = \<lparr>floatingBaseFrameIndex = 0, jointsPosition = [], jointsVelocity = [],
                    baseAngularVelocity = Vector3 0 0 0\<rparr>,
      m_jointTorquesHelper =
        \<lparr>berdyHelper = \<lparr>db_links = [], db_dofs = 0\<rparr>, berdySolver = None,
         estimatedDynamicVariables = [], measurement = [], estimatedJointTorques = []\<rparr>,
      m_extWrenchesEstimator =
        \<lparr>kinDyn = NullKinDyn,
         helper = \<lparr>berdyHelper = \<lparr>db_links = [], db_dofs = 0\<rparr>, berdySolver = None,
                   estimatedDynamicVariables = [], measurement = [], estimatedJointTorques = []\<rparr>,
         jointPositions = [], jointVelocities = [],
         jointsPositionArray = [], jointsVelocityArray = [],
         useFullModel = False\<rparr>,
      m_wrenchSources = [],
      m_estimatedExtWrenches = [],
      m_mapEstParams = \<lparr>priorDynamicsRegularizationExpected = 0,
                        priorDynamicsRegularizationCovarianceValue = 0,
                        specificMeasurementsCovariance = Map.empty,
                        measurementDefaultCovariance = 0\<rparr>\<rparr>"

section \<open>Properties of \<open>HumanIK\<close>\<close>

subsection \<open>Rounding to a double\<close>

text \<open>
  \<open>round_half_even\<close> stays between the integers around its argument and is at most a half
  from it; \<open>floor_log2\<close> is the binary exponent; \<open>double_round\<close> returns a multiple of the
  spacing with a significand within 53 bits, at most half the spacing from its argument,
  and returns every such number as it is.
\<close>

lemma round_half_even_between:
  assumes "real_of_int a \<le> t" and "t \<le> real_of_int b"
  shows "a \<le> round_half_even t \<and> round_half_even t \<le> b"
proof -
  have fa: "a \<le> \<lfloor>t\<rfloor>" using assms(1) by (simp add: le_floor_iff)
  have fb: "\<lfloor>t\<rfloor> \<le> b" using assms(2) by (simp add: floor_le_iff)
  have up: "\<lfloor>t\<rfloor> + 1 \<le> b" if "t \<noteq> real_of_int \<lfloor>t\<rfloor>"
  proof -
    have "real_of_int \<lfloor>t\<rfloor> < t" using that of_int_floor_le [of t] by linarith
    then have "real_of_int \<lfloor>t\<rfloor> < real_of_int b" using assms(2) by linarith
    then show ?thesis by simp
  qed
  show ?thesis
    using fa fb up
    by (auto simp add: round_half_even_def Let_def)
qed

lemma round_half_even_of_int: "round_half_even (real_of_int k) = k"
  by (simp add: round_half_even_def)

lemma floor_log2_bounds:
  assumes "0 < x"
  shows "2 powi floor_log2 x \<le> x \<and> x < 2 powi (floor_log2 x + 1)"
proof (cases "1 \<le> x")
  case True
  let ?n = "\<lfloor>x\<rfloor>"
  have n: "0 < ?n" using True by simp
  have b1: "1 \<le> bitlen ?n" using n by (simp add: bitlen_ge_iff_power)
  from bitlen_bounds [OF n]
  have lo: "2 ^ nat (bitlen ?n - 1) \<le> ?n" and hi: "?n < 2 ^ nat (bitlen ?n)" by simp_all
  have e: "floor_log2 x = bitlen ?n - 1" using True by (simp add: floor_log2_def)
  have p1: "(2::real) powi (bitlen ?n - 1) = 2 ^ nat (bitlen ?n - 1)"
    using b1 by (simp add: power_int_def)
  have p2: "(2::real) powi (bitlen ?n - 1 + 1) = 2 ^ nat (bitlen ?n)"
    using b1 by (simp add: power_int_def)
  have "real_of_int (2 ^ nat (bitlen ?n - 1)) \<le> real_of_int ?n" using lo by (simp only: of_int_le_iff)
  also have "real_of_int ?n \<le> x" by (rule of_int_floor_le)
  finally have l: "(2::real) ^ nat (bitlen ?n - 1) \<le> x" by simp
  have "?n + 1 \<le> 2 ^ nat (bitlen ?n)" using hi by simp
  then have "real_of_int (?n + 1) \<le> real_of_int (2 ^ nat (bitlen ?n))" by (simp only: of_int_le_iff)
  moreover have "x < real_of_int (?n + 1)" using floor_correct [of x] by simp
  ultimately have "x < real_of_int (2 ^ nat (bitlen ?n))" by (rule less_le_trans [rotated])
  then have h: "x < 2 ^ nat (bitlen ?n)" by simp
  show ?thesis using l h by (simp only: e p1 p2)
next
  case False
  then have x1: "x < 1" by simp
  let ?m = "\<lceil>1 / x\<rceil> - 1"
  have inv: "1 < 1 / x" using assms x1 by simp
  have m: "0 < ?m" using inv by (simp add: less_ceiling_iff)
  have b1: "1 \<le> bitlen ?m" using m by (simp add: bitlen_ge_iff_power)
  from bitlen_bounds [OF m]
  have lo: "2 ^ nat (bitlen ?m - 1) \<le> ?m" and hi: "?m < 2 ^ nat (bitlen ?m)" by simp_all
  have e: "floor_log2 x = - bitlen ?m" using False by (simp add: floor_log2_def)
  have p1: "(2::real) powi (- bitlen ?m) = 1 / 2 ^ nat (bitlen ?m)"
    using b1 by (simp add: power_int_def field_simps)
  have p2: "(2::real) powi (- bitlen ?m + 1) = 1 / 2 ^ nat (bitlen ?m - 1)"
    using b1 by (simp add: power_int_def field_simps nat_diff_distrib)
  have "?m + 1 \<le> 2 ^ nat (bitlen ?m)" using hi by simp
  then have "real_of_int (?m + 1) \<le> real_of_int (2 ^ nat (bitlen ?m))" by (simp only: of_int_le_iff)
  moreover have "1 / x \<le> real_of_int (?m + 1)" using le_of_int_ceiling [of "1 / x"] by simp
  ultimately have "1 / x \<le> real_of_int (2 ^ nat (bitlen ?m))" by (rule order_trans [rotated])
  then have "1 / x \<le> 2 ^ nat (bitlen ?m)" by simp
  then have l: "1 / 2 ^ nat (bitlen ?m) \<le> x"
    using assms by (simp add: field_simps)
  have "real_of_int (2 ^ nat (bitlen ?m - 1)) \<le> real_of_int ?m" using lo by (simp only: of_int_le_iff)
  moreover have "real_of_int ?m < 1 / x" using ceiling_correct [of "1 / x"] by simp
  ultimately have "real_of_int (2 ^ nat (bitlen ?m - 1)) < 1 / x" by (rule le_less_trans)
  then have "2 ^ nat (bitlen ?m - 1) < 1 / x" by simp
  then have h: "x < 1 / 2 ^ nat (bitlen ?m - 1)"
    using assms by (simp add: field_simps)
  show ?thesis using l h by (simp only: e p1 p2)
qed

lemma floor_log2_less:
  assumes "0 < x" and "x < 2 powi m"
  shows "floor_log2 x < m"
proof (rule ccontr)
  assume "\<not> floor_log2 x < m"
  then have "m \<le> floor_log2 x" by simp
  then have "(2::real) powi m \<le> 2 powi floor_log2 x" by (rule power_int_increasing) simp
  with floor_log2_bounds [OF assms(1)] assms(2) show False by linarith
qed

lemma floor_log2_eq:
  assumes "0 < x" and "2 powi m \<le> x" and "x < 2 powi (m + 1)"
  shows "floor_log2 x = m"
proof -
  have "floor_log2 x < m + 1" using assms(1,3) by (rule floor_log2_less)
  moreover have "m \<le> floor_log2 x"
  proof (rule ccontr)
    assume "\<not> m \<le> floor_log2 x"
    then have "floor_log2 x + 1 \<le> m" by simp
    then have "(2::real) powi (floor_log2 x + 1) \<le> 2 powi m" by (rule power_int_increasing) simp
    with floor_log2_bounds [OF assms(1)] assms(2) show False by linarith
  qed
  ultimately show ?thesis by simp
qed

lemma double_round_nonzero:
  assumes "x \<noteq> 0"
  shows "double_round x =
     (if 2 ^ 1024 \<le> \<bar>real_of_int (round_half_even (x / 2 powi max (floor_log2 \<bar>x\<bar> - 52) (- 1074))) *
            2 powi max (floor_log2 \<bar>x\<bar> - 52) (- 1074)\<bar>
      then Infinite (0 < x)
      else Finite (real_of_int (round_half_even (x / 2 powi max (floor_log2 \<bar>x\<bar> - 52) (- 1074))) *
            2 powi max (floor_log2 \<bar>x\<bar> - 52) (- 1074)))"
  using assms by (simp add: double_round_def Let_def)

lemma double_round_Finite_form:
  assumes "double_round x = Finite y"
  shows "\<exists>k j. y = real_of_int k * 2 powi j \<and> \<bar>k\<bar> \<le> 2 ^ 53 \<and> - 1074 \<le> j \<and>
           \<bar>y\<bar> < 2 ^ 1024 \<and> (0 \<le> x \<longrightarrow> 0 \<le> k)"
proof (cases "x = 0")
  case True
  then have "y = 0" using assms by (simp add: double_round_def)
  then have "y = real_of_int 0 * 2 powi 0 \<and> \<bar>0::int\<bar> \<le> 2 ^ 53 \<and> - 1074 \<le> (0::int) \<and>
           \<bar>y\<bar> < 2 ^ 1024 \<and> (0 \<le> x \<longrightarrow> 0 \<le> (0::int))" by simp
  then show ?thesis by blast
next
  case False
  define q where "q = max (floor_log2 \<bar>x\<bar> - 52) (- 1074)"
  define t where "t = x / 2 powi q"
  define k where "k = round_half_even t"
  have pos: "0 < \<bar>x\<bar>" using False by simp
  have pq: "(0::real) < 2 powi q" by (simp add: zero_less_power_int)
  from assms have y: "y = real_of_int k * 2 powi q" and small: "\<bar>y\<bar> < 2 ^ 1024"
    by (simp_all add: double_round_nonzero [OF False] k_def t_def q_def split: if_splits)
  have "floor_log2 \<bar>x\<bar> + 1 \<le> q + 53" by (simp add: q_def)
  then have "(2::real) powi (floor_log2 \<bar>x\<bar> + 1) \<le> 2 powi (q + 53)"
    by (rule power_int_increasing) simp
  with floor_log2_bounds [OF pos] have "\<bar>x\<bar> < 2 powi (q + 53)" by linarith
  also have "(2::real) powi (q + 53) = 2 powi q * 2 ^ 53" by (simp add: power_int_add)
  finally have "\<bar>x\<bar> / 2 powi q < 2 ^ 53" using pq by (simp add: field_simps)
  then have "\<bar>t\<bar> < 2 ^ 53" using pq by (simp add: t_def abs_divide)
  then have "real_of_int (- (2 ^ 53)) \<le> t" and "t \<le> real_of_int (2 ^ 53)" by simp_all
  from round_half_even_between [OF this] have "- (2 ^ 53) \<le> k \<and> k \<le> 2 ^ 53"
    by (simp add: k_def)
  then have kb: "\<bar>k\<bar> \<le> 2 ^ 53" by linarith
  have nn: "0 \<le> k" if "0 \<le> x"
  proof -
    have "real_of_int 0 \<le> t" using that pq by (simp add: t_def)
    moreover have "t \<le> real_of_int \<lceil>t\<rceil>" by (rule le_of_int_ceiling)
    ultimately have "0 \<le> round_half_even t \<and> round_half_even t \<le> \<lceil>t\<rceil>"
      by (rule round_half_even_between)
    then show ?thesis by (simp add: k_def)
  qed
  have "- 1074 \<le> q" by (simp add: q_def)
  with y kb small nn show ?thesis by blast
qed

lemma double_round_exact_less:
  assumes "\<bar>k\<bar> < 2 ^ 53" and "- 1074 \<le> j" and "\<bar>real_of_int k * 2 powi j\<bar> < 2 ^ 1024"
  shows "double_round (real_of_int k * 2 powi j) = Finite (real_of_int k * 2 powi j)"
proof (cases "k = 0")
  case True
  then show ?thesis by (simp add: double_round_def)
next
  case False
  define y where "y = real_of_int k * 2 powi j"
  define q where "q = max (floor_log2 \<bar>y\<bar> - 52) (- 1074)"
  have pj: "(0::real) < 2 powi j" by (simp add: zero_less_power_int)
  have y0: "y \<noteq> 0" using False pj by (simp add: y_def)
  then have pos: "0 < \<bar>y\<bar>" by simp
  have "real_of_int \<bar>k\<bar> < real_of_int (2 ^ 53)" using assms(1) by (simp only: of_int_less_iff)
  then have "\<bar>real_of_int k\<bar> < 2 ^ 53" by simp
  then have "\<bar>y\<bar> < 2 ^ 53 * 2 powi j" using pj by (simp add: y_def abs_mult)
  also have "\<dots> = 2 powi (53 + j)" by (simp add: power_int_add)
  finally have "floor_log2 \<bar>y\<bar> < 53 + j" by (rule floor_log2_less [OF pos])
  then have qj: "q \<le> j" using assms(2) by (simp add: q_def)
  have "(2::real) powi j = 2 powi (q + (j - q))" by simp
  also have "\<dots> = 2 powi q * 2 powi (j - q)" by (rule power_int_add) simp
  also have "(2::real) powi (j - q) = 2 ^ nat (j - q)" using qj by (simp add: power_int_def)
  finally have pjq: "(2::real) powi j = 2 powi q * 2 ^ nat (j - q)" .
  have "y / 2 powi q = real_of_int (k * 2 ^ nat (j - q))"
    by (simp add: y_def pjq)
  then have k: "round_half_even (y / 2 powi q) = k * 2 ^ nat (j - q)"
    by (simp only: round_half_even_of_int)
  have bk: "real_of_int (k * 2 ^ nat (j - q)) * 2 powi q = y"
    by (simp add: y_def pjq)
  have "double_round y = Finite y"
    using assms(3)
    by (simp only: double_round_nonzero [OF y0] q_def [symmetric] k bk) (simp add: y_def)
  then show ?thesis by (simp only: y_def)
qed

lemma double_round_exact:
  assumes "\<bar>k\<bar> \<le> 2 ^ 53" and "- 1074 \<le> j" and "\<bar>real_of_int k * 2 powi j\<bar> < 2 ^ 1024"
  shows "double_round (real_of_int k * 2 powi j) = Finite (real_of_int k * 2 powi j)"
proof (cases "\<bar>k\<bar> < 2 ^ 53")
  case True
  then show ?thesis using assms(2,3) by (rule double_round_exact_less)
next
  case False
  then have "k = 2 ^ 53 \<or> k = - (2 ^ 53)" using assms(1) by linarith
  then obtain h where h: "k = 2 * h" and hb: "\<bar>h\<bar> < 2 ^ 53"
  proof
    assume "k = 2 ^ 53"
    then have "k = 2 * 2 ^ 52 \<and> \<bar>2 ^ 52 :: int\<bar> < 2 ^ 53" by simp
    then show ?thesis using that by blast
  next
    assume "k = - (2 ^ 53)"
    then have "k = 2 * (- (2 ^ 52)) \<and> \<bar>- (2 ^ 52) :: int\<bar> < 2 ^ 53" by simp
    then show ?thesis using that by blast
  qed
  have eq: "real_of_int k * 2 powi j = real_of_int h * 2 powi (j + 1)"
    by (simp add: h power_int_add)
  have "- 1074 \<le> j + 1" using assms(2) by simp
  from double_round_exact_less [OF hb this] assms(3) show ?thesis by (simp only: eq)
qed

lemma double_round_of_int:
  assumes "\<bar>n\<bar> \<le> 2 ^ 53"
  shows "double_round (real_of_int n) = Finite (real_of_int n)"
proof -
  have "real_of_int \<bar>n\<bar> \<le> real_of_int (2 ^ 53)" using assms by (simp only: of_int_le_iff)
  then have "\<bar>real_of_int n\<bar> \<le> 2 ^ 53" by simp
  moreover have "(2::real) ^ 53 < 2 ^ 1024" by simp
  ultimately have "\<bar>real_of_int n * 2 powi 0\<bar> < 2 ^ 1024" by simp
  from double_round_exact [OF assms _ this] show ?thesis by simp
qed

lemma double_round_floor:
  assumes "double_round x = Finite y" and "0 \<le> x"
  shows "0 \<le> y \<and> double_round (real_of_int \<lfloor>y\<rfloor>) = Finite (real_of_int \<lfloor>y\<rfloor>)"
proof -
  from double_round_Finite_form [OF assms(1)] assms(2)
  obtain k j where y: "y = real_of_int k * 2 powi j" and kb: "\<bar>k\<bar> \<le> 2 ^ 53"
    and j: "- 1074 \<le> j" and small: "\<bar>y\<bar> < 2 ^ 1024" and k0: "0 \<le> k" by blast
  have pj: "(0::real) < 2 powi j" by (simp add: zero_less_power_int)
  have y0: "0 \<le> y" using k0 pj by (simp add: y)
  have "double_round (real_of_int \<lfloor>y\<rfloor>) = Finite (real_of_int \<lfloor>y\<rfloor>)"
  proof (cases "0 \<le> j")
    case True
    then have "y = real_of_int (k * 2 ^ nat j)" by (simp add: y power_int_def)
    then have "real_of_int \<lfloor>y\<rfloor> = y" by (simp only: floor_of_int)
    moreover have "double_round y = Finite y"
      using double_round_exact [OF kb j] small by (simp only: y)
    ultimately show ?thesis by (simp only:)
  next
    case False
    then have "(2::real) powi j \<le> 2 powi 0" by (intro power_int_increasing) simp_all
    then have "(2::real) powi j \<le> 1" by simp
    then have "y \<le> real_of_int k * 1" unfolding y using k0 by (intro mult_left_mono) simp_all
    then have "y \<le> real_of_int k" by simp
    then have "\<lfloor>y\<rfloor> \<le> k" by (simp add: floor_le_iff)
    moreover have "0 \<le> \<lfloor>y\<rfloor>" using y0 by simp
    ultimately have "\<bar>\<lfloor>y\<rfloor>\<bar> \<le> 2 ^ 53" using kb by linarith
    then show ?thesis by (rule double_round_of_int)
  qed
  with y0 show ?thesis by simp
qed

lemma double_round_near_floor:
  assumes "0 \<le> p" and "p < 2 ^ 53"
  shows "\<exists>y. double_round p = Finite y \<and> (\<lfloor>y\<rfloor> = \<lfloor>p\<rfloor> \<or> \<lfloor>y\<rfloor> = \<lfloor>p\<rfloor> + 1)"
proof (cases "p = 0")
  case True
  then show ?thesis by (simp add: double_round_def)
next
  case False
  define q where "q = max (floor_log2 \<bar>p\<bar> - 52) (- 1074)"
  define s where "s = (2::int) ^ nat (- q)"
  define k where "k = round_half_even (p / 2 powi q)"
  have pos: "0 < \<bar>p\<bar>" using False by simp
  have "\<bar>p\<bar> < 2 powi 53" using assms by simp
  then have "floor_log2 \<bar>p\<bar> < 53" by (rule floor_log2_less [OF pos])
  then have q0: "q \<le> 0" by (simp add: q_def)
  then have pq: "(2::real) powi q = 1 / real_of_int s"
    by (simp add: s_def power_int_def field_simps)
  have s1: "1 \<le> s" by (simp add: s_def)
  have sr: "0 < real_of_int s" using s1 by simp
  have t: "p / 2 powi q = p * real_of_int s" by (simp add: pq)
  have "real_of_int \<lfloor>p\<rfloor> * real_of_int s \<le> p * real_of_int s"
    using sr by (intro mult_right_mono) simp_all
  then have lo: "real_of_int (\<lfloor>p\<rfloor> * s) \<le> p / 2 powi q" by (simp add: t)
  have "p * real_of_int s \<le> real_of_int (\<lfloor>p\<rfloor> + 1) * real_of_int s"
    using sr floor_correct [of p] by (intro mult_right_mono) simp_all
  then have hi: "p / 2 powi q \<le> real_of_int ((\<lfloor>p\<rfloor> + 1) * s)" by (simp add: t)
  from round_half_even_between [OF lo hi]
  have kl: "\<lfloor>p\<rfloor> * s \<le> k" and kh: "k \<le> (\<lfloor>p\<rfloor> + 1) * s" by (simp_all add: k_def)
  define y where "y = real_of_int k * 2 powi q"
  have yk: "y = real_of_int k / real_of_int s" by (simp add: y_def pq)
  have "real_of_int (\<lfloor>p\<rfloor> * s) \<le> real_of_int k" using kl by (simp only: of_int_le_iff)
  then have yl: "real_of_int \<lfloor>p\<rfloor> \<le> y" using sr by (simp add: yk field_simps)
  have "real_of_int k \<le> real_of_int ((\<lfloor>p\<rfloor> + 1) * s)" using kh by (simp only: of_int_le_iff)
  then have yh: "y \<le> real_of_int (\<lfloor>p\<rfloor> + 1)" using sr by (simp add: yk field_simps)
  have fl: "\<lfloor>p\<rfloor> \<le> \<lfloor>y\<rfloor>" using yl by (simp add: le_floor_iff)
  have fh: "\<lfloor>y\<rfloor> \<le> \<lfloor>p\<rfloor> + 1" using yh by (simp add: floor_le_iff)
  have "0 \<le> y" using yl assms(1) by (simp add: order_trans [rotated])
  moreover have "real_of_int (\<lfloor>p\<rfloor> + 1) \<le> 2 ^ 53"
  proof -
    have "\<lfloor>p\<rfloor> < 2 ^ 53" using assms(2) by (simp add: floor_less_iff)
    then have "\<lfloor>p\<rfloor> + 1 \<le> 2 ^ 53" by simp
    then have "real_of_int (\<lfloor>p\<rfloor> + 1) \<le> real_of_int (2 ^ 53)" by (simp only: of_int_le_iff)
    then show ?thesis by simp
  qed
  moreover have "(2::real) ^ 53 < 2 ^ 1024" by simp
  ultimately have "\<bar>y\<bar> < 2 ^ 1024" using yh by linarith
  then have "double_round p = Finite y"
    by (simp add: double_round_nonzero [OF False] q_def [symmetric] k_def [symmetric]
        y_def [symmetric])
  with fl fh show ?thesis by auto
qed

lemma round_half_even_error: "\<bar>real_of_int (round_half_even t) - t\<bar> \<le> 1 / 2"
proof -
  have "real_of_int \<lfloor>t\<rfloor> \<le> t" and "t < real_of_int \<lfloor>t\<rfloor> + 1" by linarith+
  then show ?thesis by (auto simp add: round_half_even_def Let_def)
qed

lemma double_round_error:
  assumes "double_round x = Finite y" and "x \<noteq> 0"
  shows "\<bar>y - x\<bar> \<le> 2 powi max (floor_log2 \<bar>x\<bar> - 52) (- 1074) / 2"
proof -
  define q where "q = max (floor_log2 \<bar>x\<bar> - 52) (- 1074)"
  define t where "t = x / 2 powi q"
  have pq: "(0::real) < 2 powi q" by (simp add: zero_less_power_int)
  from assms have y: "y = real_of_int (round_half_even t) * 2 powi q"
    by (simp add: double_round_nonzero [OF assms(2)] t_def q_def split: if_splits)
  have x: "x = t * 2 powi q" using pq by (simp add: t_def)
  have "y - x = (real_of_int (round_half_even t) - t) * 2 powi q"
    by (simp only: y x [symmetric]) (simp add: x algebra_simps)
  then have "\<bar>y - x\<bar> = \<bar>real_of_int (round_half_even t) - t\<bar> * 2 powi q"
    using pq by (simp add: abs_mult)
  also have "\<dots> \<le> 1 / 2 * 2 powi q"
    using pq round_half_even_error [of t] by (intro mult_right_mono) simp_all
  finally show ?thesis by (simp add: q_def)
qed

subsection \<open>The timestep\<close>

lemma truncate_toward_zero_nonneg: "0 \<le> x \<Longrightarrow> truncate_toward_zero x = \<lfloor>x\<rfloor>"
  by (simp add: truncate_toward_zero_def)

lemma duration_cast_nanoseconds_nonneg:
  assumes "0 \<le> dt" and "double_round (dt * 10 ^ 9) = Finite y" and "y < 2 ^ 63"
  shows "duration_cast_nanoseconds (Finite dt) = Inr \<lfloor>y\<rfloor>"
proof -
  have "0 \<le> dt * 10 ^ 9" using assms(1) by simp
  from double_round_floor [OF assms(2) this] have y0: "0 \<le> y" by simp
  have lo: "- (2 ^ 63) \<le> \<lfloor>y\<rfloor>"
  proof -
    have "(0::int) \<le> \<lfloor>y\<rfloor>" using y0 by simp
    moreover have "- (2 ^ 63) \<le> (0::int)" by simp
    ultimately show ?thesis by (rule order_trans [rotated])
  qed
  have hi: "\<lfloor>y\<rfloor> < 2 ^ 63"
  proof -
    have "y < real_of_int (2 ^ 63)" using assms(3) by simp
    then show ?thesis by (simp only: floor_less_iff)
  qed
  have "duration_cast_nanoseconds (Finite dt) =
      (let n = truncate_toward_zero y
       in if - (2 ^ 63) \<le> n \<and> n < 2 ^ 63 then Inr n else Inl OutOfRange)"
    by (simp only: duration_cast_nanoseconds_def double.case assms(2))
  then show ?thesis
    using lo hi y0 by (simp add: truncate_toward_zero_nonneg Let_def)
qed

lemma duration_cast_seconds_exact:
  assumes "double_round x = Finite y" and "0 \<le> x"
  shows "duration_cast_seconds \<lfloor>y\<rfloor> = double_round (real_of_int \<lfloor>y\<rfloor> / 10 ^ 9)"
  using double_round_floor [OF assms] by (simp add: duration_cast_seconds_def)

text \<open>
  Claim C10, as amended. On a \<open>HumanIK\<close> whose integrator exists, for every timestep
  \<open>0 \<le> dt\<close> whose product with \<open>10^9\<close>, rounded to the nearest double \<open>y\<close>, is below
  \<open>2^63\<close>, \<open>setDt dt\<close> returns and stores the integer part of \<open>y\<close> as the count of
  nanoseconds, and \<open>getDt\<close> then returns the double nearest to that count divided by
  \<open>10^9\<close>: it is \<open>floor (dt * 1e9) / 1e9\<close> as doubles compute it. This holds whatever the
  rest of the solver state and whatever flag the integrator returns. When \<open>dt * 10^9\<close> is
  below \<open>2^53\<close>, the stored count is \<open>floor (dt * 10^9)\<close> of the exact product, or one more.
\<close>

theorem setDt_getDt_roundtrip:
  assumes "m_system st = Some integrator" and "0 \<le> dt"
    and "double_round (dt * 10 ^ 9) = Finite y" and "y < 2 ^ 63"
  shows "\<exists>ok st'. setDt L st (Finite dt) = Inr (ok, st') \<and>
           m_dtIntegration st' = \<lfloor>y\<rfloor> \<and>
           getDt st' = double_round (real_of_int \<lfloor>y\<rfloor> / 10 ^ 9) \<and>
           (dt * 10 ^ 9 < 2 ^ 53 \<longrightarrow> \<lfloor>y\<rfloor> = \<lfloor>dt * 10 ^ 9\<rfloor> \<or> \<lfloor>y\<rfloor> = \<lfloor>dt * 10 ^ 9\<rfloor> + 1)"
proof -
  have nn: "0 \<le> dt * 10 ^ 9" using assms(2) by simp
  have c: "duration_cast_nanoseconds (Finite dt) = Inr \<lfloor>y\<rfloor>"
    using assms(2-4) by (rule duration_cast_nanoseconds_nonneg)
  have s: "duration_cast_seconds \<lfloor>y\<rfloor> = double_round (real_of_int \<lfloor>y\<rfloor> / 10 ^ 9)"
    using assms(3) nn by (rule duration_cast_seconds_exact)
  have near: "\<lfloor>y\<rfloor> = \<lfloor>dt * 10 ^ 9\<rfloor> \<or> \<lfloor>y\<rfloor> = \<lfloor>dt * 10 ^ 9\<rfloor> + 1" if "dt * 10 ^ 9 < 2 ^ 53"
    using double_round_near_floor [OF nn that] assms(3) by auto
  show ?thesis
    using near
    by (simp add: setDt_def c assms(1) getDt_def s split: prod.splits)
qed

text \<open>
  The double nearest to a hundredth of a second is \<open>5764607523034235 / 2^59\<close>. On the
  example, whose integrator exists, it is stored as \<open>10^7\<close> nanoseconds and comes back
  as it was given.
\<close>

theorem setDt_getDt_roundtrip_witness:
  "m_system (with_system (Some (m_system demo_ik)) demo_ik) = Some (m_system demo_ik) \<and>
   (0::real) \<le> 5764607523034235 / 2 ^ 59 \<and>
   double_round (5764607523034235 / 2 ^ 59) = Finite (5764607523034235 / 2 ^ 59) \<and>
   double_round (5764607523034235 / 2 ^ 59 * 10 ^ 9) = Finite 10000000 \<and>
   (10000000::real) < 2 ^ 63 \<and>
   (5764607523034235 / 2 ^ 59 * 10 ^ 9 :: real) < 2 ^ 53 \<and>
   \<lfloor>5764607523034235 / 2 ^ 59 * 10 ^ 9 :: real\<rfloor> = 10000000 \<and>
   map_sum id (\<lambda>r. (m_dtIntegration (snd r), getDt (snd r)))
     (setDt demo_ik_lib (with_system (Some (m_system demo_ik)) demo_ik)
        (Finite (5764607523034235 / 2 ^ 59))) =
     Inr (10000000, Finite (5764607523034235 / 2 ^ 59))"
proof -
  let ?st = "with_system (Some (m_system demo_ik)) demo_ik"
  let ?dt = "5764607523034235 / 2 ^ 59 :: real"
  have a: "m_system ?st = Some (m_system demo_ik)" by (simp add: with_system_def)
  have b: "0 \<le> ?dt" by simp
  have c: "double_round (?dt * 10 ^ 9) = Finite 10000000"
    by (simp add: double_round_def floor_log2_def compute_bitlen round_half_even_def Let_def)
  have d: "(10000000::real) < 2 ^ 63" by simp
  have e: "double_round ?dt = Finite ?dt"
    by (simp add: double_round_def floor_log2_def compute_bitlen round_half_even_def Let_def)
  have f: "double_round (real_of_int \<lfloor>10000000 :: real\<rfloor> / 10 ^ 9) = Finite ?dt"
    by (simp add: double_round_def floor_log2_def compute_bitlen round_half_even_def Let_def)
  from setDt_getDt_roundtrip [OF a b c d, of demo_ik_lib]
  obtain ok st' where r: "setDt demo_ik_lib ?st (Finite ?dt) = Inr (ok, st')"
    and n: "m_dtIntegration st' = \<lfloor>10000000 :: real\<rfloor>"
    and g: "getDt st' = double_round (real_of_int \<lfloor>10000000 :: real\<rfloor> / 10 ^ 9)"
    by blast
  have "map_sum id (\<lambda>r. (m_dtIntegration (snd r), getDt (snd r))) (setDt demo_ik_lib ?st (Finite ?dt)) =
     Inr (10000000, Finite ?dt)"
    using n g by (simp only: r f) simp
  moreover have "(5764607523034235 / 2 ^ 59 * 10 ^ 9 :: real) < 2 ^ 53" by simp
  moreover have "\<lfloor>5764607523034235 / 2 ^ 59 * 10 ^ 9 :: real\<rfloor> = 10000000" by simp
  ultimately show ?thesis using a b c d e by (simp only: simp_thms)
qed

text \<open>
  Claim C10 as stated fails in three ways. A timestep of \<open>10^10\<close> seconds is a double, and
  its \<open>10^19\<close> nanoseconds are beyond the 64-bit count (\<open>2^63\<close> is about \<open>9.22 * 10^18\<close>): the
  conversion in \<open>setDt\<close> has no defined result, as it has none for the positive
  infinity. The double nearest to nine thousandths of
  a second, \<open>5188146770730811 / 2^59\<close>, is just below them: the floor of its exact count of
  nanoseconds is \<open>8999999\<close>, but the product is rounded to \<open>9000000\<close>, which \<open>setDt\<close> stores,
  and \<open>getDt\<close> returns the timestep as it was given, not \<open>8999999 / 10^9\<close>. And on an object
  that was never initialised \<open>setDt\<close> dereferences the null pointer to the integrator.
\<close>

theorem setDt_out_of_range_counterexample:
  "double_round (10 ^ 10) = Finite (10 ^ 10) \<and>
   setDt demo_ik_lib (with_system (Some (m_system demo_ik)) demo_ik) (Finite (10 ^ 10)) =
     Inl OutOfRange \<and>
   setDt demo_ik_lib (with_system (Some (m_system demo_ik)) demo_ik) (Infinite True) =
     Inl OutOfRange \<and>
   double_round (5188146770730811 / 2 ^ 59) = Finite (5188146770730811 / 2 ^ 59) \<and>
   \<lfloor>5188146770730811 / 2 ^ 59 * 10 ^ 9 :: real\<rfloor> = 8999999 \<and>
   map_sum id (\<lambda>r. (m_dtIntegration (snd r), getDt (snd r)))
     (setDt demo_ik_lib (with_system (Some (m_system demo_ik)) demo_ik)
        (Finite (5188146770730811 / 2 ^ 59))) =
     Inr (9000000, Finite (5188146770730811 / 2 ^ 59)) \<and>
   Finite (5188146770730811 / 2 ^ 59) \<noteq> Finite (8999999 / 10 ^ 9) \<and>
   setDt demo_ik_lib (with_system None demo_ik) (Finite (5764607523034235 / 2 ^ 59)) =
     Inl NullPointer"
proof -
  have 1: "double_round (10 ^ 10) = Finite (10 ^ 10)"
    by (simp add: double_round_def floor_log2_def compute_bitlen round_half_even_def Let_def)
  have 2: "double_round (10 ^ 10 * 10 ^ 9) = Finite (10 ^ 19)"
    by (simp add: double_round_def floor_log2_def compute_bitlen round_half_even_def Let_def)
  have "duration_cast_nanoseconds (Finite (10 ^ 10)) = Inl OutOfRange"
    by (simp only: duration_cast_nanoseconds_def double.case 2)
      (simp add: truncate_toward_zero_def)
  then have 3: "setDt demo_ik_lib (with_system (Some (m_system demo_ik)) demo_ik)
      (Finite (10 ^ 10)) = Inl OutOfRange"
    by (simp only: setDt_def sum.case)
  have 4: "double_round (5188146770730811 / 2 ^ 59) = Finite (5188146770730811 / 2 ^ 59)"
    by (simp add: double_round_def floor_log2_def compute_bitlen round_half_even_def Let_def)
  have 5: "double_round (5188146770730811 / 2 ^ 59 * 10 ^ 9) = Finite 9000000"
    by (simp add: double_round_def floor_log2_def compute_bitlen round_half_even_def Let_def)
  have 6: "double_round (9000000 / 10 ^ 9) = Finite (5188146770730811 / 2 ^ 59)"
    by (simp add: double_round_def floor_log2_def compute_bitlen round_half_even_def Let_def)
  have 7: "double_round (real_of_int 9000000) = Finite 9000000"
    by (simp add: double_round_def floor_log2_def compute_bitlen round_half_even_def Let_def)
  have c: "duration_cast_nanoseconds (Finite (5188146770730811 / 2 ^ 59)) = Inr 9000000"
    by (simp only: duration_cast_nanoseconds_def double.case 5)
      (simp add: truncate_toward_zero_def)
  have s: "duration_cast_seconds 9000000 = Finite (5188146770730811 / 2 ^ 59)"
    by (simp only: duration_cast_seconds_def double.case 7 6)
  have 8: "map_sum id (\<lambda>r. (m_dtIntegration (snd r), getDt (snd r)))
     (setDt demo_ik_lib (with_system (Some (m_system demo_ik)) demo_ik)
        (Finite (5188146770730811 / 2 ^ 59))) =
     Inr (9000000, Finite (5188146770730811 / 2 ^ 59))"
    by (simp only: setDt_def c sum.case)
      (simp add: Let_def with_system_def demo_ik_lib_def demo_ik_def getDt_def s)
  have 9: "\<lfloor>5188146770730811 / 2 ^ 59 * 10 ^ 9 :: real\<rfloor> = 8999999" by simp
  have 10: "Finite (5188146770730811 / 2 ^ 59) \<noteq> Finite (8999999 / 10 ^ 9)" by simp
  have 11: "double_round (5764607523034235 / 2 ^ 59 * 10 ^ 9) = Finite 10000000"
    by (simp add: double_round_def floor_log2_def compute_bitlen round_half_even_def Let_def)
  have "duration_cast_nanoseconds (Finite (5764607523034235 / 2 ^ 59)) = Inr 10000000"
    by (simp only: duration_cast_nanoseconds_def double.case 11)
      (simp add: truncate_toward_zero_def)
  then have 12: "setDt demo_ik_lib (with_system None demo_ik)
      (Finite (5764607523034235 / 2 ^ 59)) = Inl NullPointer"
    by (simp only: setDt_def sum.case) (simp add: Let_def with_system_def)
  have 13: "setDt demo_ik_lib (with_system (Some (m_system demo_ik)) demo_ik) (Infinite True) =
      Inl OutOfRange"
    by (simp add: setDt_def duration_cast_nanoseconds_def)
  from 1 3 13 4 9 8 10 12 show ?thesis by (simp only: simp_thms)
qed

subsection \<open>Accessors\<close>

text \<open>
  Claim C9. In every state the four base accessors return true and hand out the position
  and rotation blocks of the cached base pose and the first and the last three
  coefficients of the cached base velocity: they have no check and no failing branch.
\<close>

theorem base_accessors_always_true:
  "getBasePosition st b1 = (True, topRightCorner (m_basePose st)) \<and>
   getBaseOrientation st b2 = (True, topLeftCorner (m_basePose st)) \<and>
   getBaseLinearVelocity st b3 = (True, take 3 (m_baseVelocity st)) \<and>
   getBaseAngularVelocity st b4 =
     (True, drop (length (m_baseVelocity st) - 3) (m_baseVelocity st))"
  by (simp add: getBasePosition_def getBaseOrientation_def getBaseLinearVelocity_def
      getBaseAngularVelocity_def)

text \<open>
  \<open>initialize\<close>, once past the check of the model, leaves the cached joint vectors at the
  length of the model's number of degrees of freedom, which it stores in \<open>m_nrDoFs\<close>,
  whether it then returns true or false.
\<close>

lemma length_span_write: "length (span_write buffer xs) = length buffer"
  by (simp add: span_write_def)

lemma length_eigen_resize: "length (eigen_resize fill n v) = n"
  by (simp add: eigen_resize_def)

lemma initialize_state_dofs:
  "dofs_consistent (initialize_state L st k) \<and>
   m_nrDoFs (initialize_state L st k) = int (kinDyn_getNrOfDegreesOfFreedom L k)"
  by (simp add: initialize_state_def dofs_consistent_def Let_def length_span_write
      length_eigen_resize split: prod.splits)

lemma initialize_SO3Task_sizes:
  "initialize_SO3Task L k name h ok st = Inr (r, st') \<Longrightarrow>
   m_jointPositions st' = m_jointPositions st \<and> m_jointVelocities st' = m_jointVelocities st \<and>
   m_nrDoFs st' = m_nrDoFs st"
  by (auto simp add: initialize_SO3Task_def Let_def
      split: option.splits sum.splits prod.splits if_splits)

lemma initializeGravityTask_sizes:
  "initializeGravityTask L st name h = (r, st') \<Longrightarrow>
   m_jointPositions st' = m_jointPositions st \<and> m_jointVelocities st' = m_jointVelocities st \<and>
   m_nrDoFs st' = m_nrDoFs st"
  by (auto simp add: initializeGravityTask_def Let_def
      split: option.splits prod.splits if_splits)

lemma initialize_tasks_sizes:
  "initialize_tasks L k ptr names ok st = Inr (r, st') \<Longrightarrow>
   m_jointPositions st' = m_jointPositions st \<and> m_jointVelocities st' = m_jointVelocities st \<and>
   m_nrDoFs st' = m_nrDoFs st"
proof (induction names arbitrary: ok st)
  case Nil
  then show ?case by simp
next
  case (Cons name names)
  show ?case
  proof (cases "getGroup ptr name")
    case None
    then show ?thesis using Cons.prems by simp
  next
    case (Some h)
    show ?thesis
    proof (cases "getParameter_string h ''type''")
      case None
      then show ?thesis using Cons.prems Some by simp
    next
      case ty: (Some taskType)
      consider (so3) "taskType = ''SO3Task''" | (gravity) "taskType \<noteq> ''SO3Task''" "taskType = ''GravityTask''"
        | (other) "taskType \<noteq> ''SO3Task''" "taskType \<noteq> ''GravityTask''" by blast
      then show ?thesis
      proof cases
        case so3
        then show ?thesis
          using Cons.prems Some ty Cons.IH initialize_SO3Task_sizes [of L k name h ok st]
          by (auto split: sum.splits option.splits prod.splits)
      next
        case gravity
        obtain okg st1 where g: "initializeGravityTask L st name h = (okg, st1)"
          by (cases "initializeGravityTask L st name h")
        show ?thesis
          using Cons.prems Some ty gravity g Cons.IH [of ok st1] initializeGravityTask_sizes [OF g]
          by (auto split: if_splits)
      next
        case other
        then show ?thesis using Cons.prems Some ty by simp
      qed
    qed
  qed
qed

lemma HumanIK_initialize_dofs:
  assumes "HumanIK_initialize L st h (Some k) = Inr (ok, st')" and "kinDyn_isValid L k"
  shows "dofs_consistent st' \<and> m_nrDoFs st' = int (kinDyn_getNrOfDegreesOfFreedom L k)"
proof -
  let ?st1 = "initialize_state L st k"
  have "m_jointPositions st' = m_jointPositions ?st1 \<and>
        m_jointVelocities st' = m_jointVelocities ?st1 \<and> m_nrDoFs st' = m_nrDoFs ?st1"
    using assms initialize_tasks_sizes [of L k]
    by (fastforce simp add: HumanIK_initialize_def Let_def
        split: option.splits sum.splits prod.splits if_splits)
  then show ?thesis using initialize_state_dofs [of L st k] by (simp add: dofs_consistent_def)
qed

text \<open>
  The per-cycle calls keep the cached joint vectors at the length \<open>m_nrDoFs\<close>;
  \<open>advance\<close> does so when the solver's joint velocity and the integrator's joint
  position have that length.
\<close>

lemma dofs_consistent_setNodeSetPoint:
  "dofs_consistent st \<Longrightarrow> dofs_consistent (snd (setNodeSetPoint L st node R w))"
  by (simp add: setNodeSetPoint_def dofs_consistent_def split: option.splits prod.splits)

lemma dofs_consistent_TPoseCalibrationNode:
  "dofs_consistent st \<Longrightarrow> dofs_consistent (snd (TPoseCalibrationNode L st node R))"
  by (simp add: TPoseCalibrationNode_def dofs_consistent_def split: option.splits prod.splits)

lemma dofs_consistent_setDt:
  "dofs_consistent st \<Longrightarrow> setDt L st dt = Inr (ok, st') \<Longrightarrow> dofs_consistent st'"
  by (auto simp add: setDt_def dofs_consistent_def Let_def
      split: sum.splits prod.splits option.splits)

lemma dofs_consistent_advance:
  "dofs_consistent st \<Longrightarrow>
   int (length (jointVelocity (qp_getOutput L (m_qpIK (snd (advance L st)))))) = m_nrDoFs st \<Longrightarrow>
   int (length (snd (snd (integrator_getSolution L (m_system (snd (advance L st))))))) = m_nrDoFs st \<Longrightarrow>
   dofs_consistent (snd (advance L st))"
  by (auto simp add: advance_def dofs_consistent_def Let_def split: option.splits prod.splits if_splits)

text \<open>
  Claim C6. With \<open>D = m_nrDoFs\<close> and the cached joint vectors of that length, as
  \<open>initialize\<close> leaves them,
  \<open>getJointPositions\<close> and \<open>getJointVelocities\<close> return true and the cached vector exactly
  when the caller's buffer has length \<open>D\<close>, and return false and leave the buffer as it
  was for every other length. Both are functions of the state and the buffer alone: they
  run no solve and return no new state.
\<close>

theorem joint_accessors_size_check:
  assumes "dofs_consistent st"
  shows "getJointPositions st buf =
           (if int (length buf) = m_nrDoFs st then (True, m_jointPositions st) else (False, buf)) \<and>
         getJointVelocities st buf =
           (if int (length buf) = m_nrDoFs st then (True, m_jointVelocities st) else (False, buf))"
  using assms by (auto simp add: getJointPositions_def getJointVelocities_def dofs_consistent_def)

theorem joint_accessors_size_check_witness:
  "dofs_consistent demo_ik \<and>
   getJointPositions demo_ik [9] = (True, [0]) \<and> getJointVelocities demo_ik [9] = (True, [1]) \<and>
   getJointPositions demo_ik [9, 9] = (False, [9, 9]) \<and>
   getJointVelocities demo_ik [] = (False, [])"
proof -
  have h: "dofs_consistent demo_ik" by (simp add: dofs_consistent_def demo_ik_def)
  show ?thesis
    using h joint_accessors_size_check [OF h, of "[9]"] joint_accessors_size_check [OF h, of "[9, 9]"]
      joint_accessors_size_check [OF h, of "[]"]
    by (simp add: demo_ik_def)
qed

subsection \<open>Nodes and calibration\<close>

text \<open>
  Claim C7. For a node number that is not a key of the task map, \<open>setNodeSetPoint\<close> and
  \<open>TPoseCalibrationNode\<close> return false and leave the whole state as it was, so the task
  and the calibration matrix of every configured node with it.
\<close>

theorem unconfigured_node_rejected:
  assumes "m_OrientationTasks st node = None"
  shows "setNodeSetPoint L st node I_R_IMU I_omega_IMU = (False, st) \<and>
         TPoseCalibrationNode L st node I_R_IMU = (False, st)"
  using assms by (simp add: setNodeSetPoint_def TPoseCalibrationNode_def)

theorem unconfigured_node_rejected_witness:
  "m_OrientationTasks demo_ik 7 = None \<and>
   fst (setNodeSetPoint demo_ik_lib demo_ik 7 2 [0, 0, 1]) = False \<and>
   m_OrientationTasks (snd (setNodeSetPoint demo_ik_lib demo_ik 7 2 [0, 0, 1])) 1 =
     m_OrientationTasks demo_ik 1 \<and>
   fst (TPoseCalibrationNode demo_ik_lib demo_ik 7 2) = False \<and>
   m_OrientationTasks (snd (TPoseCalibrationNode demo_ik_lib demo_ik 7 2)) 1 =
     m_OrientationTasks demo_ik 1"
proof -
  have h: "m_OrientationTasks demo_ik 7 = None" by (simp add: demo_ik_def)
  show ?thesis
    using h unconfigured_node_rejected [OF h, of demo_ik_lib 2 "[0, 0, 1]"] by simp
qed

text \<open>
  A call that does not calibrate a node keeps that node's calibration matrix and its
  sensor-to-link rotation, and no call changes \<open>calib_R_link\<close>.
\<close>

lemma ik_call_keeps_calibration:
  assumes "\<not> calibrates node c" and "m_OrientationTasks st node = Some e"
  shows "\<exists>e'. m_OrientationTasks (ik_call_state L st c) node = Some e' \<and>
              calibrationMatrix e' = calibrationMatrix e \<and> IMU_R_link e' = IMU_R_link e"
proof (cases c)
  case (SetNodeSetPoint n R w)
  then show ?thesis using assms(2)
    by (cases "m_OrientationTasks st n")
       (auto simp add: setNodeSetPoint_def Let_def split: prod.splits)
next
  case (TPoseCalibration n R)
  then have "n \<noteq> node" using assms(1) by simp
  then show ?thesis using TPoseCalibration assms(2)
    by (cases "m_OrientationTasks st n") (auto simp add: TPoseCalibrationNode_def)
next
  case Advance
  then show ?thesis using assms(2)
    by (auto simp add: advance_def Let_def split: prod.splits)
qed

lemma ik_call_keeps_calib_R_link: "calib_R_link (ik_call_state L st c) = calib_R_link st"
  by (cases c)
     (auto simp add: setNodeSetPoint_def TPoseCalibrationNode_def advance_def Let_def
        split: prod.splits option.splits)

lemma ik_calls_keep_calibration:
  assumes "\<forall>c \<in> set cs. \<not> calibrates node c" and "m_OrientationTasks st node = Some e"
  shows "\<exists>e'. m_OrientationTasks (ik_calls_state L st cs) node = Some e' \<and>
              calibrationMatrix e' = calibrationMatrix e \<and> IMU_R_link e' = IMU_R_link e"
  using assms
proof (induction cs arbitrary: st e)
  case Nil
  then show ?case by simp
next
  case (Cons c cs)
  from Cons.prems have nc: "\<not> calibrates node c" and rest: "\<forall>c \<in> set cs. \<not> calibrates node c"
    by simp_all
  from ik_call_keeps_calibration [OF nc Cons.prems(2), of L]
  obtain e1 where e1: "m_OrientationTasks (ik_call_state L st c) node = Some e1"
    and k: "calibrationMatrix e1 = calibrationMatrix e" "IMU_R_link e1 = IMU_R_link e"
    by blast
  from Cons.IH [OF rest e1] k show ?case by simp
qed

lemma TPoseCalibrationNode_tasks:
  "map_option task \<circ> m_OrientationTasks (snd (TPoseCalibrationNode L st n R)) =
   map_option task \<circ> m_OrientationTasks st"
  by (cases "m_OrientationTasks st n") (auto simp add: TPoseCalibrationNode_def fun_eq_iff)

text \<open>
  Claim C5. Let \<open>node\<close> be configured and calibrated with the reading \<open>R0\<close>, and let any
  calls follow, none of them a calibration of \<open>node\<close>. Then the node still holds the
  calibration matrix \<open>calib_R_link * (R0 * IMU_R_link)\<inverse>\<close> of that calibration, and a
  \<open>setNodeSetPoint\<close> with the reading \<open>R\<close> hands the node's task the set-point
  \<open>calibrationMatrix * R * IMU_R_link\<close>. A calibration call, of any node at any time,
  leaves every task, and so every set-point pushed before it, as it was.
\<close>

theorem calibration_composed_until_recalibrated:
  assumes conf: "m_OrientationTasks st node = Some e"
    and keep: "\<forall>c \<in> set cs. \<not> calibrates node c"
    and later: "st2 = ik_calls_state L (snd (TPoseCalibrationNode L st node R0)) cs"
  shows "(\<exists>e2. m_OrientationTasks st2 node = Some e2 \<and>
            calibrationMatrix e2 =
              so3_compose L (calib_R_link st) (so3_inverse L (so3_compose L R0 (IMU_R_link e))) \<and>
            IMU_R_link e2 = IMU_R_link e \<and>
            m_OrientationTasks (snd (setNodeSetPoint L st2 node R w)) node =
              Some (e2\<lparr>task := snd (task_setSetPoint L
                 (so3_compose L (so3_compose L (calibrationMatrix e2) R) (IMU_R_link e2)) w
                 (task e2))\<rparr>)) \<and>
         map_option task \<circ> m_OrientationTasks (snd (TPoseCalibrationNode L st2 n R1)) =
           map_option task \<circ> m_OrientationTasks st2"
proof -
  let ?C = "so3_compose L (calib_R_link st) (so3_inverse L (so3_compose L R0 (IMU_R_link e)))"
  let ?st1 = "snd (TPoseCalibrationNode L st node R0)"
  have e1: "m_OrientationTasks ?st1 node = Some (e\<lparr>calibrationMatrix := ?C\<rparr>)"
    using conf by (simp add: TPoseCalibrationNode_def)
  from ik_calls_keep_calibration [OF keep e1, of L] later
  obtain e2 where e2: "m_OrientationTasks st2 node = Some e2"
    and c2: "calibrationMatrix e2 = ?C" and m2: "IMU_R_link e2 = IMU_R_link e"
    by auto
  have sp: "m_OrientationTasks (snd (setNodeSetPoint L st2 node R w)) node =
      Some (e2\<lparr>task := snd (task_setSetPoint L
         (so3_compose L (so3_compose L (calibrationMatrix e2) R) (IMU_R_link e2)) w (task e2))\<rparr>)"
    using e2 by (simp add: setNodeSetPoint_def Let_def split: prod.splits)
  show ?thesis using e2 c2 m2 sp TPoseCalibrationNode_tasks [of L st2 n R1] by blast
qed

text \<open>
  Node 1 is calibrated with three quarter turns; a cycle and a set-point later, the
  reading of two quarter turns reaches the task as \<open>- 3 + 2 + 0\<close> quarter turns.
\<close>

theorem calibration_composed_until_recalibrated_witness:
  "m_OrientationTasks demo_ik 1 =
     Some \<lparr>task = None, nodeNumber = 1, IMU_R_link = 0, calibrationMatrix = 0\<rparr> \<and>
   \<not> calibrates 1 (Advance :: int ik_call) \<and>
   \<not> calibrates 1 (SetNodeSetPoint 1 (1::int) [0, 0, 0]) \<and>
   map_option task (m_OrientationTasks (snd (setNodeSetPoint demo_ik_lib
      (ik_calls_state demo_ik_lib (snd (TPoseCalibrationNode demo_ik_lib demo_ik 1 3))
         [Advance, SetNodeSetPoint 1 1 [0, 0, 0]]) 1 2 [0, 0, 1])) 1) =
     Some (Some (- 3 + 2 + 0, [0, 0, 1]))"
proof -
  let ?e = "\<lparr>task = None :: (int \<times> vec) option, nodeNumber = 1, IMU_R_link = 0 :: int,
             calibrationMatrix = 0 :: int\<rparr>"
  let ?cs = "[Advance, SetNodeSetPoint 1 (1::int) [0, 0, 0]]"
  have conf: "m_OrientationTasks demo_ik 1 = Some ?e" by (simp add: demo_ik_def)
  have keep: "\<forall>c \<in> set ?cs. \<not> calibrates 1 c" by simp
  from calibration_composed_until_recalibrated [OF conf keep refl, of demo_ik_lib 3 2 "[0, 0, 1]" 1 5]
  obtain e2 where
    c: "calibrationMatrix e2 = so3_compose demo_ik_lib (calib_R_link demo_ik)
          (so3_inverse demo_ik_lib (so3_compose demo_ik_lib 3 (IMU_R_link ?e)))"
    and m: "IMU_R_link e2 = IMU_R_link ?e"
    and s: "m_OrientationTasks (snd (setNodeSetPoint demo_ik_lib
              (ik_calls_state demo_ik_lib (snd (TPoseCalibrationNode demo_ik_lib demo_ik 1 3)) ?cs)
              1 2 [0, 0, 1])) 1 =
            Some (e2\<lparr>task := snd (task_setSetPoint demo_ik_lib
               (so3_compose demo_ik_lib (so3_compose demo_ik_lib (calibrationMatrix e2) 2)
                  (IMU_R_link e2)) [0, 0, 1] (task e2))\<rparr>)"
    by blast
  have "map_option task (m_OrientationTasks (snd (setNodeSetPoint demo_ik_lib
      (ik_calls_state demo_ik_lib (snd (TPoseCalibrationNode demo_ik_lib demo_ik 1 3)) ?cs)
         1 2 [0, 0, 1])) 1) = Some (Some (- 3 + 2 + 0, [0, 0, 1]))"
    unfolding s using c m by (simp add: demo_ik_lib_def demo_ik_def)
  with conf show ?thesis by simp
qed

subsection \<open>The control cycle\<close>

text \<open>
  Claim C1, as amended. \<open>advance\<close> (1) runs the solver on the model and the tasks; (2)
  returns false, with nothing but the solver changed, when the solve does not converge or
  its output is not valid; (3) otherwise caches the generalized velocity this solve
  returned, hands it to the dynamical system as its control input and integrates from 0 to
  the timestep, returning false with the cached pose, the cached joint positions and the
  model untouched when the control input or the integration is refused; (4) otherwise
  copies the integrator's solution into the cached base pose and joint positions and sets
  the model's state to the cached pose, joint positions, velocities and gravity. So it
  returns true exactly when the solve, its validity check, the control input and the
  integration all succeed, and then the cached state is the integrator's solution for the
  velocity of this cycle and the model's state matches it.
\<close>

theorem advance_cycle:
  assumes qp: "qp_advance L (m_kinDyn st) (map_option task \<circ> m_OrientationTasks st) (m_qpIK st)
                 = (conv, qp')"
    and out: "qp_getOutput L qp' = out"
    and ci: "dynamics_setControlInput L (baseVelocity out, jointVelocity out) (m_system st)
               = (ok3, sys3)"
    and ig: "integrator_integrate L 0 (m_dtIntegration st) sys3 = (ok4, sys4)"
    and sol: "integrator_getSolution L sys4 = (p, R, q)"
    and res: "advance L st = (ok, st')"
  shows "(ok \<longleftrightarrow> conv \<and> qp_isOutputValid L qp' \<and> ok3 \<and> ok4) \<and>
         (\<not> (conv \<and> qp_isOutputValid L qp') \<longrightarrow> st' = st\<lparr>m_qpIK := qp'\<rparr>) \<and>
         (conv \<and> qp_isOutputValid L qp' \<longrightarrow>
            m_jointVelocities st' = jointVelocity out \<and> m_baseVelocity st' = baseVelocity out) \<and>
         (conv \<and> qp_isOutputValid L qp' \<and> \<not> (ok3 \<and> ok4) \<longrightarrow>
            m_basePose st' = m_basePose st \<and> m_jointPositions st' = m_jointPositions st \<and>
            m_kinDyn st' = m_kinDyn st) \<and>
         (ok \<longrightarrow>
            topRightCorner (m_basePose st') = p \<and>
            topLeftCorner (m_basePose st') = so3_rotation L R \<and>
            bottomRow (m_basePose st') = bottomRow (m_basePose st) \<and>
            m_jointPositions st' = q \<and>
            m_kinDyn st' =
              kinDyn_setRobotState L (m_basePose st') (m_jointPositions st') (m_baseVelocity st')
                (m_jointVelocities st') (m_gravity st) (m_kinDyn st))"
proof (cases "conv \<and> qp_isOutputValid L qp'")
  case False
  then show ?thesis using qp res by (auto simp add: advance_def Let_def)
next
  case solved: True
  show ?thesis using solved qp out ci ig sol res
    by (cases ok3; cases ok4) (auto simp add: advance_def Let_def)
qed

text \<open>
  A cycle of the example: the solver returns the joint velocity 4 and the base velocity 2
  along x, and half a second later the joint is at 2 and the base at 1, in the cache and
  in the model.
\<close>

theorem advance_cycle_witness:
  "fst (advance demo_ik_lib demo_ik) \<and>
   m_jointVelocities (snd (advance demo_ik_lib demo_ik)) = [4] \<and>
   m_jointPositions (snd (advance demo_ik_lib demo_ik)) = [2] \<and>
   topRightCorner (m_basePose (snd (advance demo_ik_lib demo_ik))) = [1, 0, 0] \<and>
   kin_s (m_kinDyn (snd (advance demo_ik_lib demo_ik))) = [2] \<and>
   kin_s_dot (m_kinDyn (snd (advance demo_ik_lib demo_ik))) = [4]"
proof -
  let ?sys3 = "(m_system demo_ik)\<lparr>sys_twist := [2, 0, 0, 0, 0, 0], sys_jointVelocity := [4]\<rparr>"
  let ?sys4 = "?sys3\<lparr>sys_position := [1, 0, 0], sys_turns := 0, sys_joints := [2]\<rparr>"
  have qp: "qp_advance demo_ik_lib (m_kinDyn demo_ik) (map_option task \<circ> m_OrientationTasks demo_ik)
              (m_qpIK demo_ik) = (True, m_qpIK demo_ik)"
    by (simp add: demo_ik_lib_def demo_ik_def)
  have out: "qp_getOutput demo_ik_lib (m_qpIK demo_ik) =
               \<lparr>jointVelocity = [4], baseVelocity = [2, 0, 0, 0, 0, 0]\<rparr>"
    by (simp add: demo_ik_lib_def demo_ik_def)
  have ci: "dynamics_setControlInput demo_ik_lib
              (baseVelocity \<lparr>jointVelocity = [4], baseVelocity = [2, 0, 0, 0, 0, 0]\<rparr>,
               jointVelocity \<lparr>jointVelocity = [4], baseVelocity = [2, 0, 0, 0, 0, 0]\<rparr>)
              (m_system demo_ik) = (True, ?sys3)"
    by (simp add: demo_ik_lib_def demo_ik_def)
  have ig: "integrator_integrate demo_ik_lib 0 (m_dtIntegration demo_ik) ?sys3 = (True, ?sys4)"
    by (simp add: demo_ik_lib_def demo_ik_def demo_integrate_def)
  have sol: "integrator_getSolution demo_ik_lib ?sys4 = ([1, 0, 0], 0, [2])"
    by (simp add: demo_ik_lib_def)
  have res: "advance demo_ik_lib demo_ik =
               (fst (advance demo_ik_lib demo_ik), snd (advance demo_ik_lib demo_ik))"
    by simp
  have v: "qp_isOutputValid demo_ik_lib (m_qpIK demo_ik)"
    by (simp add: demo_ik_lib_def demo_ik_def)
  show ?thesis
    using advance_cycle [OF qp out ci ig sol res] v
    by (simp add: demo_ik_lib_def demo_ik_def)
qed

text \<open>
  Claim C1 as stated fails on the same cycle. The previous cycle left the joint velocity
  1; the solve of this cycle returns 4. After the call the joint position is the Euler
  step of half a second with the velocity 4 of this cycle, and it is not the step with
  the velocity 1 of the previous cycle. And with an integrator whose step was never set,
  the same solve succeeds, the integration is refused, and the call returns false with
  the joint position where it was.
\<close>

theorem advance_previous_velocity_counterexample:
  "fst (advance demo_ik_lib demo_ik) \<and>
   m_jointVelocities demo_ik = [1] \<and>
   m_jointPositions (snd (advance demo_ik_lib demo_ik)) =
     map2 (\<lambda>q v. q + 1 / 2 * v) (m_jointPositions demo_ik) [4] \<and>
   m_jointPositions (snd (advance demo_ik_lib demo_ik)) \<noteq>
     map2 (\<lambda>q v. q + 1 / 2 * v) (m_jointPositions demo_ik) (m_jointVelocities demo_ik) \<and>
   qp_converges (m_qpIK demo_ik) \<and> qp_valid (m_qpIK demo_ik) \<and>
   \<not> fst (advance demo_ik_lib (demo_ik\<lparr>m_system := (m_system demo_ik)\<lparr>sys_step := 0\<rparr>\<rparr>)) \<and>
   m_jointPositions (snd (advance demo_ik_lib
      (demo_ik\<lparr>m_system := (m_system demo_ik)\<lparr>sys_step := 0\<rparr>\<rparr>))) = m_jointPositions demo_ik"
  by (simp add: advance_def demo_ik_lib_def demo_ik_def demo_integrate_def Let_def)

section \<open>Properties of \<open>HumanID\<close>\<close>

lemmas demo_simps = demo_id_def demo_id_lib_def demo_body_def demo_sources_def main_kinDyn_def
  ext_kinDyn_def Let_def read_at_def write_at_def identity_Transform_def Vector6_zero_def

lemmas update_simps = updateExtWrenchesMeasurements_def sync_full_model_def sync_joint_def
  set_ext_kinDyn_def set_measurement_def computeRCMInBaseFrame_def sensorRange_offset_def

subsection \<open>A failed \<open>solve\<close>\<close>

text \<open>
  What each stage of \<open>solve\<close> leaves as it was: the first stage the joint-torque helper,
  the second the estimated wrenches; neither touches the sources or the pointers.
\<close>


lemma solve_ext_wrenches_failed:
  assumes "solve_ext_wrenches L st = Inr (False, st')"
  shows "m_jointTorquesHelper st' = m_jointTorquesHelper st \<and>
         m_estimatedExtWrenches st' = m_estimatedExtWrenches st \<and>
         m_wrenchSources st' = m_wrenchSources st \<and> m_kinDynID st' = m_kinDynID st \<and>
         kinDyn (m_extWrenchesEstimator st') = kinDyn (m_extWrenchesEstimator st)"
  using assms
  by (auto simp add: solve_ext_wrenches_def Let_def
      split: sum.splits option.splits prod.splits if_splits)

lemma solve_ext_wrenches_kept:
  assumes "solve_ext_wrenches L st = Inr (ok, st')"
  shows "m_jointTorquesHelper st' = m_jointTorquesHelper st \<and>
         m_wrenchSources st' = m_wrenchSources st \<and> m_kinDynID st' = m_kinDynID st \<and>
         kinDyn (m_extWrenchesEstimator st') = kinDyn (m_extWrenchesEstimator st)"
  using assms
  by (auto simp add: solve_ext_wrenches_def Let_def
      split: sum.splits option.splits prod.splits if_splits)

lemma solve_joint_torques_kept:
  assumes "solve_joint_torques L st = Inr (ok, st')"
  shows "m_estimatedExtWrenches st' = m_estimatedExtWrenches st \<and>
         m_wrenchSources st' = m_wrenchSources st \<and> m_kinDynID st' = m_kinDynID st \<and>
         m_extWrenchesEstimator st' = m_extWrenchesEstimator st \<and>
         m_kinState st' = m_kinState st"
  using assms
  by (auto simp add: solve_joint_torques_def Let_def
      split: sum.splits option.splits prod.splits if_splits)

lemma solve_joint_torques_failed:
  assumes "solve_joint_torques L st = Inr (False, st')"
  shows "getJointTorques st' = getJointTorques st \<or>
         (\<exists>bh vars. berdy_extractJointTorquesFromDynamicVariables L bh vars
                      (jointsPosition (m_kinState st)) (getJointTorques st) =
                    (False, getJointTorques st'))"
  using assms
  by (auto simp add: solve_joint_torques_def getJointTorques_def Let_def
      split: sum.splits option.splits prod.splits if_splits)


text \<open>
  The loop over the wrench sources in \<open>solve\<close>: when it runs through, every link index it
  read is one of the link wrenches, the estimated wrenches have a place for every source,
  and place \<open>i\<close> holds the link wrench of the output frame of source \<open>i\<close>; the places after
  the sources are as they were.
\<close>

lemma copy_link_wrenches_result:
  assumes "copy_link_wrenches getLinkIndex linkExtWrenches srcs i est = Inr est'" and "0 \<le> i"
  shows "est' = take (nat i) est @
           map (\<lambda>src. linkExtWrenches ! nat (getLinkIndex (outputFrame src))) srcs @
           drop (nat i + length srcs) est"
  using assms
proof (induction srcs arbitrary: i est)
  case Nil
  then show ?case by simp
next
  case (Cons src rest)
  from Cons.prems(1) obtain w est1
    where r: "read_at (getLinkIndex (outputFrame src)) linkExtWrenches = Inr w"
      and wr: "write_at i w est = Inr est1"
      and c: "copy_link_wrenches getLinkIndex linkExtWrenches rest (i + 1) est1 = Inr est'"
    by (auto split: sum.splits)
  from r have w: "w = linkExtWrenches ! nat (getLinkIndex (outputFrame src))"
    by (simp add: read_at_def split: if_splits)
  from wr have i: "nat i < length est" and est1: "est1 = est[nat i := w]"
    using Cons.prems(2) by (auto simp add: write_at_def split: if_splits)
  have n: "nat (i + 1) = Suc (nat i)" using Cons.prems(2) by simp
  have "0 \<le> i + 1" using Cons.prems(2) by simp
  from Cons.IH [OF c this]
  have "est' = take (Suc (nat i)) est1 @
           map (\<lambda>src. linkExtWrenches ! nat (getLinkIndex (outputFrame src))) rest @
           drop (Suc (nat i) + length rest) est1"
    by (simp only: n)
  moreover have "take (Suc (nat i)) est1 = take (nat i) est @ [w]"
    using i by (simp add: est1 take_Suc_conv_app_nth)
  moreover have "drop (Suc (nat i) + length rest) est1 = drop (nat i + length (src # rest)) est"
    by (simp add: est1)
  ultimately show ?case by (simp add: w)
qed

text \<open>
  A first stage that succeeds has found both models and the solver, the solver's estimate
  has succeeded, and the estimated wrenches are the link wrenches extracted from that
  estimate, source by source.
\<close>

lemma solve_ext_wrenches_succeeded:
  assumes "solve_ext_wrenches L st = Inr (True, st1)"
  shows "\<exists>k ke bs bh' bs'.
           main_kinDyn st = Inr k \<and> ext_kinDyn st = Inr ke \<and>
           berdySolver (helper (m_extWrenchesEstimator st)) = Some bs \<and>
           solver_doEstimate L
             (solver_updateEstimateInformationFloatingBase L (kd_getJointPos L ke)
                (kd_getJointVel L ke) (floatingBaseFrameIndex (m_kinState st))
                (kd_getBaseTwistAngular L k) (measurement (helper (m_extWrenchesEstimator st)))
                (berdyHelper (helper (m_extWrenchesEstimator st)), bs)) = (True, bh', bs') \<and>
           m_estimatedExtWrenches st1 =
             map (\<lambda>src. berdy_extractLinkNetExternalWrenchesFromDynamicVariables L bh'
                          (kd_getRobotModel L ke) (solver_getLastEstimate L bs') !
                        nat (kd_getLinkIndex L ke (outputFrame src)))
               (m_wrenchSources st) @
             drop (length (m_wrenchSources st)) (m_estimatedExtWrenches st) \<and>
           jointsPosition (m_kinState st1) = kd_getJointPos L k"
proof -
  from assms obtain k where k: "main_kinDyn st = Inr k"
    by (auto simp add: solve_ext_wrenches_def split: sum.splits)
  from assms k obtain ke where ke: "ext_kinDyn st = Inr ke"
    by (auto simp add: solve_ext_wrenches_def split: sum.splits)
  from assms k ke obtain bs where bs: "berdySolver (helper (m_extWrenchesEstimator st)) = Some bs"
    by (auto simp add: solve_ext_wrenches_def Let_def split: option.splits)
  obtain ok bh' bs' where est: "solver_doEstimate L
             (solver_updateEstimateInformationFloatingBase L (kd_getJointPos L ke)
                (kd_getJointVel L ke) (floatingBaseFrameIndex (m_kinState st))
                (kd_getBaseTwistAngular L k) (measurement (helper (m_extWrenchesEstimator st)))
                (berdyHelper (helper (m_extWrenchesEstimator st)), bs)) = (ok, bh', bs')"
    by (rule prod_cases3)
  from assms k ke bs est have ok: "ok"
    by (auto simp add: solve_ext_wrenches_def Let_def split: if_splits)
  from assms k ke bs est ok obtain w where
    c: "copy_link_wrenches (kd_getLinkIndex L ke)
          (berdy_extractLinkNetExternalWrenchesFromDynamicVariables L bh'
             (kd_getRobotModel L ke) (solver_getLastEstimate L bs'))
          (m_wrenchSources st) 0 (m_estimatedExtWrenches st) = Inr w"
    and w: "m_estimatedExtWrenches st1 = w"
    and p: "jointsPosition (m_kinState st1) = kd_getJointPos L k"
    by (auto simp add: solve_ext_wrenches_def Let_def split: sum.splits)
  from copy_link_wrenches_result [OF c] have
    "w = map (\<lambda>src. berdy_extractLinkNetExternalWrenchesFromDynamicVariables L bh'
                          (kd_getRobotModel L ke) (solver_getLastEstimate L bs') !
                        nat (kd_getLinkIndex L ke (outputFrame src)))
               (m_wrenchSources st) @
             drop (length (m_wrenchSources st)) (m_estimatedExtWrenches st)"
    by simp
  moreover from est ok have "solver_doEstimate L
             (solver_updateEstimateInformationFloatingBase L (kd_getJointPos L ke)
                (kd_getJointVel L ke) (floatingBaseFrameIndex (m_kinState st))
                (kd_getBaseTwistAngular L k) (measurement (helper (m_extWrenchesEstimator st)))
                (berdyHelper (helper (m_extWrenchesEstimator st)), bs)) = (True, bh', bs')"
    by simp
  ultimately have "main_kinDyn st = Inr k \<and> ext_kinDyn st = Inr ke \<and>
           berdySolver (helper (m_extWrenchesEstimator st)) = Some bs \<and>
           solver_doEstimate L
             (solver_updateEstimateInformationFloatingBase L (kd_getJointPos L ke)
                (kd_getJointVel L ke) (floatingBaseFrameIndex (m_kinState st))
                (kd_getBaseTwistAngular L k) (measurement (helper (m_extWrenchesEstimator st)))
                (berdyHelper (helper (m_extWrenchesEstimator st)), bs)) = (True, bh', bs') \<and>
           m_estimatedExtWrenches st1 =
             map (\<lambda>src. berdy_extractLinkNetExternalWrenchesFromDynamicVariables L bh'
                          (kd_getRobotModel L ke) (solver_getLastEstimate L bs') !
                        nat (kd_getLinkIndex L ke (outputFrame src)))
               (m_wrenchSources st) @
             drop (length (m_wrenchSources st)) (m_estimatedExtWrenches st) \<and>
           jointsPosition (m_kinState st1) = kd_getJointPos L k"
    using k ke bs w p by (simp only: simp_thms)
  then show ?thesis by blast
qed

text \<open>
  Claim C2, as amended. A \<open>solve\<close> that returns false leaves the wrench sources and the
  model pointers as they were, so \<open>solve\<close> can be called again. When it failed in the
  estimate of the external wrenches, \<open>getJointTorques\<close> and \<open>getEstimatedExtWrenches\<close>
  return what they returned before. When it failed later (in the kinematics update, the
  estimate of the joint torques or the extraction of the torques), the estimate of the
  external wrenches had succeeded, and \<open>getEstimatedExtWrenches\<close> returns the wrenches of
  this call: for every wrench source, in order, the link wrench of its output frame that
  the helper extracts from the estimate the solver has just made (and, after them, what
  the vector held before in any further place); \<open>getJointTorques\<close> returns what it
  returned before, unless it was the extraction that failed, when it returns what the
  extraction left in the buffer.
\<close>

theorem failed_solve_outputs:
  assumes "solve L st = Inr (False, st')"
  shows "m_wrenchSources st' = m_wrenchSources st \<and> m_kinDynID st' = m_kinDynID st \<and>
         kinDyn (m_extWrenchesEstimator st') = kinDyn (m_extWrenchesEstimator st) \<and>
         ((solve_ext_wrenches L st = Inr (False, st') \<and>
           getJointTorques st' = getJointTorques st \<and>
           getEstimatedExtWrenches st' = getEstimatedExtWrenches st) \<or>
          (\<exists>st1 k ke bs bh' bs'.
             solve_ext_wrenches L st = Inr (True, st1) \<and>
             solve_joint_torques L st1 = Inr (False, st') \<and>
             main_kinDyn st = Inr k \<and> ext_kinDyn st = Inr ke \<and>
             berdySolver (helper (m_extWrenchesEstimator st)) = Some bs \<and>
             solver_doEstimate L
               (solver_updateEstimateInformationFloatingBase L (kd_getJointPos L ke)
                  (kd_getJointVel L ke) (floatingBaseFrameIndex (m_kinState st))
                  (kd_getBaseTwistAngular L k) (measurement (helper (m_extWrenchesEstimator st)))
                  (berdyHelper (helper (m_extWrenchesEstimator st)), bs)) = (True, bh', bs') \<and>
             getEstimatedExtWrenches st' =
               map (\<lambda>src. berdy_extractLinkNetExternalWrenchesFromDynamicVariables L bh'
                            (kd_getRobotModel L ke) (solver_getLastEstimate L bs') !
                          nat (kd_getLinkIndex L ke (outputFrame src)))
                 (m_wrenchSources st) @
               drop (length (m_wrenchSources st)) (getEstimatedExtWrenches st) \<and>
             (getJointTorques st' = getJointTorques st \<or>
              (\<exists>bh vars. berdy_extractJointTorquesFromDynamicVariables L bh vars
                           (kd_getJointPos L k) (getJointTorques st) =
                         (False, getJointTorques st')))))"
proof (cases "solve_ext_wrenches L st")
  case (Inl f)
  then show ?thesis using assms by (simp add: solve_def)
next
  case (Inr r)
  obtain ok st1 where r: "r = (ok, st1)" by (cases r)
  show ?thesis
  proof (cases ok)
    case False
    then have "st' = st1" using assms Inr r by (simp add: solve_def)
    then show ?thesis
      using solve_ext_wrenches_failed [of L st st'] Inr r False
      by (simp add: getJointTorques_def getEstimatedExtWrenches_def)
  next
    case True
    then have first: "solve_ext_wrenches L st = Inr (True, st1)" using Inr r by simp
    have jt: "solve_joint_torques L st1 = Inr (False, st')"
      using assms first by (simp add: solve_def)
    have k1: "m_jointTorquesHelper st1 = m_jointTorquesHelper st"
      "m_wrenchSources st1 = m_wrenchSources st" "m_kinDynID st1 = m_kinDynID st"
      "kinDyn (m_extWrenchesEstimator st1) = kinDyn (m_extWrenchesEstimator st)"
      using solve_ext_wrenches_kept [OF first] by simp_all
    have k2: "m_estimatedExtWrenches st' = m_estimatedExtWrenches st1"
      "m_wrenchSources st' = m_wrenchSources st1" "m_kinDynID st' = m_kinDynID st1"
      "m_extWrenchesEstimator st' = m_extWrenchesEstimator st1"
      using solve_joint_torques_kept [OF jt] by simp_all
    have g: "getJointTorques st1 = getJointTorques st"
      using k1 by (simp add: getJointTorques_def)
    from solve_ext_wrenches_succeeded [OF first]
    obtain k ke bs bh' bs' where
      a: "main_kinDyn st = Inr k" "ext_kinDyn st = Inr ke"
        "berdySolver (helper (m_extWrenchesEstimator st)) = Some bs"
        "solver_doEstimate L
               (solver_updateEstimateInformationFloatingBase L (kd_getJointPos L ke)
                  (kd_getJointVel L ke) (floatingBaseFrameIndex (m_kinState st))
                  (kd_getBaseTwistAngular L k) (measurement (helper (m_extWrenchesEstimator st)))
                  (berdyHelper (helper (m_extWrenchesEstimator st)), bs)) = (True, bh', bs')"
      and e: "m_estimatedExtWrenches st1 =
               map (\<lambda>src. berdy_extractLinkNetExternalWrenchesFromDynamicVariables L bh'
                            (kd_getRobotModel L ke) (solver_getLastEstimate L bs') !
                          nat (kd_getLinkIndex L ke (outputFrame src)))
                 (m_wrenchSources st) @
               drop (length (m_wrenchSources st)) (m_estimatedExtWrenches st)"
      and p: "jointsPosition (m_kinState st1) = kd_getJointPos L k"
      by blast
    from solve_joint_torques_failed [OF jt] g p
    have t: "getJointTorques st' = getJointTorques st \<or>
         (\<exists>bh vars. berdy_extractJointTorquesFromDynamicVariables L bh vars
                      (kd_getJointPos L k) (getJointTorques st) =
                    (False, getJointTorques st'))"
      by simp
    have w: "getEstimatedExtWrenches st' =
               map (\<lambda>src. berdy_extractLinkNetExternalWrenchesFromDynamicVariables L bh'
                            (kd_getRobotModel L ke) (solver_getLastEstimate L bs') !
                          nat (kd_getLinkIndex L ke (outputFrame src)))
                 (m_wrenchSources st) @
               drop (length (m_wrenchSources st)) (getEstimatedExtWrenches st)"
      using e k2(1) by (simp add: getEstimatedExtWrenches_def)
    have s: "m_wrenchSources st' = m_wrenchSources st" "m_kinDynID st' = m_kinDynID st"
      "kinDyn (m_extWrenchesEstimator st') = kinDyn (m_extWrenchesEstimator st)"
      using k1 k2 by simp_all
    from first jt a w t have "\<exists>st1 k ke bs bh' bs'.
             solve_ext_wrenches L st = Inr (True, st1) \<and>
             solve_joint_torques L st1 = Inr (False, st') \<and>
             main_kinDyn st = Inr k \<and> ext_kinDyn st = Inr ke \<and>
             berdySolver (helper (m_extWrenchesEstimator st)) = Some bs \<and>
             solver_doEstimate L
               (solver_updateEstimateInformationFloatingBase L (kd_getJointPos L ke)
                  (kd_getJointVel L ke) (floatingBaseFrameIndex (m_kinState st))
                  (kd_getBaseTwistAngular L k) (measurement (helper (m_extWrenchesEstimator st)))
                  (berdyHelper (helper (m_extWrenchesEstimator st)), bs)) = (True, bh', bs') \<and>
             getEstimatedExtWrenches st' =
               map (\<lambda>src. berdy_extractLinkNetExternalWrenchesFromDynamicVariables L bh'
                            (kd_getRobotModel L ke) (solver_getLastEstimate L bs') !
                          nat (kd_getLinkIndex L ke (outputFrame src)))
                 (m_wrenchSources st) @
               drop (length (m_wrenchSources st)) (getEstimatedExtWrenches st) \<and>
             (getJointTorques st' = getJointTorques st \<or>
              (\<exists>bh vars. berdy_extractJointTorquesFromDynamicVariables L bh vars
                           (kd_getJointPos L k) (getJointTorques st) =
                         (False, getJointTorques st')))"
      by (intro exI [of _ st1] exI [of _ k] exI [of _ ke] exI [of _ bs] exI [of _ bh']
          exI [of _ bs']) (simp only: simp_thms)
    with s show ?thesis by (simp only: simp_thms)
  qed
qed

text \<open>
  In the example the solve fails in the estimate of the joint torques: the sources and the
  joint torque 4 are as before, the estimated wrench of the foot is the 9 along z of the
  new estimate, and the next solve succeeds.
\<close>

theorem failed_solve_outputs_witness:
  "map_sum id fst (solve demo_id_lib demo_id) = Inr False \<and>
   map_sum id (m_wrenchSources \<circ> snd) (solve demo_id_lib demo_id) = Inr demo_sources \<and>
   map_sum id (getJointTorques \<circ> snd) (solve demo_id_lib demo_id) = Inr [4] \<and>
   map_sum id (getEstimatedExtWrenches \<circ> snd) (solve demo_id_lib demo_id) =
     Inr [Vector6 0 0 9 0 0 0, Vector6 0 0 0 0 0 0] \<and>
   map_sum id fst (solve demo_id_lib (snd (projr (solve demo_id_lib demo_id)))) = Inr True"
proof -
  let ?r = "solve demo_id_lib demo_id"
  have ev: "map_sum id (\<lambda>(ok, st'). (ok, getJointTorques st', getEstimatedExtWrenches st')) ?r =
      Inr (False, [4], [Vector6 0 0 9 0 0 0, Vector6 0 0 0 0 0 0])"
    by (simp add: solve_def solve_ext_wrenches_def solve_joint_torques_def demo_simps
        getJointTorques_def getEstimatedExtWrenches_def)
  then obtain st' where run: "?r = Inr (False, st')" and t: "getJointTorques st' = [4]"
    and w: "getEstimatedExtWrenches st' = [Vector6 0 0 9 0 0 0, Vector6 0 0 0 0 0 0]"
    by (cases ?r) auto
  from failed_solve_outputs [OF run] have "m_wrenchSources st' = m_wrenchSources demo_id"
    by simp
  then have s: "m_wrenchSources st' = demo_sources" by (simp add: demo_id_def)
  have again: "map_sum id fst (solve demo_id_lib (snd (projr ?r))) = Inr True"
    by (simp add: solve_def solve_ext_wrenches_def solve_joint_torques_def demo_simps)
  from run t w s again show ?thesis by simp
qed


text \<open>
  Claim C2 as stated fails on the same solve: it returns false, and the estimated wrench
  of the foot, 5 along z before the call, is 9 after it.
\<close>


theorem failed_solve_overwrites_wrenches_counterexample:
  "map_sum id fst (solve demo_id_lib demo_id) = Inr False \<and>
   getEstimatedExtWrenches demo_id = [Vector6 0 0 5 0 0 0, Vector6 0 0 0 0 0 0] \<and>
   map_sum id (getEstimatedExtWrenches \<circ> snd) (solve demo_id_lib demo_id) =
     Inr [Vector6 0 0 9 0 0 0, Vector6 0 0 0 0 0 0]"
  by (simp add: solve_def solve_ext_wrenches_def solve_joint_torques_def demo_id_def
      demo_id_lib_def demo_body_def demo_sources_def main_kinDyn_def ext_kinDyn_def Let_def
      getEstimatedExtWrenches_def read_at_def write_at_def)


subsection \<open>The measurement vector\<close>



























lemma sync_joint_succeeds:
  assumes "i < length p" "i < length v"
    and "kd_getNrOfDegreesOfFreedom L k \<le> length (rs_s rs)"
    and "kd_getNrOfDegreesOfFreedom L k \<le> length (rs_s_dot rs)"
  shows "\<exists>p' v'. sync_joint L k ke rs i (p, v) = Inr (p', v') \<and> length p' = length p \<and>
           length v' = length v"
proof (cases "find (\<lambda>j. kd_getJointName L ke i = kd_getJointName L k j)
                [0 ..< kd_getNrOfDegreesOfFreedom L k]")
  case None
  then show ?thesis by (simp add: sync_joint_def)
next
  case (Some j)
  then have "j \<in> set [0 ..< kd_getNrOfDegreesOfFreedom L k]"
    by (auto simp add: find_Some_iff)
  then have "j < kd_getNrOfDegreesOfFreedom L k" by simp
  then show ?thesis using Some assms
    by (simp add: sync_joint_def read_at_def write_at_def)
qed

lemma sync_joints_succeeds:
  assumes "\<forall>i \<in> set is. i < length p \<and> i < length v"
    and "kd_getNrOfDegreesOfFreedom L k \<le> length (rs_s rs)"
    and "kd_getNrOfDegreesOfFreedom L k \<le> length (rs_s_dot rs)"
  shows "\<exists>p' v'. sync_joints L k ke rs is (p, v) = Inr (p', v')"
  using assms
proof (induction "is" arbitrary: p v)
  case Nil
  then show ?case by simp
next
  case (Cons i "is")
  from sync_joint_succeeds [of i p v L k rs ke] Cons.prems obtain p' v' where
    s: "sync_joint L k ke rs i (p, v) = Inr (p', v')" "length p' = length p" "length v' = length v"
    by auto
  from Cons.IH [of p' v'] Cons.prems s obtain p'' v'' where
    "sync_joints L k ke rs is (p', v') = Inr (p'', v'')" by auto
  then show ?case using s by simp
qed

lemma sync_full_model_succeeds:
  assumes "main_kinDyn st = Inr k" and "ext_kinDyn st = Inr ke"
    and "kd_getNrOfDegreesOfFreedom L ke \<le> length (jointPositions (m_extWrenchesEstimator st))"
    and "kd_getNrOfDegreesOfFreedom L ke \<le> length (jointVelocities (m_extWrenchesEstimator st))"
    and "kd_getNrOfDegreesOfFreedom L k \<le> length (rs_s (kd_getRobotState L k))"
    and "kd_getNrOfDegreesOfFreedom L k \<le> length (rs_s_dot (kd_getRobotState L k))"
  shows "\<exists>st1. sync_full_model L st = Inr st1"
proof -
  have "\<forall>i \<in> set [0 ..< kd_getNrOfDegreesOfFreedom L ke].
          i < length (jointPositions (m_extWrenchesEstimator st)) \<and>
          i < length (jointVelocities (m_extWrenchesEstimator st))"
    using assms(3,4) by auto
  from sync_joints_succeeds [OF this assms(5,6), of ke] obtain p v where
    "sync_joints L k ke (kd_getRobotState L k) [0 ..< kd_getNrOfDegreesOfFreedom L ke]
       (jointPositions (m_extWrenchesEstimator st), jointVelocities (m_extWrenchesEstimator st)) =
     Inr (p, v)" by blast
  then show ?thesis using assms(1,2) by (simp add: sync_full_model_def Let_def)
qed





text \<open>
  Claim C4, on the code as it is. For a body of 70 kg whose model has the gravity
  \<open>(0, 0, -9.81)\<close>, base and centre of mass at the origin, the wrench that
  \<open>updateExtWrenchesMeasurements\<close> writes into the places of the RCM sensor is whatever the
  unassigned local \<open>world_gravity\<close> holds, times \<open>- 70\<close>: zero when it holds zeros,
  \<open>(- 70, 0, 0)\<close> when it holds \<open>(1, 0, 0)\<close>. It is the weight \<open>686.7\<close> along z only when
  the memory happens to hold the model's gravity. The gravity of the model is not read.
\<close>

theorem rcm_wrench_ignores_model_gravity:
  "m_humanMass demo_id = 70 \<and>
   map_option (rs_world_gravity \<circ> kd_getRobotState demo_id_lib) (m_kinDynID demo_id) =
     Some (Vector3 0 0 (- 981 / 100)) \<and>
   map_sum id (\<lambda>(ok, st'). (ok, drop 12 (measurement (helper (m_extWrenchesEstimator st')))))
     (updateExtWrenchesMeasurements demo_id_lib (Vector3 0 0 0) demo_id
        [''LeftFoot'' \<mapsto> Vector6 0 0 10 0 0 0]) = Inr (True, [0, 0, 0, 0, 0, 0]) \<and>
   map_sum id (\<lambda>(ok, st'). (ok, drop 12 (measurement (helper (m_extWrenchesEstimator st')))))
     (updateExtWrenchesMeasurements demo_id_lib (Vector3 1 0 0) demo_id
        [''LeftFoot'' \<mapsto> Vector6 0 0 10 0 0 0]) = Inr (True, [- 70, 0, 0, 0, 0, 0]) \<and>
   computeRCMInBaseFrame demo_id_lib (Vector3 0 0 (- 981 / 100)) demo_id =
     Inr (Vector6 0 0 (6867 / 10) 0 0 0)"
  by (simp add: update_simps demo_simps)

subsection \<open>\<open>initialize\<close> without \<open>modelPath\<close>\<close>


lemma load_ext_model_no_path:
  "getParameter_string gh ''modelPath'' = None \<Longrightarrow>
   load_ext_model L st gh =
     Inr (False, st\<lparr>m_extWrenchesEstimator :=
       (m_extWrenchesEstimator st)\<lparr>useFullModel := False, kinDyn := MainKinDyn\<rparr>\<rparr>)"
  by (simp add: load_ext_model_def Let_def)

lemma initializeExtWrenchesHelper_no_path:
  assumes "getParameter_string gh ''modelPath'' = None"
  shows "initializeExtWrenchesHelper L st gh \<noteq> Inr (True, st')"
  using assms
  by (auto simp add: initializeExtWrenchesHelper_def load_ext_model_no_path Let_def
      split: option.splits sum.splits prod.splits)

lemma initialize_never_true:
  assumes "case getGroup ptr ''EXTERNAL_WRENCHES'' of None \<Rightarrow> True
           | Some gh \<Rightarrow> getParameter_string gh ''modelPath'' = None"
  shows "initialize L st (Some ptr) k \<noteq> Inr (True, st')"
  using assms
  by (auto simp add: initialize_def Let_def initializeExtWrenchesHelper_no_path
      split: option.splits sum.splits prod.splits if_splits)

lemma read_wrench_source_no_fault:
  assumes "case getGroup gh name of None \<Rightarrow> True | Some wh \<Rightarrow> source_arrays_long_enough wh"
  shows "read_wrench_source L gh name \<noteq> Inl f"
  using assms
  by (auto simp add: read_wrench_source_def source_arrays_long_enough_def split: option.splits)

lemma read_wrench_sources_no_fault:
  assumes "list_all (\<lambda>name. case getGroup gh name of None \<Rightarrow> True
                            | Some wh \<Rightarrow> source_arrays_long_enough wh) names"
  shows "read_wrench_sources L gh names srcs \<noteq> Inl f"
  using assms
proof (induction names arbitrary: srcs)
  case Nil
  then show ?case by simp
next
  case (Cons name names)
  then show ?case
    using read_wrench_source_no_fault [of gh name L]
    by (auto split: sum.splits option.splits)
qed

lemma initializeExtWrenchesHelper_no_fault:
  assumes "getParameter_string gh ''modelPath'' = None" and "wrench_arrays_long_enough gh"
  shows "initializeExtWrenchesHelper L st gh \<noteq> Inl f"
  using assms read_wrench_sources_no_fault [of gh _ L]
  by (auto simp add: initializeExtWrenchesHelper_def load_ext_model_no_path Let_def
      wrench_arrays_long_enough_def split: option.splits sum.splits prod.splits)

lemma initializeJointTorquesHelper_no_fault:
  "m_kinDynID st = Some k \<Longrightarrow> initializeJointTorquesHelper L st h \<noteq> Inl f"
  by (auto simp add: initializeJointTorquesHelper_def main_kinDyn_def Let_def
      split: option.splits prod.splits)

lemma initialize_no_fault:
  assumes "case getGroup ptr ''EXTERNAL_WRENCHES'' of None \<Rightarrow> True
           | Some gh \<Rightarrow> getParameter_string gh ''modelPath'' = None"
    and "case getGroup ptr ''EXTERNAL_WRENCHES'' of None \<Rightarrow> True
         | Some gh \<Rightarrow> wrench_arrays_long_enough gh"
  shows "initialize L st (Some ptr) k \<noteq> Inl f"
proof -
  have jt: "\<And>st0 k0 h. initializeJointTorquesHelper L (initialize_kinematic_state L st0 k0) h \<noteq> Inl f"
    by (rule initializeJointTorquesHelper_no_fault) (simp add: initialize_kinematic_state_def Let_def)
  show ?thesis
    using assms jt initializeExtWrenchesHelper_no_fault [of _ L _ f]
    by (auto simp add: initialize_def Let_def split: option.splits sum.splits prod.splits if_splits)
qed


text \<open>
  Claim C8. For every configuration (behind a handler that is alive) whose
  \<open>EXTERNAL_WRENCHES\<close> group has no \<open>modelPath\<close>, or that has no such group,
  \<open>initialize\<close> never returns true, whatever the model and the state it is called on;
  and it returns false whenever the arrays of the wrench sources are long enough for the
  reads the code makes of them, which are the only undefined steps on the way.
\<close>


theorem initialize_requires_modelPath:
  assumes "case getGroup ptr ''EXTERNAL_WRENCHES'' of None \<Rightarrow> True
           | Some gh \<Rightarrow> getParameter_string gh ''modelPath'' = None"
  shows "(\<forall>st'. initialize L st (Some ptr) k \<noteq> Inr (True, st')) \<and>
         ((case getGroup ptr ''EXTERNAL_WRENCHES'' of None \<Rightarrow> True
           | Some gh \<Rightarrow> wrench_arrays_long_enough gh) \<longrightarrow>
          (\<exists>st'. initialize L st (Some ptr) k = Inr (False, st')))"
proof (intro conjI allI impI)
  fix st'
  show "initialize L st (Some ptr) k \<noteq> Inr (True, st')"
    using assms by (rule initialize_never_true)
next
  assume wf: "case getGroup ptr ''EXTERNAL_WRENCHES'' of None \<Rightarrow> True
              | Some gh \<Rightarrow> wrench_arrays_long_enough gh"
  show "\<exists>st'. initialize L st (Some ptr) k = Inr (False, st')"
  proof (cases "initialize L st (Some ptr) k")
    case (Inl f)
    then show ?thesis using initialize_no_fault [OF assms wf, of L st k f] by simp
  next
    case (Inr r)
    then show ?thesis using initialize_never_true [OF assms, of L st k "snd r"]
      by (cases r) auto
  qed
qed


text \<open>
  The example configuration has every group and parameter but \<open>modelPath\<close>, and
  \<open>initialize\<close> returns false.
\<close>


theorem initialize_requires_modelPath_witness:
  "getGroup demo_config ''EXTERNAL_WRENCHES'' \<noteq> None \<and>
   map_option (\<lambda>gh. getParameter gh ''modelPath'') (getGroup demo_config ''EXTERNAL_WRENCHES'') = Some None \<and>
   map_option wrench_arrays_long_enough (getGroup demo_config ''EXTERNAL_WRENCHES'') = Some True \<and>
   map_sum id fst (initialize demo_id_lib fresh_id (Some demo_config) (Some demo_body)) = Inr False"
proof -
  have np: "case getGroup demo_config ''EXTERNAL_WRENCHES'' of None \<Rightarrow> True
            | Some gh \<Rightarrow> getParameter_string gh ''modelPath'' = None"
    by (simp add: demo_config_def getParameter_string_def)
  have wf: "case getGroup demo_config ''EXTERNAL_WRENCHES'' of None \<Rightarrow> True
            | Some gh \<Rightarrow> wrench_arrays_long_enough gh"
    by (simp add: demo_config_def wrench_arrays_long_enough_def source_arrays_long_enough_def
        getParameter_strings_def getParameter_doubles_def)
  from initialize_requires_modelPath [OF np, of demo_id_lib fresh_id "Some demo_body"] wf
  obtain st' where "initialize demo_id_lib fresh_id (Some demo_config) (Some demo_body) = Inr (False, st')"
    by blast
  then have r: "map_sum id fst (initialize demo_id_lib fresh_id (Some demo_config) (Some demo_body)) = Inr False"
    by simp
  have g: "getGroup demo_config ''EXTERNAL_WRENCHES'' \<noteq> None"
    "map_option (\<lambda>gh. getParameter gh ''modelPath'') (getGroup demo_config ''EXTERNAL_WRENCHES'') = Some None"
    "map_option wrench_arrays_long_enough (getGroup demo_config ''EXTERNAL_WRENCHES'') = Some True"
    by (simp_all add: demo_config_def wrench_arrays_long_enough_def source_arrays_long_enough_def
        getParameter_strings_def getParameter_doubles_def)
  from r g show ?thesis by simp
qed

end
